theory Spec2Isabelle
  imports Main "HOL-Library.Multiset" "HOL-Library.Sublist"
begin

unbundle bit_operations_syntax

section \<open>Python values used by the three generators\<close>

text \<open>
  The repository holds three scripts: \<^verbatim>\<open>generate-using-8bit.py\<close> (files named by
  the 8-bit port mask), \<^verbatim>\<open>generate-using-8bit-start-goal.py\<close> (start and goal markers)
  and \<^verbatim>\<open>generate.py\<close> (files named by the raw tile key).

  Python strings are modelled as \<^typ>\<open>string\<close>; a character outside ASCII stands as the
  bytes of its UTF-8 encoding, which is what the scripts write to disk. Python integers are
  \<^typ>\<open>int\<close>. Every exception a script can raise is a value of \<open>error\<close>. A dictionary
  that is iterated is an association list in declaration order; a dictionary that is only
  looked up is a map. Writing a file is recorded as a pair of the file name (inside the
  script's output directory) and the text written, in the order of the writes.
\<close>

datatype error = ValueError string | KeyError string | IndexError

type_synonym svg_write = "string \<times> string"

text \<open>\<^verbatim>\<open>s.split(sep)\<close> for a separator of one character.\<close>

fun split_on :: "char \<Rightarrow> string \<Rightarrow> string list" where
  "split_on sep [] = [[]]"
| "split_on sep (c # cs) =
     (if c = sep then [] # split_on sep cs
      else (case split_on sep cs of
              [] \<Rightarrow> [[c]]
            | w # ws \<Rightarrow> (c # w) # ws))"

text \<open>\<^verbatim>\<open>xs[i]\<close> on a list: a negative index counts from the end, anything else out of
  range raises \<^verbatim>\<open>IndexError\<close>.\<close>

definition py_index :: "'a list \<Rightarrow> int \<Rightarrow> error + 'a" where
  "py_index xs i =
     (if 0 \<le> i \<and> i < int (length xs) then Inr (xs ! nat i)
      else if i < 0 \<and> - int (length xs) \<le> i then Inr (xs ! nat (int (length xs) + i))
      else Inl IndexError)"

text \<open>The format specification \<^verbatim>\<open>02X\<close>: upper-case hexadecimal, zero-padded to
  width 2 (the sign of a negative number counts for the width).\<close>

definition hex_digit :: "nat \<Rightarrow> char" where
  "hex_digit d = ''0123456789ABCDEF'' ! d"

function hex_upper :: "nat \<Rightarrow> string" where
  "hex_upper n = (if n < 16 then [hex_digit n] else hex_upper (n div 16) @ [hex_digit (n mod 16)])"
  by pat_completeness auto
termination
  by (relation "measure (\<lambda>n. n)") auto

declare hex_upper.simps [simp del]

definition format_02X :: "int \<Rightarrow> string" where
  "format_02X m =
     (if m < 0 then CHR ''-'' # hex_upper (nat (- m))
      else replicate (2 - length (hex_upper (nat m))) CHR ''0'' @ hex_upper (nat m))"

text \<open>\<^verbatim>\<open>str(n)\<close> of an integer, as an f-string field \<^verbatim>\<open>{n}\<close> renders it.\<close>

definition dec_digit :: "nat \<Rightarrow> char" where
  "dec_digit d = ''0123456789'' ! d"

function dec_nat :: "nat \<Rightarrow> string" where
  "dec_nat n = (if n < 10 then [dec_digit n] else dec_nat (n div 10) @ [dec_digit (n mod 10)])"
  by pat_completeness auto
termination
  by (relation "measure (\<lambda>n. n)") auto

declare dec_nat.simps [simp del]

definition str_int :: "int \<Rightarrow> string" where
  "str_int n = (if n < 0 then CHR ''-'' # dec_nat (nat (- n)) else dec_nat (nat n))"

text \<open>The two entries \<^verbatim>\<open>"outer"\<close> and \<^verbatim>\<open>"inner"\<close> that every path dictionary of the
  scripts has.\<close>

record path_data =
  outer :: string
  inner :: string

section \<open>generate-using-8bit.py: tiles named by mask\<close>

definition PAIR_TO_BIT :: "string \<rightharpoonup> nat" where
  "PAIR_TO_BIT = map_of
     [(''U1U2'', 0), (''U2U3'', 1),
      (''R1R2'', 2), (''R2R3'', 3),
      (''D2D3'', 4), (''D1D2'', 5),
      (''L2L3'', 6), (''L1L2'', 7)]"

text \<open>\<^verbatim>\<open>key_to_mask\<close>: the loop over \<^verbatim>\<open>key.split("-")\<close>, then the function.\<close>

fun key_to_mask_loop :: "string list \<Rightarrow> int \<Rightarrow> error + int" where
  "key_to_mask_loop [] msk = Inr msk"
| "key_to_mask_loop (pair # pairs) msk =
     (case PAIR_TO_BIT pair of
        None \<Rightarrow> Inl (ValueError (''Unknown port pair '' @ [CHR 0x27] @ pair @ [CHR 0x27]))
      | Some b \<Rightarrow> key_to_mask_loop pairs (msk OR push_bit b 1))"

definition key_to_mask :: "string \<Rightarrow> error + int" where
  "key_to_mask key = key_to_mask_loop (split_on CHR ''-'' key) 0"

text \<open>\<^verbatim>\<open>SVG_TMPL.format(svg_id=..., desc=..., transform=..., outer=..., inner=...)\<close>.\<close>

definition SVG_TMPL_format :: "string \<Rightarrow> string \<Rightarrow> string \<Rightarrow> string \<Rightarrow> string \<Rightarrow> string" where
  \<open>SVG_TMPL_format svg_id desc transform outer_d inner_d =
    ''<svg xmlns="http://www.w3.org/2000/svg" id="'' @ svg_id @
    ''" width="40" height="40" viewBox="0 0 40 40">\<newline>'' @
    ''  <desc>'' @ desc @ ''</desc>\<newline>'' @
    ''  <g stroke="#ccc" stroke-width="0.5">\<newline>'' @
    ''    <line x1="10" y1="0" x2="10" y2="40"/>'' @
    ''<line x1="20" y1="0" x2="20" y2="40"/>'' @
    ''<line x1="30" y1="0" x2="30" y2="40"/>\<newline>'' @
    ''    <line x1="0" y1="10" x2="40" y2="10"/>'' @
    ''<line x1="0" y1="20" x2="40" y2="20"/>'' @
    ''<line x1="0" y1="30" x2="40" y2="30"/>\<newline>'' @
    ''    <rect x="0" y="0" width="40" height="40" fill="none"/>\<newline>'' @
    ''  </g>\<newline>'' @
    ''  <g stroke="#000" stroke-width="1" fill="none"'' @ transform @ ''>\<newline>'' @
    ''    <path d="'' @ outer_d @ ''" />\<newline>'' @
    ''    <path d="'' @ inner_d @ ''" />\<newline>'' @
    ''  </g>\<newline>'' @
    ''</svg>''\<close>

definition curve_paths_base :: "(string \<times> path_data) list" where
  "curve_paths_base =
    [(''U1U2-R1R2'',
      \<lparr>outer = ''M 10 0 L 10 10 C 10 15.5 14.5 20 20 20 L 40 20'',
       inner = ''M 20 0 L 20 5 C 20 7.8 22.2 10 25 10 L 40 10''\<rparr>),
     (''U1U2-R2R3'',
      \<lparr>outer = ''M 10 0 L 10 20 C 10 25.5 14.5 30 20 30 L 40 30'',
       inner = ''M 20 0 L 20 15 C 20 17.8 22.2 20 25 20 L 40 20''\<rparr>),
     (''U2U3-R1R2'',
      \<lparr>outer = ''M 20 0 L 20 10 C 20 15.5 24.5 20 30 20 L 40 20'',
       inner = ''M 30 0 L 30 5 C 30 7.8 32.2 10 35 10 L 40 10''\<rparr>),
     (''U2U3-R2R3'',
      \<lparr>outer = ''M 20 0 L 20 20 C 20 25.5 24.5 30 30 30 L 40 30'',
       inner = ''M 30 0 L 30 15 C 30 17.8 32.2 20 35 20 L 40 20''\<rparr>)]"

definition sharp_paths_base :: "(string \<times> path_data) list" where
  "sharp_paths_base =
    [(''U1U2-R1R2'', \<lparr>outer = ''M 10 0 L 10 20 L 40 20'', inner = ''M 20 0 L 20 10 L 40 10''\<rparr>),
     (''U1U2-R2R3'', \<lparr>outer = ''M 10 0 L 10 30 L 40 30'', inner = ''M 20 0 L 20 20 L 40 20''\<rparr>),
     (''U2U3-R1R2'', \<lparr>outer = ''M 20 0 L 20 20 L 40 20'', inner = ''M 30 0 L 30 10 L 40 10''\<rparr>),
     (''U2U3-R2R3'', \<lparr>outer = ''M 20 0 L 20 30 L 40 30'', inner = ''M 30 0 L 30 20 L 40 20''\<rparr>)]"

definition straight_paths :: "(string \<times> path_data) list" where
  "straight_paths =
    [(''L2L3-R2R3'', \<lparr>outer = ''M 0 20 L 40 20'', inner = ''M 0 30 L 40 30''\<rparr>),
     (''R2R3-L2L3'', \<lparr>outer = ''M 40 20 L 0 20'', inner = ''M 40 30 L 0 30''\<rparr>),
     (''U2U3-D2D3'', \<lparr>outer = ''M 20 0 L 20 40'', inner = ''M 30 0 L 30 40''\<rparr>),
     (''D2D3-U2U3'', \<lparr>outer = ''M 20 40 L 20 0'', inner = ''M 30 40 L 30 0''\<rparr>)]"

definition ROT_KEYS :: "string \<rightharpoonup> string list" where
  "ROT_KEYS = map_of
     [(''U1U2-R1R2'', [''R1R2-D1D2'', ''D1D2-L1L2'', ''L1L2-U1U2'']),
      (''U1U2-R2R3'', [''R1R2-D2D3'', ''D1D2-L2L3'', ''L1L2-U2U3'']),
      (''U2U3-R1R2'', [''R2R3-D1D2'', ''D2D3-L1L2'', ''L2L3-U1U2'']),
      (''U2U3-R2R3'', [''R2R3-D2D3'', ''D2D3-L2L3'', ''L2L3-U2U3''])]"

text \<open>\<^verbatim>\<open>write_svg\<close>: the file name and the text written under it; \<^verbatim>\<open>fname[:-4]\<close> is the
  name without its last four characters.\<close>

definition write_svg :: "string \<Rightarrow> string \<Rightarrow> string \<Rightarrow> string \<Rightarrow> string \<Rightarrow> svg_write" where
  "write_svg fname desc outer_d inner_d transform =
     (fname, SVG_TMPL_format (take (length fname - 4) fname) desc transform outer_d inner_d)"

text \<open>The state of one generation pass: the local set \<^verbatim>\<open>used_masks\<close> and the files
  written so far.\<close>

record gen_state =
  used_masks :: "int set"
  written :: "svg_write list"

text \<open>Line 141 of \<^verbatim>\<open>gen_rot_tiles\<close>:
  \<^verbatim>\<open>key = base_key if angle == 0 else ROT_KEYS[base_key][idx - 1]\<close>, with the rotation table
  as a parameter.\<close>

definition rot_key :: "(string \<rightharpoonup> string list) \<Rightarrow> string \<Rightarrow> nat \<Rightarrow> int \<Rightarrow> error + string" where
  "rot_key rot base_key idx angle =
     (if angle = 0 then Inr base_key
      else (case rot base_key of
              None \<Rightarrow> Inl (KeyError base_key)
            | Some ks \<Rightarrow> py_index ks (int idx - 1)))"

definition mask_fname :: "string \<Rightarrow> int \<Rightarrow> string" where
  "mask_fname tile_type msk = ''road-tile-'' @ tile_type @ ''-'' @ format_02X msk @ ''.svg''"

definition mask_desc :: "string \<Rightarrow> string \<Rightarrow> int \<Rightarrow> string" where
  "mask_desc tile_type key msk =
     tile_type @ '' tile, key='' @ key @ '', mask=0x'' @ format_02X msk"

definition rotate_attr :: "int \<Rightarrow> string" where
  \<open>rotate_attr angle =
     (if angle = 0 then [] else '' transform="rotate('' @ str_int angle @ '' 20 20)"'')\<close>

text \<open>The body of the inner loop of \<^verbatim>\<open>gen_rot_tiles\<close> for one \<^verbatim>\<open>(idx, angle)\<close>.\<close>

definition rot_tile_step ::
  "(string \<rightharpoonup> string list) \<Rightarrow> string \<Rightarrow> string \<Rightarrow> path_data \<Rightarrow> nat \<times> int \<Rightarrow> gen_state
     \<Rightarrow> error + gen_state" where
  "rot_tile_step rot tile_type base_key paths ia st =
     (case rot_key rot base_key (fst ia) (snd ia) of
        Inl e \<Rightarrow> Inl e
      | Inr key \<Rightarrow>
          (case key_to_mask key of
             Inl e \<Rightarrow> Inl e
           | Inr msk \<Rightarrow>
               if msk \<in> used_masks st then Inr st
               else Inr \<lparr>used_masks = insert msk (used_masks st),
                         written = written st @
                           [write_svg (mask_fname tile_type msk) (mask_desc tile_type key msk)
                              (outer paths) (inner paths) (rotate_attr (snd ia))]\<rparr>))"

text \<open>The inner loop over \<^verbatim>\<open>enumerate((0, 90, 180, 270))\<close> and the outer loop over
  \<^verbatim>\<open>base_dict.items()\<close>. An exception ends the run; the files written before it stay.\<close>

fun angle_loop ::
  "(string \<rightharpoonup> string list) \<Rightarrow> string \<Rightarrow> string \<Rightarrow> path_data \<Rightarrow> (nat \<times> int) list \<Rightarrow> gen_state
     \<Rightarrow> gen_state \<times> error option" where
  "angle_loop rot tile_type base_key paths [] st = (st, None)"
| "angle_loop rot tile_type base_key paths (ia # rest) st =
     (case rot_tile_step rot tile_type base_key paths ia st of
        Inl e \<Rightarrow> (st, Some e)
      | Inr st' \<Rightarrow> angle_loop rot tile_type base_key paths rest st')"

definition ANGLES :: "(nat \<times> int) list" where
  "ANGLES = enumerate 0 [0, 90, 180, 270]"

fun base_loop ::
  "(string \<rightharpoonup> string list) \<Rightarrow> string \<Rightarrow> (string \<times> path_data) list \<Rightarrow> gen_state
     \<Rightarrow> gen_state \<times> error option" where
  "base_loop rot tile_type [] st = (st, None)"
| "base_loop rot tile_type (kp # rest) st =
     (case angle_loop rot tile_type (fst kp) (snd kp) ANGLES st of
        (st', Some e) \<Rightarrow> (st', Some e)
      | (st', None) \<Rightarrow> base_loop rot tile_type rest st')"

definition gen_rot_tiles_with ::
  "(string \<rightharpoonup> string list) \<Rightarrow> (string \<times> path_data) list \<Rightarrow> string
     \<Rightarrow> svg_write list \<times> error option" where
  "gen_rot_tiles_with rot base_dict tile_type =
     (case base_loop rot tile_type base_dict \<lparr>used_masks = {}, written = []\<rparr> of
        (st, err) \<Rightarrow> (written st, err))"

definition gen_rot_tiles :: "(string \<times> path_data) list \<Rightarrow> string \<Rightarrow> svg_write list \<times> error option" where
  "gen_rot_tiles = gen_rot_tiles_with ROT_KEYS"

text \<open>The loop over \<^verbatim>\<open>straight_paths.items()\<close> in the main block, with its own
  \<^verbatim>\<open>used_masks\<close>.\<close>

definition straight_step :: "string \<times> path_data \<Rightarrow> gen_state \<Rightarrow> error + gen_state" where
  "straight_step kp st =
     (case key_to_mask (fst kp) of
        Inl e \<Rightarrow> Inl e
      | Inr msk \<Rightarrow>
          if msk \<in> used_masks st then Inr st
          else Inr \<lparr>used_masks = insert msk (used_masks st),
                    written = written st @
                      [write_svg (mask_fname ''straight'' msk) (mask_desc ''straight'' (fst kp) msk)
                         (outer (snd kp)) (inner (snd kp)) []]\<rparr>)"

fun straight_loop :: "(string \<times> path_data) list \<Rightarrow> gen_state \<Rightarrow> gen_state \<times> error option" where
  "straight_loop [] st = (st, None)"
| "straight_loop (kp # rest) st =
     (case straight_step kp st of
        Inl e \<Rightarrow> (st, Some e)
      | Inr st' \<Rightarrow> straight_loop rest st')"

definition gen_straight_tiles :: "(string \<times> path_data) list \<Rightarrow> svg_write list \<times> error option" where
  "gen_straight_tiles paths_dict =
     (case straight_loop paths_dict \<lparr>used_masks = {}, written = []\<rparr> of
        (st, err) \<Rightarrow> (written st, err))"

section \<open>generate-using-8bit-start-goal.py: start and goal markers\<close>

definition PORT_TO_BIT :: "string \<rightharpoonup> nat" where
  "PORT_TO_BIT = map_of
     [(''N0'', 0), (''N1'', 1),
      (''E0'', 2), (''E1'', 3),
      (''S1'', 4), (''S0'', 5),
      (''W1'', 6), (''W0'', 7)]"

text \<open>\<^verbatim>\<open>PORT_TO_MASK = {port: (1 << bit) for port, bit in PORT_TO_BIT.items()}\<close>.\<close>

definition PORT_TO_MASK :: "string \<rightharpoonup> int" where
  "PORT_TO_MASK port = map_option (\<lambda>bit. push_bit bit 1) (PORT_TO_BIT port)"

definition PORT_TO_LINES :: "string \<rightharpoonup> (int \<times> int \<times> int \<times> int) list" where
  "PORT_TO_LINES = map_of
     [(''N0'', [(10, 0, 10, 10), (20, 0, 20, 10)]),
      (''N1'', [(20, 0, 20, 10), (30, 0, 30, 10)]),
      (''E0'', [(30, 10, 40, 10), (30, 20, 40, 20)]),
      (''E1'', [(30, 20, 40, 20), (30, 30, 40, 30)]),
      (''S1'', [(20, 30, 20, 40), (30, 30, 30, 40)]),
      (''S0'', [(10, 30, 10, 40), (20, 30, 20, 40)]),
      (''W1'', [(0, 20, 10, 20), (0, 30, 10, 30)]),
      (''W0'', [(0, 10, 10, 10), (0, 20, 10, 20)])]"

definition MARKER_OUT_DIR :: string where
  "MARKER_OUT_DIR = ''marker_tiles''"

text \<open>\<^verbatim>\<open>SVG_BASE_TMPL.format(svg_id=..., desc=..., port_lines=..., content=...)\<close>.\<close>

definition SVG_BASE_TMPL_format :: "string \<Rightarrow> string \<Rightarrow> string \<Rightarrow> string \<Rightarrow> string" where
  \<open>SVG_BASE_TMPL_format svg_id desc port_lines content =
    ''<svg xmlns="http://www.w3.org/2000/svg" id="'' @ svg_id @
    ''" width="40" height="40" viewBox="0 0 40 40">\<newline>'' @
    ''  <desc>'' @ desc @ ''</desc>\<newline>'' @
    ''  <g stroke="#ccc" stroke-width="0.5">\<newline>'' @
    ''    <line x1="10" y1="0" x2="10" y2="40"/><line x1="20" y1="0" x2="20" y2="40"/><line x1="30" y1="0" x2="30" y2="40"/>\<newline>'' @
    ''    <line x1="0" y1="10" x2="40" y2="10"/><line x1="0" y1="20" x2="40" y2="20"/><line x1="0" y1="30" x2="40" y2="30"/>\<newline>'' @
    ''    <rect x="0" y="0" width="40" height="40" fill="none"/>\<newline>'' @
    ''  </g>\<newline>'' @
    port_lines @ ''\<newline>'' @
    content @ ''\<newline>'' @
    ''</svg>''\<close>

definition START_CONTENT :: string where
  \<open>START_CONTENT =
    ''  <!-- '' @
    [CHR 0xE3, CHR 0x82, CHR 0xB9, CHR 0xE3, CHR 0x82, CHR 0xBF, CHR 0xE3, CHR 0x83] @
    [CHR 0xBC, CHR 0xE3, CHR 0x83, CHR 0x88, CHR 0xE3, CHR 0x83, CHR 0x95, CHR 0xE3] @
    [CHR 0x83, CHR 0xA9, CHR 0xE3, CHR 0x83, CHR 0x83, CHR 0xE3, CHR 0x82, CHR 0xB0] @
    [CHR 0xE3, CHR 0x81, CHR 0xA8, CHR 0xE8, CHR 0xA3, CHR 0x85, CHR 0xE9, CHR 0xA3] @
    [CHR 0xBE] @ '' -->\<newline>'' @
    ''  <g>\<newline>'' @
    ''    <!-- '' @
    [CHR 0xE3, CHR 0x83, CHR 0x95, CHR 0xE3, CHR 0x83, CHR 0xA9, CHR 0xE3, CHR 0x83] @
    [CHR 0x83, CHR 0xE3, CHR 0x82, CHR 0xB0, CHR 0xE3, CHR 0x83, CHR 0x9D, CHR 0xE3] @
    [CHR 0x83, CHR 0xBC, CHR 0xE3, CHR 0x83, CHR 0xAB] @ '' -->\<newline>'' @
    ''    <rect x="10" y="5" width="1.5" height="20" fill="#555" />\<newline>'' @
    ''    <!-- '' @
    [CHR 0xE3, CHR 0x83, CHR 0x95, CHR 0xE3, CHR 0x83, CHR 0xA9, CHR 0xE3, CHR 0x83] @
    [CHR 0x83, CHR 0xE3, CHR 0x82, CHR 0xB0] @ '' -->\<newline>'' @
    ''    <path d="M 11.5 5 v 10 L 18 10 z" fill="#3498db" />\<newline>'' @
    ''    <!-- '' @ [CHR 0xE3, CHR 0x80, CHR 0x8C] @ ''START'' @
    [CHR 0xE3, CHR 0x80, CHR 0x8D, CHR 0xE3, CHR 0x83, CHR 0x86, CHR 0xE3, CHR 0x82] @
    [CHR 0xAD, CHR 0xE3, CHR 0x82, CHR 0xB9, CHR 0xE3, CHR 0x83, CHR 0x88] @ '' -->\<newline>'' @
    ''    <g transform="translate(5, 32)">\<newline>'' @
    ''      <rect x="0" y="-7" width="30" height="10" rx="2" fill="#3498db" fill-opacity="0.2" />\<newline>'' @
    ''      <text x="15" y="0" font-family="Arial, sans-serif" font-size="6" text-anchor="middle" font-weight="bold" fill="#3498db">START</text>\<newline>'' @
    ''    </g>\<newline>'' @
    ''  </g>''\<close>

definition GOAL_CONTENT :: string where
  \<open>GOAL_CONTENT =
    ''  <!-- '' @
    [CHR 0xE3, CHR 0x83, CHR 0x81, CHR 0xE3, CHR 0x82, CHR 0xA7, CHR 0xE3, CHR 0x83] @
    [CHR 0x83, CHR 0xE3, CHR 0x82, CHR 0xAB, CHR 0xE3, CHR 0x83, CHR 0xBC, CHR 0xE3] @
    [CHR 0x83, CHR 0x95, CHR 0xE3, CHR 0x83, CHR 0xA9, CHR 0xE3, CHR 0x83, CHR 0x83] @
    [CHR 0xE3, CHR 0x82, CHR 0xB0, CHR 0xE3, CHR 0x81, CHR 0xA8, CHR 0xE8, CHR 0xA3] @
    [CHR 0x85, CHR 0xE9, CHR 0xA3, CHR 0xBE] @ '' -->\<newline>'' @
    ''  <g>\<newline>'' @
    ''    <!-- '' @ [CHR 0xE3, CHR 0x80, CHR 0x8C] @ ''GOAL'' @
    [CHR 0xE3, CHR 0x80, CHR 0x8D, CHR 0xE3, CHR 0x83, CHR 0x86, CHR 0xE3, CHR 0x82] @
    [CHR 0xAD, CHR 0xE3, CHR 0x82, CHR 0xB9, CHR 0xE3, CHR 0x83, CHR 0x88] @ '' -->\<newline>'' @
    ''    <g transform="translate(5, 32)">\<newline>'' @
    ''      <rect x="0" y="-7" width="30" height="10" rx="2" fill="#e74c3c" fill-opacity="0.2" />\<newline>'' @
    ''      <text x="15" y="0" font-family="Arial, sans-serif" font-size="6" text-anchor="middle" font-weight="bold" fill="#e74c3c">GOAL</text>\<newline>'' @
    ''    </g>\<newline>'' @
    ''    <!-- '' @
    [CHR 0xE3, CHR 0x82, CHR 0xBF, CHR 0xE3, CHR 0x83, CHR 0xBC, CHR 0xE3, CHR 0x82] @
    [CHR 0xB2, CHR 0xE3, CHR 0x83, CHR 0x83, CHR 0xE3, CHR 0x83, CHR 0x88, CHR 0xE3] @
    [CHR 0x83, CHR 0x9E, CHR 0xE3, CHR 0x83, CHR 0xBC, CHR 0xE3, CHR 0x82, CHR 0xAF] @
    '' -->\<newline>'' @
    ''    <g transform="translate(20, 15)">\<newline>'' @
    ''      <circle cx="0" cy="0" r="6" fill="none" stroke="#e74c3c" stroke-width="1" />\<newline>'' @
    ''      <circle cx="0" cy="0" r="3" fill="none" stroke="#e74c3c" stroke-width="1" />\<newline>'' @
    ''      <circle cx="0" cy="0" r="1" fill="#e74c3c" />\<newline>'' @
    ''    </g>\<newline>'' @
    ''  </g>''\<close>

text \<open>\<^verbatim>\<open>sep.join(xs)\<close>.\<close>

fun py_join :: "string \<Rightarrow> string list \<Rightarrow> string" where
  "py_join sep [] = []"
| "py_join sep [x] = x"
| "py_join sep (x # y # ys) = x @ sep @ py_join sep (y # ys)"

text \<open>\<^verbatim>\<open>generate_port_lines\<close>: the header comment, the opening of the group, two path lines
  for each port that has an entry in \<^verbatim>\<open>PORT_TO_LINES\<close>, and the end of the group.\<close>

definition PORT_LINES_COMMENT :: string where
  \<open>PORT_LINES_COMMENT =
    ''  <!-- '' @
    [CHR 0xE3, CHR 0x83, CHR 0x9D, CHR 0xE3, CHR 0x83, CHR 0xBC, CHR 0xE3, CHR 0x83] @
    [CHR 0x88, CHR 0xE6, CHR 0x8E, CHR 0xA5, CHR 0xE7, CHR 0xB6, CHR 0x9A, CHR 0xEF] @
    [CHR 0xBC, CHR 0x88, CHR 0xE9, CHR 0xBB, CHR 0x92, CHR 0xE7, CHR 0xB7, CHR 0x9A] @
    [CHR 0xEF, CHR 0xBC, CHR 0x89] @ '' -->''\<close>

definition port_path_line :: "int \<times> int \<times> int \<times> int \<Rightarrow> string" where
  \<open>port_path_line ln =
     (case ln of (x1, y1, x2, y2) \<Rightarrow>
        ''    <path d="M '' @ str_int x1 @ '' '' @ str_int y1 @ '' L '' @ str_int x2 @ '' '' @
        str_int y2 @ ''" />'')\<close>

fun port_lines_loop :: "string list \<Rightarrow> string list \<Rightarrow> string list" where
  "port_lines_loop [] acc = acc"
| "port_lines_loop (port # ports) acc =
     (case PORT_TO_LINES port of
        None \<Rightarrow> port_lines_loop ports acc
      | Some lns \<Rightarrow> port_lines_loop ports (acc @ map port_path_line lns))"

definition generate_port_lines :: "string list \<Rightarrow> string" where
  \<open>generate_port_lines ports =
     (if ports = [] then []
      else py_join ''\<newline>''
             (port_lines_loop ports
                [PORT_LINES_COMMENT, ''  <g stroke="#000" stroke-width="1" fill="none">''] @
              [''  </g>'']))\<close>

definition write_marker_svg :: "string \<Rightarrow> string \<Rightarrow> string list \<Rightarrow> string \<Rightarrow> svg_write" where
  "write_marker_svg filename desc ports content =
     (filename,
      SVG_BASE_TMPL_format (take (length filename - 4) filename) desc (generate_port_lines ports)
        content)"

text \<open>\<^verbatim>\<open>calculate_mask\<close>: a port that is not a key of \<^verbatim>\<open>PORT_TO_MASK\<close> is passed over.\<close>

fun calculate_mask_loop :: "string list \<Rightarrow> int \<Rightarrow> int" where
  "calculate_mask_loop [] msk = msk"
| "calculate_mask_loop (port # ports) msk =
     (case PORT_TO_MASK port of
        None \<Rightarrow> calculate_mask_loop ports msk
      | Some v \<Rightarrow> calculate_mask_loop ports (msk OR v))"

definition calculate_mask :: "string list \<Rightarrow> int" where
  "calculate_mask ports = calculate_mask_loop ports 0"

text \<open>What the marker script has done so far: the files written and the lines printed.\<close>

record marker_state =
  marker_files :: "svg_write list"
  marker_printed :: "string list"

definition generated_line :: "string \<Rightarrow> string \<Rightarrow> int \<Rightarrow> string" where
  \<open>generated_line filename port_str msk =
    [CHR 0xE7, CHR 0x94, CHR 0x9F, CHR 0xE6, CHR 0x88, CHR 0x90] @ '': '' @ filename @ '' ('' @
    [CHR 0xE3, CHR 0x83, CHR 0x9D, CHR 0xE3, CHR 0x83, CHR 0xBC, CHR 0xE3, CHR 0x83] @
    [CHR 0x88] @ '': '' @ port_str @ '', '' @
    [CHR 0xE3, CHR 0x83, CHR 0x9E, CHR 0xE3, CHR 0x82, CHR 0xB9, CHR 0xE3, CHR 0x82] @
    [CHR 0xAF] @ '': 0x'' @ format_02X msk @ '')''\<close>

definition generate_marker_tile :: "string \<Rightarrow> string list \<Rightarrow> marker_state \<Rightarrow> string \<times> marker_state" where
  "generate_marker_tile tile_type ports st =
     (let msk = calculate_mask ports;
          port_str = (if ports \<noteq> [] then py_join ''_'' ports else ''none'');
          filename =
            (if tile_type = ''start'' then ''road-tile-marker-start-'' @ format_02X msk @ ''.svg''
             else ''road-tile-marker-goal-'' @ format_02X msk @ ''.svg'');
          desc =
            (if tile_type = ''start''
             then ''Start marker tile, ports=['' @ py_join '','' ports @ ''], mask=0x'' @ format_02X msk
             else ''Goal marker tile, ports=['' @ py_join '','' ports @ ''], mask=0x'' @ format_02X msk);
          content = (if tile_type = ''start'' then START_CONTENT else GOAL_CONTENT)
      in (filename,
          \<lparr>marker_files = marker_files st @ [write_marker_svg filename desc ports content],
           marker_printed = marker_printed st @ [generated_line filename port_str msk]\<rparr>))"

definition invalid_start_warning :: "string \<Rightarrow> string" where
  \<open>invalid_start_warning start_port =
    [CHR 0xE8, CHR 0xAD, CHR 0xA6, CHR 0xE5, CHR 0x91, CHR 0x8A] @ '': '' @
    [CHR 0xE7, CHR 0x84, CHR 0xA1, CHR 0xE5, CHR 0x8A, CHR 0xB9, CHR 0xE3, CHR 0x81] @
    [CHR 0xAA, CHR 0xE3, CHR 0x82, CHR 0xB9, CHR 0xE3, CHR 0x82, CHR 0xBF, CHR 0xE3] @
    [CHR 0x83, CHR 0xBC, CHR 0xE3, CHR 0x83, CHR 0x88, CHR 0xE3, CHR 0x83, CHR 0x9D] @
    [CHR 0xE3, CHR 0x83, CHR 0xBC, CHR 0xE3, CHR 0x83, CHR 0x88] @ '' '' @ [CHR 0x27] @
    start_port @ [CHR 0x27] @ '' '' @
    [CHR 0xE3, CHR 0x81, CHR 0x8C, CHR 0xE6, CHR 0x8C, CHR 0x87, CHR 0xE5, CHR 0xAE] @
    [CHR 0x9A, CHR 0xE3, CHR 0x81, CHR 0x95, CHR 0xE3, CHR 0x82, CHR 0x8C, CHR 0xE3] @
    [CHR 0x81, CHR 0xBE, CHR 0xE3, CHR 0x81, CHR 0x97, CHR 0xE3, CHR 0x81, CHR 0x9F] @
    [CHR 0xE3, CHR 0x80, CHR 0x82, CHR 0xE3, CHR 0x83, CHR 0x87, CHR 0xE3, CHR 0x83] @
    [CHR 0x95, CHR 0xE3, CHR 0x82, CHR 0xA9, CHR 0xE3, CHR 0x83, CHR 0xAB, CHR 0xE3] @
    [CHR 0x83, CHR 0x88, CHR 0xE3, CHR 0x81, CHR 0xAE] @ '' '' @ [CHR 0x27] @ ''E0'' @
    [CHR 0x27] @ '' '' @
    [CHR 0xE3, CHR 0x82, CHR 0x92, CHR 0xE4, CHR 0xBD, CHR 0xBF, CHR 0xE7, CHR 0x94] @
    [CHR 0xA8, CHR 0xE3, CHR 0x81, CHR 0x97, CHR 0xE3, CHR 0x81, CHR 0xBE, CHR 0xE3] @
    [CHR 0x81, CHR 0x99, CHR 0xE3, CHR 0x80, CHR 0x82]\<close>

definition invalid_goal_warning :: "string \<Rightarrow> string" where
  \<open>invalid_goal_warning goal_port =
    [CHR 0xE8, CHR 0xAD, CHR 0xA6, CHR 0xE5, CHR 0x91, CHR 0x8A] @ '': '' @
    [CHR 0xE7, CHR 0x84, CHR 0xA1, CHR 0xE5, CHR 0x8A, CHR 0xB9, CHR 0xE3, CHR 0x81] @
    [CHR 0xAA, CHR 0xE3, CHR 0x82, CHR 0xB4, CHR 0xE3, CHR 0x83, CHR 0xBC, CHR 0xE3] @
    [CHR 0x83, CHR 0xAB, CHR 0xE3, CHR 0x83, CHR 0x9D, CHR 0xE3, CHR 0x83, CHR 0xBC] @
    [CHR 0xE3, CHR 0x83, CHR 0x88] @ '' '' @ [CHR 0x27] @ goal_port @ [CHR 0x27] @ '' '' @
    [CHR 0xE3, CHR 0x81, CHR 0x8C, CHR 0xE6, CHR 0x8C, CHR 0x87, CHR 0xE5, CHR 0xAE] @
    [CHR 0x9A, CHR 0xE3, CHR 0x81, CHR 0x95, CHR 0xE3, CHR 0x82, CHR 0x8C, CHR 0xE3] @
    [CHR 0x81, CHR 0xBE, CHR 0xE3, CHR 0x81, CHR 0x97, CHR 0xE3, CHR 0x81, CHR 0x9F] @
    [CHR 0xE3, CHR 0x80, CHR 0x82, CHR 0xE3, CHR 0x83, CHR 0x87, CHR 0xE3, CHR 0x83] @
    [CHR 0x95, CHR 0xE3, CHR 0x82, CHR 0xA9, CHR 0xE3, CHR 0x83, CHR 0xAB, CHR 0xE3] @
    [CHR 0x83, CHR 0x88, CHR 0xE3, CHR 0x81, CHR 0xAE] @ '' '' @ [CHR 0x27] @ ''W0'' @
    [CHR 0x27] @ '' '' @
    [CHR 0xE3, CHR 0x82, CHR 0x92, CHR 0xE4, CHR 0xBD, CHR 0xBF, CHR 0xE7, CHR 0x94] @
    [CHR 0xA8, CHR 0xE3, CHR 0x81, CHR 0x97, CHR 0xE3, CHR 0x81, CHR 0xBE, CHR 0xE3] @
    [CHR 0x81, CHR 0x99, CHR 0xE3, CHR 0x80, CHR 0x82]\<close>

definition marker_done_line :: string where
  \<open>marker_done_line =
    [CHR 0xE3, CHR 0x83, CHR 0x9E, CHR 0xE3, CHR 0x83, CHR 0xBC, CHR 0xE3, CHR 0x82] @
    [CHR 0xAB, CHR 0xE3, CHR 0x83, CHR 0xBC, CHR 0xE3, CHR 0x82, CHR 0xBF, CHR 0xE3] @
    [CHR 0x82, CHR 0xA4, CHR 0xE3, CHR 0x83, CHR 0xAB, CHR 0xE7, CHR 0x94, CHR 0x9F] @
    [CHR 0xE6, CHR 0x88, CHR 0x90, CHR 0xE5, CHR 0xAE, CHR 0x8C, CHR 0xE4, CHR 0xBA] @
    [CHR 0x86, CHR 0xE3, CHR 0x80, CHR 0x82, CHR 0xE3, CHR 0x83, CHR 0x95, CHR 0xE3] @
    [CHR 0x82, CHR 0xA1, CHR 0xE3, CHR 0x82, CHR 0xA4, CHR 0xE3, CHR 0x83, CHR 0xAB] @
    [CHR 0xE3, CHR 0x81, CHR 0xAF] @ '' '' @ MARKER_OUT_DIR @ '' '' @
    [CHR 0xE3, CHR 0x83, CHR 0x87, CHR 0xE3, CHR 0x82, CHR 0xA3, CHR 0xE3, CHR 0x83] @
    [CHR 0xAC, CHR 0xE3, CHR 0x82, CHR 0xAF, CHR 0xE3, CHR 0x83, CHR 0x88, CHR 0xE3] @
    [CHR 0x83, CHR 0xAA, CHR 0xE3, CHR 0x81, CHR 0xAB, CHR 0xE4, CHR 0xBF, CHR 0x9D] @
    [CHR 0xE5, CHR 0xAD, CHR 0x98, CHR 0xE3, CHR 0x81, CHR 0x95, CHR 0xE3, CHR 0x82] @
    [CHR 0x8C, CHR 0xE3, CHR 0x81, CHR 0xBE, CHR 0xE3, CHR 0x81, CHR 0x97, CHR 0xE3] @
    [CHR 0x81, CHR 0x9F, CHR 0xE3, CHR 0x80, CHR 0x82]\<close>

text \<open>\<^verbatim>\<open>generate_marker_tiles(start_port, goal_port)\<close>, run from an empty output directory:
  the pair of file names it returns, and the files and printed lines it leaves.\<close>

definition generate_marker_tiles :: "string \<Rightarrow> string \<Rightarrow> (string \<times> string) \<times> marker_state" where
  "generate_marker_tiles start_port goal_port =
     (let st0 = \<lparr>marker_files = [], marker_printed = []\<rparr>;
          st1 = (if PORT_TO_MASK start_port = None
                 then st0\<lparr>marker_printed := marker_printed st0 @ [invalid_start_warning start_port]\<rparr>
                 else st0);
          start_port' = (if PORT_TO_MASK start_port = None then ''E0'' else start_port);
          st2 = (if PORT_TO_MASK goal_port = None
                 then st1\<lparr>marker_printed := marker_printed st1 @ [invalid_goal_warning goal_port]\<rparr>
                 else st1);
          goal_port' = (if PORT_TO_MASK goal_port = None then ''W0'' else goal_port);
          (start_file, st3) = generate_marker_tile ''start'' [start_port'] st2;
          (goal_file, st4) = generate_marker_tile ''goal'' [goal_port'] st3
      in ((start_file, goal_file),
          st4\<lparr>marker_printed := marker_printed st4 @ [marker_done_line]\<rparr>))"

text \<open>The call with both default arguments, \<^verbatim>\<open>generate_marker_tiles()\<close>.\<close>

definition generate_marker_tiles_default :: "(string \<times> string) \<times> marker_state" where
  "generate_marker_tiles_default = generate_marker_tiles ''E0'' ''W0''"

section \<open>generate.py: tiles named by tile key\<close>

text \<open>The dictionaries \<^verbatim>\<open>curve_paths_base\<close>, \<^verbatim>\<open>sharp_paths_base\<close> and \<^verbatim>\<open>straight_paths\<close> of
  this script have the entries of their namesakes above, in the same order.\<close>

definition rotated_keys_map :: "string \<rightharpoonup> string list" where
  "rotated_keys_map = map_of
     [(''U1U2-R1R2'', [''R1R2-D1D2'', ''D1D2-L1L2'', ''L1L2-U1U2'']),
      (''U1U2-R2R3'', [''R1R2-D2D3'', ''D1D2-L2L3'', ''L1L2-U2U3'']),
      (''U2U3-R1R2'', [''R2R3-D1D2'', ''D2D3-L1L2'', ''L2L3-U1U2'']),
      (''U2U3-R2R3'', [''R2R3-D2D3'', ''D2D3-L2L3'', ''L2L3-U2U3''])]"

definition output_dir :: string where
  "output_dir = ''road_tiles''"

text \<open>\<^verbatim>\<open>SVG_TEMPLATE.format(...)\<close>; the doubled braces of the template are single braces in
  the text.\<close>

definition SVG_TEMPLATE_format ::
  "string \<Rightarrow> string \<Rightarrow> string \<Rightarrow> string \<Rightarrow> string \<Rightarrow> string \<Rightarrow> string" where
  \<open>SVG_TEMPLATE_format svg_id description transform_attr path_type path_outer path_inner =
    ''<svg xmlns="http://www.w3.org/2000/svg" id="'' @ svg_id @
    ''" width="40" height="40" viewBox="0 0 40 40">\<newline>'' @
    ''  <desc>'' @ description @ ''</desc>\<newline>'' @
    ''  <defs>\<newline>'' @
    ''    <style>\<newline>'' @
    ''      /* Styles can be kept simple or removed if not strictly needed */\<newline>'' @
    ''      /* .grid '' @ ''{'' @ '' stroke: #cccccc; stroke-width: 0.5; '' @ ''}'' @
    '' */\<newline>'' @
    ''      /* .road '' @ ''{'' @ '' stroke: #000000; stroke-width: 1; fill: none; '' @ ''}'' @
    '' */\<newline>'' @
    ''      /* .point '' @ ''{'' @ '' fill: #ff0000; '' @ ''}'' @ '' */\<newline>'' @
    ''    </style>\<newline>'' @
    ''  </defs>\<newline>'' @
    ''\<newline>'' @
    ''  <g id="grid" stroke="#cccccc" stroke-width="0.5">\<newline>'' @
    ''    <line x1="0" y1="10" x2="40" y2="10" /> <line x1="0" y1="20" x2="40" y2="20" /> <line x1="0" y1="30" x2="40" y2="30" />\<newline>'' @
    ''    <line x1="10" y1="0" x2="10" y2="40" /> <line x1="20" y1="0" x2="20" y2="40" /> <line x1="30" y1="0" x2="30" y2="40" />\<newline>'' @
    ''    <line x1="0" y1="0" x2="40" y2="0" /> <line x1="0" y1="40" x2="40" y2="40" />\<newline>'' @
    ''    <line x1="0" y1="0" x2="0" y2="40" /> <line x1="40" y1="0" x2="40" y2="40" />\<newline>'' @
    ''  </g>\<newline>'' @
    ''\<newline>'' @
    ''  <g id="road" stroke="#000000" stroke-width="1" fill="none"'' @ transform_attr @
    ''>\<newline>'' @
    ''    <path id="road-outer-'' @ path_type @ ''" d="'' @ path_outer @ ''" />\<newline>'' @
    ''    <path id="road-inner-'' @ path_type @ ''" d="'' @ path_inner @ ''" />\<newline>'' @
    ''  </g>\<newline>'' @
    ''\<newline>'' @
    ''  <g id="anchor-points" fill="#ff0000">\<newline>'' @
    ''    <circle cx="10" cy="0" r="1" /> <circle cx="20" cy="0" r="1" /> <circle cx="30" cy="0" r="1" />\<newline>'' @
    ''    <circle cx="40" cy="10" r="1" /> <circle cx="40" cy="20" r="1" /> <circle cx="40" cy="30" r="1" />\<newline>'' @
    ''    <circle cx="10" cy="40" r="1" /> <circle cx="20" cy="40" r="1" /> <circle cx="30" cy="40" r="1" />\<newline>'' @
    ''    <circle cx="0" cy="10" r="1" /> <circle cx="0" cy="20" r="1" /> <circle cx="0" cy="30" r="1" />\<newline>'' @
    ''  </g>\<newline>'' @
    ''</svg>\<newline>''\<close>

text \<open>\<^verbatim>\<open>s.capitalize()\<close> on ASCII letters: the first character in upper case, the others
  in lower case.\<close>

definition ascii_upper :: "char \<Rightarrow> char" where
  "ascii_upper c =
     (if 97 \<le> (of_char c :: nat) \<and> (of_char c :: nat) \<le> 122 then char_of (of_char c - (32::nat))
      else c)"

definition ascii_lower :: "char \<Rightarrow> char" where
  "ascii_lower c =
     (if 65 \<le> (of_char c :: nat) \<and> (of_char c :: nat) \<le> 90 then char_of (of_char c + (32::nat))
      else c)"

definition capitalize :: "string \<Rightarrow> string" where
  "capitalize s = (case s of [] \<Rightarrow> [] | c # cs \<Rightarrow> ascii_upper c # map ascii_lower cs)"

text \<open>\<^verbatim>\<open>s.replace(old, "")\<close>: every occurrence of \<open>old\<close>, from the left and without
  overlap, is taken out.\<close>

function remove_all :: "string \<Rightarrow> string \<Rightarrow> string" where
  "remove_all old [] = []"
| "remove_all old (c # cs) =
     (if old = [] then c # cs
      else if prefix old (c # cs) then remove_all old (drop (length old) (c # cs))
      else c # remove_all old cs)"
  by pat_completeness auto
termination
  by (relation "measure (\<lambda>(old, s). length s)") auto

definition dir_map_full :: "string \<rightharpoonup> string" where
  "dir_map_full = map_of
     [(''U'', ''Upper''), (''R'', ''Right''), (''D'', ''Bottom''), (''L'', ''Left'')]"

definition pair_range_map :: "string \<rightharpoonup> string" where
  "pair_range_map = map_of
     [(''U1U2'', ''(X:10-20)''), (''U2U3'', ''(X:20-30)''),
      (''R1R2'', ''(Y:10-20)''), (''R2R3'', ''(Y:20-30)''),
      (''D1D2'', ''(X:10-20)''), (''D2D3'', ''(X:20-30)''),
      (''L1L2'', ''(Y:10-20)''), (''L2L3'', ''(Y:20-30)'')]"

text \<open>\<^verbatim>\<open>d.get(k, default)\<close>.\<close>

definition dict_get :: "('k \<rightharpoonup> 'v) \<Rightarrow> 'k \<Rightarrow> 'v \<Rightarrow> 'v" where
  "dict_get d k dflt = (case d k of None \<Rightarrow> dflt | Some v \<Rightarrow> v)"

text \<open>\<^verbatim>\<open>get_description\<close>; \<^verbatim>\<open>entry_pair[0]\<close> and \<^verbatim>\<open>exit_pair[0]\<close> raise
  \<^verbatim>\<open>IndexError\<close> on an empty part.\<close>

definition get_description :: "string \<Rightarrow> string \<Rightarrow> error + string" where
  "get_description tile_key tile_type =
     (case split_on CHR ''-'' tile_key of
        [entry_pair, exit_pair] \<Rightarrow>
          (case entry_pair of
             [] \<Rightarrow> Inl IndexError
           | e # _ \<Rightarrow>
               (case exit_pair of
                  [] \<Rightarrow> Inl IndexError
                | x # _ \<Rightarrow>
                    Inr (capitalize tile_type @ '' tile: Entry '' @
                         dict_get dir_map_full [e] ''Unknown'' @ '' '' @
                         dict_get pair_range_map entry_pair ''(Unknown)'' @ '', Exit '' @
                         dict_get dir_map_full [x] ''Unknown'' @ '' '' @
                         dict_get pair_range_map exit_pair ''(Unknown)'')))
      | _ \<Rightarrow> Inr (capitalize tile_type @ '' tile''))"

text \<open>The state of the script: the global counter, the files written and the lines
  printed.\<close>

record road_state =
  generated_files_count :: int
  road_files :: "svg_write list"
  road_printed :: "string list"

text \<open>Lines 127 to 133 of \<^verbatim>\<open>generate_rotated_tiles\<close>: the key of the variant, or \<open>None\<close>
  where the script prints its warning and goes on to the next angle.\<close>

definition rotated_tile_key :: "(string \<rightharpoonup> string list) \<Rightarrow> string \<Rightarrow> nat \<Rightarrow> int \<Rightarrow> (error + string) option" where
  "rotated_tile_key rmap base_key i angle =
     (if angle = 0 then Some (Inr base_key)
      else (case rmap base_key of
              None \<Rightarrow> None
            | Some ks \<Rightarrow>
                if int i - 1 < int (length ks) then Some (py_index ks (int i - 1)) else None))"

definition mapping_warning :: "string \<Rightarrow> int \<Rightarrow> string" where
  "mapping_warning base_key angle =
     ''Warning: Rotated key mapping not found for '' @ base_key @ '' at '' @ str_int angle @ '' deg.''"

definition key_fname :: "string \<Rightarrow> string \<Rightarrow> string" where
  "key_fname tile_type tile_key = ''road-tile-'' @ tile_type @ ''-'' @ tile_key @ ''.svg''"

text \<open>Writing one tile of \<^verbatim>\<open>generate.py\<close> (lines 140 to 156, and 170 to 185 for the straight
  tiles).\<close>

definition write_key_tile ::
  "string \<Rightarrow> string \<Rightarrow> string \<Rightarrow> string \<Rightarrow> string \<Rightarrow> road_state \<Rightarrow> error + road_state" where
  "write_key_tile tile_type tile_key transform_attr path_outer path_inner st =
     (case get_description tile_key tile_type of
        Inl e \<Rightarrow> Inl e
      | Inr description \<Rightarrow>
          Inr (st\<lparr>generated_files_count := generated_files_count st + 1,
                 road_files := road_files st @
                   [(key_fname tile_type tile_key,
                     SVG_TEMPLATE_format (remove_all ''.svg'' (key_fname tile_type tile_key))
                       description transform_attr tile_type path_outer path_inner)]\<rparr>))"

definition rotated_tile_step ::
  "(string \<rightharpoonup> string list) \<Rightarrow> string \<Rightarrow> string \<Rightarrow> path_data \<Rightarrow> nat \<times> int \<Rightarrow> road_state
     \<Rightarrow> error + road_state" where
  "rotated_tile_step rmap tile_type base_key paths ia st =
     (case rotated_tile_key rmap base_key (fst ia) (snd ia) of
        None \<Rightarrow> Inr (st\<lparr>road_printed := road_printed st @ [mapping_warning base_key (snd ia)]\<rparr>)
      | Some (Inl e) \<Rightarrow> Inl e
      | Some (Inr tile_key) \<Rightarrow>
          write_key_tile tile_type tile_key (rotate_attr (snd ia)) (outer paths) (inner paths) st)"

fun rotated_angle_loop ::
  "(string \<rightharpoonup> string list) \<Rightarrow> string \<Rightarrow> string \<Rightarrow> path_data \<Rightarrow> (nat \<times> int) list \<Rightarrow> road_state
     \<Rightarrow> road_state \<times> error option" where
  "rotated_angle_loop rmap tile_type base_key paths [] st = (st, None)"
| "rotated_angle_loop rmap tile_type base_key paths (ia # rest) st =
     (case rotated_tile_step rmap tile_type base_key paths ia st of
        Inl e \<Rightarrow> (st, Some e)
      | Inr st' \<Rightarrow> rotated_angle_loop rmap tile_type base_key paths rest st')"

fun rotated_base_loop ::
  "(string \<rightharpoonup> string list) \<Rightarrow> string \<Rightarrow> (string \<times> path_data) list \<Rightarrow> road_state
     \<Rightarrow> road_state \<times> error option" where
  "rotated_base_loop rmap tile_type [] st = (st, None)"
| "rotated_base_loop rmap tile_type (kp # rest) st =
     (case rotated_angle_loop rmap tile_type (fst kp) (snd kp) ANGLES st of
        (st', Some e) \<Rightarrow> (st', Some e)
      | (st', None) \<Rightarrow> rotated_base_loop rmap tile_type rest st')"

definition generate_rotated_tiles_with ::
  "(string \<rightharpoonup> string list) \<Rightarrow> (string \<times> path_data) list \<Rightarrow> string \<Rightarrow> road_state
     \<Rightarrow> road_state \<times> error option" where
  "generate_rotated_tiles_with rmap base_paths tile_type st =
     rotated_base_loop rmap tile_type base_paths st"

definition generate_rotated_tiles ::
  "(string \<times> path_data) list \<Rightarrow> string \<Rightarrow> road_state \<Rightarrow> road_state \<times> error option" where
  "generate_rotated_tiles = generate_rotated_tiles_with rotated_keys_map"

text \<open>The loop over \<^verbatim>\<open>straight_paths.items()\<close> of \<^verbatim>\<open>generate.py\<close>.\<close>

fun key_straight_loop :: "(string \<times> path_data) list \<Rightarrow> road_state \<Rightarrow> road_state \<times> error option" where
  "key_straight_loop [] st = (st, None)"
| "key_straight_loop (kp # rest) st =
     (case write_key_tile ''straight'' (fst kp) [] (outer (snd kp)) (inner (snd kp)) st of
        Inl e \<Rightarrow> (st, Some e)
      | Inr st' \<Rightarrow> key_straight_loop rest st')"

definition say :: "string \<Rightarrow> road_state \<Rightarrow> road_state" where
  "say line st = st\<lparr>road_printed := road_printed st @ [line]\<rparr>"

definition summary_lines :: "int \<Rightarrow> string list" where
  "summary_lines n =
     [''\<newline>Successfully generated '' @ str_int n @ '' SVG files in '' @ [CHR 0x27] @ output_dir @
        [CHR 0x27] @ '' directory.'',
      if n = 36
      then ''Generated 16 curve, 16 sharp, and 4 straight (central lanes only) tiles as expected.''
      else ''Warning: Expected 36 files (16 curve + 16 sharp + 4 straight), but generated '' @
           str_int n @ ''.'']"

text \<open>The whole script \<^verbatim>\<open>generate.py\<close>, from an empty output directory.\<close>

definition generate_py :: "road_state \<times> error option" where
  "generate_py =
     (let st0 = \<lparr>generated_files_count = 0, road_files = [], road_printed = []\<rparr> in
      case generate_rotated_tiles curve_paths_base ''curve'' (say ''Generating curve tiles...'' st0) of
        (st1, Some e) \<Rightarrow> (st1, Some e)
      | (st1, None) \<Rightarrow>
          (case generate_rotated_tiles sharp_paths_base ''sharp'' (say ''Generating sharp tiles...'' st1) of
             (st2, Some e) \<Rightarrow> (st2, Some e)
           | (st2, None) \<Rightarrow>
               (case key_straight_loop straight_paths
                       (say ''Generating straight tiles (central lanes only)...'' st2) of
                  (st3, Some e) \<Rightarrow> (st3, Some e)
                | (st3, None) \<Rightarrow>
                    (st3\<lparr>road_printed := road_printed st3 @
                            summary_lines (generated_files_count st3)\<rparr>, None))))"

section \<open>Evaluation lemmas\<close>

lemma hex_upper_small: "n < 16 \<Longrightarrow> hex_upper n = [hex_digit n]"
  by (simp add: hex_upper.simps)

lemma hex_upper_big: "\<not> n < 16 \<Longrightarrow> hex_upper n = hex_upper (n div 16) @ [hex_digit (n mod 16)]"
  by (subst hex_upper.simps) simp

lemma dec_nat_small: "n < 10 \<Longrightarrow> dec_nat n = [dec_digit n]"
  by (simp add: dec_nat.simps)

lemma dec_nat_big: "\<not> n < 10 \<Longrightarrow> dec_nat n = dec_nat (n div 10) @ [dec_digit (n mod 10)]"
  by (subst dec_nat.simps) simp

lemmas eval_fmt = hex_upper_small hex_upper_big hex_digit_def format_02X_def
  dec_nat_small dec_nat_big dec_digit_def str_int_def

lemmas eval_key = key_to_mask_def PAIR_TO_BIT_def

section \<open>The straight family of the mask-named generator\<close>


section \<open>The marker generator\<close>

lemma PORT_TO_MASK_E0: "PORT_TO_MASK ''E0'' = Some 4"
  by (simp add: PORT_TO_MASK_def PORT_TO_BIT_def)

lemma PORT_TO_MASK_W0: "PORT_TO_MASK ''W0'' = Some 128"
  by (simp add: PORT_TO_MASK_def PORT_TO_BIT_def)

lemma marker_tile_start:
  "PORT_TO_MASK p = Some v \<Longrightarrow>
   generate_marker_tile ''start'' [p] st =
     (''road-tile-marker-start-'' @ format_02X v @ ''.svg'',
      \<lparr>marker_files = marker_files st @
         [write_marker_svg (''road-tile-marker-start-'' @ format_02X v @ ''.svg'')
            (''Start marker tile, ports=['' @ p @ ''], mask=0x'' @ format_02X v) [p] START_CONTENT],
       marker_printed = marker_printed st @
         [generated_line (''road-tile-marker-start-'' @ format_02X v @ ''.svg'') p v]\<rparr>)"
  by (simp add: generate_marker_tile_def calculate_mask_def Let_def)

lemma marker_tile_goal:
  "PORT_TO_MASK p = Some v \<Longrightarrow>
   generate_marker_tile ''goal'' [p] st =
     (''road-tile-marker-goal-'' @ format_02X v @ ''.svg'',
      \<lparr>marker_files = marker_files st @
         [write_marker_svg (''road-tile-marker-goal-'' @ format_02X v @ ''.svg'')
            (''Goal marker tile, ports=['' @ p @ ''], mask=0x'' @ format_02X v) [p] GOAL_CONTENT],
       marker_printed = marker_printed st @
         [generated_line (''road-tile-marker-goal-'' @ format_02X v @ ''.svg'') p v]\<rparr>)"
  by (simp add: generate_marker_tile_def calculate_mask_def Let_def)

lemma format_02X_4: "format_02X 4 = ''04''"
  by (simp add: eval_fmt)

lemma format_02X_128: "format_02X 128 = ''80''"
  by (simp add: eval_fmt)

text \<open>
  C2. With the default ports (start E0, goal W0) the marker generator writes exactly two
  files, \<^verbatim>\<open>road-tile-marker-start-04.svg\<close> and \<^verbatim>\<open>road-tile-marker-goal-80.svg\<close>, and
  returns these two names: E0 is bit 2 (mask 0x04) and W0 is bit 7 (mask 0x80).
\<close>

theorem marker_defaults_two_files:
  "fst generate_marker_tiles_default =
     (''road-tile-marker-start-04.svg'', ''road-tile-marker-goal-80.svg'')
   \<and> map fst (marker_files (snd generate_marker_tiles_default)) =
     [''road-tile-marker-start-04.svg'', ''road-tile-marker-goal-80.svg'']
   \<and> PORT_TO_BIT ''E0'' = Some 2 \<and> PORT_TO_MASK ''E0'' = Some 4 \<and> format_02X 4 = ''04''
   \<and> PORT_TO_BIT ''W0'' = Some 7 \<and> PORT_TO_MASK ''W0'' = Some 128 \<and> format_02X 128 = ''80''"
  by (simp add: generate_marker_tiles_default_def generate_marker_tiles_def
      PORT_TO_MASK_E0 PORT_TO_MASK_W0 marker_tile_start marker_tile_goal
      format_02X_4 format_02X_128 write_marker_svg_def)
    (simp add: PORT_TO_BIT_def)

section \<open>The mask of a list of ports\<close>

lemma calculate_mask_loop_bit:
  "bit (calculate_mask_loop ports m) n \<longleftrightarrow>
     bit m n \<or> (\<exists>p v. p \<in> set ports \<and> PORT_TO_MASK p = Some v \<and> bit v n)"
proof (induction ports arbitrary: m)
  case Nil
  then show ?case by simp
next
  case (Cons p ports)
  show ?case
  proof (cases "PORT_TO_MASK p")
    case None
    then show ?thesis using Cons.IH [of m] by auto
  next
    case (Some v)
    then show ?thesis using Cons.IH [of "m OR v"] by (auto simp: bit_or_iff)
  qed
qed

lemma calculate_mask_set_eq:
  assumes "set xs = set ys"
  shows "calculate_mask xs = calculate_mask ys"
  by (rule bit_eqI) (simp add: calculate_mask_def calculate_mask_loop_bit assms)

lemma calculate_mask_filter:
  "calculate_mask ports = calculate_mask (filter (\<lambda>p. PORT_TO_MASK p \<noteq> None) ports)"
  by (rule bit_eqI) (auto simp: calculate_mask_def calculate_mask_loop_bit)

text \<open>
  C9. The mask of the empty list is 0; the mask of one recognised port \<open>p\<close> is
  \<open>1 << portBit p\<close>; two lists that are permutations of each other have the same mask; and
  adding a port that the list already has leaves the mask as it is.
\<close>

theorem calculate_mask_algebra:
  "calculate_mask [] = 0
   \<and> (PORT_TO_BIT p = Some b \<longrightarrow> calculate_mask [p] = push_bit b 1)
   \<and> (mset xs = mset ys \<longrightarrow> calculate_mask xs = calculate_mask ys)
   \<and> (q \<in> set zs \<longrightarrow> calculate_mask (q # zs) = calculate_mask zs
                       \<and> calculate_mask (zs @ [q]) = calculate_mask zs)"
proof (intro conjI impI)
  show "calculate_mask [] = 0" by (simp add: calculate_mask_def)
next
  assume "PORT_TO_BIT p = Some b"
  then show "calculate_mask [p] = push_bit b 1"
    by (simp add: calculate_mask_def PORT_TO_MASK_def)
next
  assume "mset xs = mset ys"
  then have "set xs = set ys" by (rule mset_eq_setD)
  then show "calculate_mask xs = calculate_mask ys" by (rule calculate_mask_set_eq)
next
  assume "q \<in> set zs"
  then have "set (q # zs) = set zs" by auto
  then show "calculate_mask (q # zs) = calculate_mask zs" by (rule calculate_mask_set_eq)
next
  assume "q \<in> set zs"
  then have "set (zs @ [q]) = set zs" by auto
  then show "calculate_mask (zs @ [q]) = calculate_mask zs" by (rule calculate_mask_set_eq)
qed

theorem calculate_mask_algebra_witness:
  "PORT_TO_BIT ''E0'' = Some 2 \<and> calculate_mask [''E0''] = push_bit (2::nat) 1
   \<and> mset [''E0'', ''W0'', ''N1''] = mset [''N1'', ''E0'', ''W0'']
   \<and> calculate_mask [''E0'', ''W0'', ''N1''] = calculate_mask [''N1'', ''E0'', ''W0'']
   \<and> ''W0'' \<in> set [''E0'', ''W0'']
   \<and> calculate_mask [''W0'', ''E0'', ''W0''] = calculate_mask [''E0'', ''W0'']
   \<and> calculate_mask [''E0'', ''W0'', ''W0''] = calculate_mask [''E0'', ''W0'']
   \<and> calculate_mask [''E0'', ''W0''] = 132"
proof -
  have b: "PORT_TO_BIT ''E0'' = Some 2" by (simp add: PORT_TO_BIT_def)
  have m: "mset [''E0'', ''W0'', ''N1''] = mset [''N1'', ''E0'', ''W0'']" by simp
  have s: "''W0'' \<in> set [''E0'', ''W0'']" by simp
  have v: "calculate_mask [''E0'', ''W0''] = 132"
    by (simp add: calculate_mask_def PORT_TO_MASK_def PORT_TO_BIT_def)
  from calculate_mask_algebra [of "''E0''" 2 "[''E0'', ''W0'', ''N1'']" "[''N1'', ''E0'', ''W0'']"
      "''W0''" "[''E0'', ''W0'']"] b m s v
  show ?thesis by simp
qed

text \<open>
  C3, as the code has it. \<^verbatim>\<open>calculate_mask\<close> has no failing branch: a name that is not a
  key of \<^verbatim>\<open>PORT_TO_MASK\<close> is passed over, so the unrecognised name \<^verbatim>\<open>Z9\<close> alone gives
  the mask 0, and next to E0 it gives the mask of E0.
\<close>

theorem calculate_mask_unknown_port_counterexample:
  "PORT_TO_BIT ''Z9'' = None \<and> PORT_TO_MASK ''Z9'' = None
   \<and> calculate_mask [''Z9''] = 0 \<and> calculate_mask [''E0'', ''Z9''] = 4"
  by (simp add: calculate_mask_def PORT_TO_MASK_def PORT_TO_BIT_def)

lemma calculate_mask_bit:
  "bit (calculate_mask ports) n \<longleftrightarrow> (\<exists>p \<in> set ports. PORT_TO_BIT p = Some n)"
proof -
  have "(\<exists>v. PORT_TO_MASK p = Some v \<and> bit v n) \<longleftrightarrow> PORT_TO_BIT p = Some n" for p
    by (cases "PORT_TO_BIT p") (auto simp: PORT_TO_MASK_def bit_push_bit_iff bit_1_iff bit_exp_iff)
  then show ?thesis
    by (simp add: calculate_mask_def calculate_mask_loop_bit Bex_def)
qed

lemma calculate_mask_all_unknown:
  assumes "\<forall>p \<in> set ports. PORT_TO_MASK p = None"
  shows "calculate_mask ports = 0"
proof (rule bit_eqI)
  fix n
  have "PORT_TO_BIT p \<noteq> Some n" if "p \<in> set ports" for p
    using assms that by (auto simp: PORT_TO_MASK_def)
  then show "bit (calculate_mask ports) n = bit (0::int) n"
    by (auto simp: calculate_mask_bit)
qed

lemma PORT_TO_MASK_known:
  "(PORT_TO_MASK p \<noteq> None) = (p \<in> set [''N0'', ''N1'', ''E0'', ''E1'', ''S1'', ''S0'', ''W1'', ''W0''])"
  by (simp add: PORT_TO_MASK_def PORT_TO_BIT_def)

text \<open>
  C3, amended. For every list of port names, \<^verbatim>\<open>calculate_mask\<close> returns a mask and never
  fails. Bit \<open>n\<close> of the mask is set exactly when the list holds a recognised name whose
  bit index is \<open>n\<close>; the names that are not among the eight recognised ones contribute
  nothing, so the mask is that of the list without them, and a list of unrecognised names
  only gives the mask 0.
\<close>

theorem calculate_mask_ignores_unknown:
  "(bit (calculate_mask ports) n \<longleftrightarrow> (\<exists>q \<in> set ports. PORT_TO_BIT q = Some n))
   \<and> ((\<forall>q \<in> set ports. PORT_TO_MASK q = None) \<longrightarrow> calculate_mask ports = 0)
   \<and> (PORT_TO_MASK p = None \<longrightarrow>
        calculate_mask (xs @ p # ys) = calculate_mask (xs @ ys))
   \<and> calculate_mask ports = calculate_mask (filter (\<lambda>q. PORT_TO_MASK q \<noteq> None) ports)
   \<and> (PORT_TO_MASK p \<noteq> None) =
       (p \<in> set [''N0'', ''N1'', ''E0'', ''E1'', ''S1'', ''S0'', ''W1'', ''W0''])
   \<and> calculate_mask [''Z9''] = 0
   \<and> calculate_mask [''Z9'', ''E0'', ''Q'', ''W0''] = 0x84"
proof (intro conjI impI)
  show "bit (calculate_mask ports) n \<longleftrightarrow> (\<exists>q \<in> set ports. PORT_TO_BIT q = Some n)"
    by (rule calculate_mask_bit)
  show "calculate_mask ports = 0" if "\<forall>q \<in> set ports. PORT_TO_MASK q = None"
    using that by (rule calculate_mask_all_unknown)
  show "calculate_mask (xs @ p # ys) = calculate_mask (xs @ ys)" if "PORT_TO_MASK p = None"
  proof (rule bit_eqI)
    fix k
    have "PORT_TO_BIT p \<noteq> Some k" using that by (auto simp: PORT_TO_MASK_def)
    then show "bit (calculate_mask (xs @ p # ys)) k = bit (calculate_mask (xs @ ys)) k"
      by (auto simp: calculate_mask_bit)
  qed
  show "calculate_mask ports = calculate_mask (filter (\<lambda>q. PORT_TO_MASK q \<noteq> None) ports)"
    by (rule calculate_mask_filter)
  show "(PORT_TO_MASK p \<noteq> None) =
       (p \<in> set [''N0'', ''N1'', ''E0'', ''E1'', ''S1'', ''S0'', ''W1'', ''W0''])"
    by (rule PORT_TO_MASK_known)
  show "calculate_mask [''Z9''] = 0"
    by (simp add: calculate_mask_def PORT_TO_MASK_def PORT_TO_BIT_def)
  show "calculate_mask [''Z9'', ''E0'', ''Q'', ''W0''] = 0x84"
    by (simp add: calculate_mask_def PORT_TO_MASK_def PORT_TO_BIT_def)
qed

theorem calculate_mask_ignores_unknown_witness:
  "PORT_TO_MASK ''Z9'' = None \<and> PORT_TO_MASK ''Q'' = None
   \<and> calculate_mask [''Z9'', ''Q''] = 0
   \<and> calculate_mask ([''E0''] @ ''Z9'' # [''W0'']) = calculate_mask ([''E0''] @ [''W0''])
   \<and> calculate_mask [''E0'', ''W0''] = 132
   \<and> bit (calculate_mask [''E0'', ''Z9'', ''W0'']) 2
   \<and> bit (calculate_mask [''E0'', ''Z9'', ''W0'']) 7
   \<and> bit (calculate_mask [''E0'', ''Z9'', ''W0'']) 0 = False"
proof -
  have z: "PORT_TO_MASK ''Z9'' = None" and q: "PORT_TO_MASK ''Q'' = None"
    by (simp_all add: PORT_TO_MASK_def PORT_TO_BIT_def)
  have u: "\<forall>q \<in> set [''Z9'', ''Q'']. PORT_TO_MASK q = None"
    using z q by simp
  note t = calculate_mask_ignores_unknown [of "[''Z9'', ''Q'']" 0 "''Z9''" "[''E0'']" "[''W0'']"]
  from t u have a: "calculate_mask [''Z9'', ''Q''] = 0" by blast
  from t z have b: "calculate_mask ([''E0''] @ ''Z9'' # [''W0'']) = calculate_mask ([''E0''] @ [''W0''])"
    by blast
  have c: "calculate_mask [''E0'', ''W0''] = 132"
    by (simp add: calculate_mask_def PORT_TO_MASK_def PORT_TO_BIT_def)
  have d: "bit (calculate_mask [''E0'', ''Z9'', ''W0'']) 2"
    using calculate_mask_ignores_unknown [of "[''E0'', ''Z9'', ''W0'']" 2, THEN conjunct1]
    by (simp add: PORT_TO_BIT_def)
  have e: "bit (calculate_mask [''E0'', ''Z9'', ''W0'']) 7"
    using calculate_mask_ignores_unknown [of "[''E0'', ''Z9'', ''W0'']" 7, THEN conjunct1]
    by (simp add: PORT_TO_BIT_def)
  have f: "bit (calculate_mask [''E0'', ''Z9'', ''W0'']) 0 = False"
    using calculate_mask_ignores_unknown [of "[''E0'', ''Z9'', ''W0'']" 0, THEN conjunct1]
    by (simp add: PORT_TO_BIT_def)
  show ?thesis by (intro conjI z q a b c d e f)
qed

section \<open>Invalid marker ports\<close>

lemma marker_tiles_eval:
  assumes "PORT_TO_MASK (if PORT_TO_MASK s = None then ''E0'' else s) = Some v"
    and "PORT_TO_MASK (if PORT_TO_MASK g = None then ''W0'' else g) = Some w"
  shows "generate_marker_tiles s g =
     ((''road-tile-marker-start-'' @ format_02X v @ ''.svg'',
       ''road-tile-marker-goal-'' @ format_02X w @ ''.svg''),
      \<lparr>marker_files =
         [write_marker_svg (''road-tile-marker-start-'' @ format_02X v @ ''.svg'')
            (''Start marker tile, ports=['' @ (if PORT_TO_MASK s = None then ''E0'' else s) @
             ''], mask=0x'' @ format_02X v)
            [if PORT_TO_MASK s = None then ''E0'' else s] START_CONTENT,
          write_marker_svg (''road-tile-marker-goal-'' @ format_02X w @ ''.svg'')
            (''Goal marker tile, ports=['' @ (if PORT_TO_MASK g = None then ''W0'' else g) @
             ''], mask=0x'' @ format_02X w)
            [if PORT_TO_MASK g = None then ''W0'' else g] GOAL_CONTENT],
       marker_printed =
         (if PORT_TO_MASK s = None then [invalid_start_warning s] else []) @
         (if PORT_TO_MASK g = None then [invalid_goal_warning g] else []) @
         [generated_line (''road-tile-marker-start-'' @ format_02X v @ ''.svg'')
            (if PORT_TO_MASK s = None then ''E0'' else s) v,
          generated_line (''road-tile-marker-goal-'' @ format_02X w @ ''.svg'')
            (if PORT_TO_MASK g = None then ''W0'' else g) w,
          marker_done_line]\<rparr>)"
  unfolding generate_marker_tiles_def Let_def
  by (simp only: marker_tile_start [OF assms(1)] marker_tile_goal [OF assms(2)] prod.case)
     simp

text \<open>
  C7. \<^verbatim>\<open>generate_marker_tiles\<close> is a total function of its two arguments: it has no
  failing branch and always writes two files, under the two names it returns. The warnings
  for the ports that are not recognised are printed first, before the three lines of the
  generation. For a start port that is not recognised the first file written is
  \<^verbatim>\<open>road-tile-marker-start-04.svg\<close>, with the text of the default E0, and this is the
  first name returned; for a goal port that is not recognised the second file written is
  \<^verbatim>\<open>road-tile-marker-goal-80.svg\<close>, with the text of the default W0, and this is the
  second name returned.
\<close>

theorem invalid_marker_port_falls_back:
  "length (marker_files (snd (generate_marker_tiles s g))) = 2
   \<and> map fst (marker_files (snd (generate_marker_tiles s g))) =
       [fst (fst (generate_marker_tiles s g)), snd (fst (generate_marker_tiles s g))]
   \<and> (\<exists>rest. length rest = 3 \<and>
         marker_printed (snd (generate_marker_tiles s g)) =
           (if PORT_TO_MASK s = None then [invalid_start_warning s] else []) @
           (if PORT_TO_MASK g = None then [invalid_goal_warning g] else []) @ rest)
   \<and> (PORT_TO_MASK s = None \<longrightarrow>
        fst (fst (generate_marker_tiles s g)) = ''road-tile-marker-start-04.svg''
        \<and> marker_files (snd (generate_marker_tiles s g)) ! 0 =
            (''road-tile-marker-start-04.svg'',
             SVG_BASE_TMPL_format ''road-tile-marker-start-04''
               ''Start marker tile, ports=[E0], mask=0x04'' (generate_port_lines [''E0''])
               START_CONTENT))
   \<and> (PORT_TO_MASK g = None \<longrightarrow>
        snd (fst (generate_marker_tiles s g)) = ''road-tile-marker-goal-80.svg''
        \<and> marker_files (snd (generate_marker_tiles s g)) ! 1 =
            (''road-tile-marker-goal-80.svg'',
             SVG_BASE_TMPL_format ''road-tile-marker-goal-80''
               ''Goal marker tile, ports=[W0], mask=0x80'' (generate_port_lines [''W0''])
               GOAL_CONTENT))"
proof -
  obtain v where v: "PORT_TO_MASK (if PORT_TO_MASK s = None then ''E0'' else s) = Some v"
    by (cases "PORT_TO_MASK s") (auto simp: PORT_TO_MASK_E0)
  obtain w where w: "PORT_TO_MASK (if PORT_TO_MASK g = None then ''W0'' else g) = Some w"
    by (cases "PORT_TO_MASK g") (auto simp: PORT_TO_MASK_W0)
  note r = marker_tiles_eval [OF v w]
  have sv: "v = 4" if "PORT_TO_MASK s = None"
    using v that by (simp add: PORT_TO_MASK_E0)
  have gw: "w = 128" if "PORT_TO_MASK g = None"
    using w that by (simp add: PORT_TO_MASK_W0)
  have c1: "length (marker_files (snd (generate_marker_tiles s g))) = 2"
    by (simp add: r)
  have c1': "map fst (marker_files (snd (generate_marker_tiles s g))) =
       [fst (fst (generate_marker_tiles s g)), snd (fst (generate_marker_tiles s g))]"
    by (simp add: r write_marker_svg_def)
  have c2: "\<exists>rest. length rest = 3 \<and>
         marker_printed (snd (generate_marker_tiles s g)) =
           (if PORT_TO_MASK s = None then [invalid_start_warning s] else []) @
           (if PORT_TO_MASK g = None then [invalid_goal_warning g] else []) @ rest"
    by (simp add: r)
  have c3: "fst (fst (generate_marker_tiles s g)) = ''road-tile-marker-start-04.svg''
        \<and> marker_files (snd (generate_marker_tiles s g)) ! 0 =
            (''road-tile-marker-start-04.svg'',
             SVG_BASE_TMPL_format ''road-tile-marker-start-04''
               ''Start marker tile, ports=[E0], mask=0x04'' (generate_port_lines [''E0''])
               START_CONTENT)"
    if "PORT_TO_MASK s = None"
    using that sv [OF that] by (simp add: r format_02X_4 write_marker_svg_def)
  have c4: "snd (fst (generate_marker_tiles s g)) = ''road-tile-marker-goal-80.svg''
        \<and> marker_files (snd (generate_marker_tiles s g)) ! 1 =
            (''road-tile-marker-goal-80.svg'',
             SVG_BASE_TMPL_format ''road-tile-marker-goal-80''
               ''Goal marker tile, ports=[W0], mask=0x80'' (generate_port_lines [''W0''])
               GOAL_CONTENT)"
    if "PORT_TO_MASK g = None"
    using that gw [OF that] by (simp add: r format_02X_128 write_marker_svg_def)
  from c1 c1' c2 c3 c4 show ?thesis by blast
qed

theorem invalid_marker_port_falls_back_witness:
  "PORT_TO_MASK ''Z9'' = None
   \<and> fst (fst (generate_marker_tiles ''Z9'' ''W1'')) = ''road-tile-marker-start-04.svg''
   \<and> map fst (marker_files (snd (generate_marker_tiles ''Z9'' ''W1''))) =
       [''road-tile-marker-start-04.svg'', ''road-tile-marker-goal-40.svg'']
   \<and> marker_files (snd (generate_marker_tiles ''Z9'' ''W1'')) ! 0 =
       (''road-tile-marker-start-04.svg'',
        SVG_BASE_TMPL_format ''road-tile-marker-start-04''
          ''Start marker tile, ports=[E0], mask=0x04'' (generate_port_lines [''E0''])
          START_CONTENT)
   \<and> PORT_TO_MASK ''north'' = None
   \<and> snd (fst (generate_marker_tiles ''N0'' ''north'')) = ''road-tile-marker-goal-80.svg''
   \<and> map fst (marker_files (snd (generate_marker_tiles ''N0'' ''north''))) =
       [''road-tile-marker-start-01.svg'', ''road-tile-marker-goal-80.svg'']
   \<and> marker_files (snd (generate_marker_tiles ''N0'' ''north'')) ! 1 =
       (''road-tile-marker-goal-80.svg'',
        SVG_BASE_TMPL_format ''road-tile-marker-goal-80''
          ''Goal marker tile, ports=[W0], mask=0x80'' (generate_port_lines [''W0''])
          GOAL_CONTENT)"
proof -
  have s: "PORT_TO_MASK ''Z9'' = None" by (simp add: PORT_TO_MASK_def PORT_TO_BIT_def)
  have g: "PORT_TO_MASK ''north'' = None" by (simp add: PORT_TO_MASK_def PORT_TO_BIT_def)
  note t1 = invalid_marker_port_falls_back [of "''Z9''" "''W1''"]
  note t2 = invalid_marker_port_falls_back [of "''N0''" "''north''"]
  have w1: "PORT_TO_MASK (if PORT_TO_MASK ''Z9'' = None then ''E0'' else ''Z9'') = Some 4"
    by (simp add: PORT_TO_MASK_def PORT_TO_BIT_def)
  have w2: "PORT_TO_MASK (if PORT_TO_MASK ''W1'' = None then ''W0'' else ''W1'') = Some 64"
    by (simp add: PORT_TO_MASK_def PORT_TO_BIT_def)
  have w3: "PORT_TO_MASK (if PORT_TO_MASK ''N0'' = None then ''E0'' else ''N0'') = Some 1"
    by (simp add: PORT_TO_MASK_def PORT_TO_BIT_def)
  have w4: "PORT_TO_MASK (if PORT_TO_MASK ''north'' = None then ''W0'' else ''north'') = Some 128"
    by (simp add: PORT_TO_MASK_def PORT_TO_BIT_def)
  have r1: "snd (fst (generate_marker_tiles ''Z9'' ''W1'')) = ''road-tile-marker-goal-40.svg''"
    by (simp add: marker_tiles_eval [OF w1 w2] eval_fmt)
  have r2: "fst (fst (generate_marker_tiles ''N0'' ''north'')) = ''road-tile-marker-start-01.svg''"
    by (simp add: marker_tiles_eval [OF w3 w4] eval_fmt)
  from t1 s have a: "fst (fst (generate_marker_tiles ''Z9'' ''W1'')) = ''road-tile-marker-start-04.svg''"
    by blast
  from t1 have "map fst (marker_files (snd (generate_marker_tiles ''Z9'' ''W1''))) =
       [fst (fst (generate_marker_tiles ''Z9'' ''W1'')), snd (fst (generate_marker_tiles ''Z9'' ''W1''))]"
    by blast
  then have b: "map fst (marker_files (snd (generate_marker_tiles ''Z9'' ''W1''))) =
       [''road-tile-marker-start-04.svg'', ''road-tile-marker-goal-40.svg'']"
    by (simp only: a r1)
  from t1 s have c: "marker_files (snd (generate_marker_tiles ''Z9'' ''W1'')) ! 0 =
       (''road-tile-marker-start-04.svg'',
        SVG_BASE_TMPL_format ''road-tile-marker-start-04''
          ''Start marker tile, ports=[E0], mask=0x04'' (generate_port_lines [''E0''])
          START_CONTENT)"
    by blast
  from t2 g have d: "snd (fst (generate_marker_tiles ''N0'' ''north'')) = ''road-tile-marker-goal-80.svg''"
    by blast
  from t2 have "map fst (marker_files (snd (generate_marker_tiles ''N0'' ''north''))) =
       [fst (fst (generate_marker_tiles ''N0'' ''north'')), snd (fst (generate_marker_tiles ''N0'' ''north''))]"
    by blast
  then have e: "map fst (marker_files (snd (generate_marker_tiles ''N0'' ''north''))) =
       [''road-tile-marker-start-01.svg'', ''road-tile-marker-goal-80.svg'']"
    by (simp only: d r2)
  from t2 g have f: "marker_files (snd (generate_marker_tiles ''N0'' ''north'')) ! 1 =
       (''road-tile-marker-goal-80.svg'',
        SVG_BASE_TMPL_format ''road-tile-marker-goal-80''
          ''Goal marker tile, ports=[W0], mask=0x80'' (generate_port_lines [''W0''])
          GOAL_CONTENT)"
    by blast
  show ?thesis by (intro conjI s a b c g d e f)
qed

section \<open>The keys of the four rotation variants\<close>

lemma ANGLES_eval: "ANGLES = [(0, 0), (1, 90), (2, 180), (3, 270)]"
  by (simp add: ANGLES_def)

lemma rot_key_positional:
  assumes "rot base_key = Some ks" and "3 \<le> length ks"
  shows "rot_key rot base_key 1 90 = Inr (ks ! 0)"
    and "rot_key rot base_key 2 180 = Inr (ks ! 1)"
    and "rot_key rot base_key 3 270 = Inr (ks ! 2)"
  using assms by (auto simp: rot_key_def py_index_def)

section \<open>The mask is read back from the file name\<close>

lemma hex_digit_inj:
  assumes "d < 16" and "e < 16" and "hex_digit d = hex_digit e"
  shows "d = e"
proof -
  have "distinct ''0123456789ABCDEF''" by simp
  moreover have "d < length ''0123456789ABCDEF''" "e < length ''0123456789ABCDEF''"
    using assms by simp_all
  ultimately show ?thesis
    using assms(3) unfolding hex_digit_def by (simp only: nth_eq_iff_index_eq)
qed

lemma hex_digit_in: "d < 16 \<Longrightarrow> hex_digit d \<in> set ''0123456789ABCDEF''"
  unfolding hex_digit_def by (rule nth_mem) simp

lemma hex_upper_chars: "set (hex_upper n) \<subseteq> set ''0123456789ABCDEF''"
proof (induction n rule: hex_upper.induct)
  case (1 n)
  show ?case
  proof (cases "n < 16")
    case True
    then show ?thesis using hex_digit_in [of n] by (simp add: hex_upper_small)
  next
    case False
    have "n mod 16 < 16" by simp
    then have "hex_digit (n mod 16) \<in> set ''0123456789ABCDEF''" by (rule hex_digit_in)
    then show ?thesis using False "1.IH" by (simp add: hex_upper_big)
  qed
qed

lemma hex_upper_length: "length (hex_upper n) = Suc 0 \<longleftrightarrow> n < 16"
proof (cases "n < 16")
  case True
  then show ?thesis by (simp add: hex_upper_small)
next
  case False
  have "hex_upper (n div 16) \<noteq> []"
    by (subst hex_upper.simps) simp
  then have "length (hex_upper (n div 16)) \<noteq> 0" by simp
  then show ?thesis using False by (simp add: hex_upper_big)
qed

lemma hex_upper_nonempty: "hex_upper n \<noteq> []"
  by (subst hex_upper.simps) simp

lemma hex_upper_inj: "hex_upper n = hex_upper m \<Longrightarrow> n = m"
proof (induction n arbitrary: m rule: hex_upper.induct)
  case (1 n)
  show ?case
  proof (cases "n < 16")
    case True
    then have "length (hex_upper m) = Suc 0" using "1.prems" hex_upper_length [of n] by simp
    then have m: "m < 16" by (simp add: hex_upper_length)
    then show ?thesis using True "1.prems" hex_digit_inj [of n m] by (simp add: hex_upper_small)
  next
    case False
    then have "length (hex_upper m) \<noteq> Suc 0" using "1.prems" hex_upper_length [of n] by simp
    then have m: "\<not> m < 16" by (simp add: hex_upper_length)
    from "1.prems" False m
    have e: "hex_upper (n div 16) = hex_upper (m div 16)"
      and d: "hex_digit (n mod 16) = hex_digit (m mod 16)"
      by (simp_all add: hex_upper_big)
    from "1.IH" [OF False e] have q: "n div 16 = m div 16" .
    have "n mod 16 = m mod 16" using d by (intro hex_digit_inj) simp_all
    with q show ?thesis by (metis div_mult_mod_eq)
  qed
qed

lemma hex_upper_hd: "0 < n \<Longrightarrow> hd (hex_upper n) \<noteq> CHR ''0''"
proof (induction n rule: hex_upper.induct)
  case (1 n)
  show ?case
  proof (cases "n < 16")
    case True
    have "hex_digit 0 = CHR ''0''" by (simp add: hex_digit_def)
    then have "hex_digit n \<noteq> CHR ''0''" using hex_digit_inj [of n 0] True "1.prems" by auto
    then show ?thesis using True by (simp add: hex_upper_small)
  next
    case False
    then have "0 < n div 16" by simp
    from "1.IH" [OF False this] show ?thesis
      using False by (simp add: hex_upper_big hex_upper_nonempty)
  qed
qed

lemma format_02X_inj: "format_02X a = format_02X b \<Longrightarrow> a = b"
proof -
  assume eq: "format_02X a = format_02X b"
  have nominus: "CHR ''-'' \<notin> set (hex_upper k)" for k
    using hex_upper_chars [of k] by auto
  have pad: "replicate (2 - length (hex_upper k)) CHR ''0'' @ hex_upper k =
      (if k < 16 then [CHR ''0'', hex_digit k] else hex_upper k)" for k
  proof (cases "k < 16")
    case True
    then show ?thesis by (simp add: hex_upper_small numeral_2_eq_2)
  next
    case False
    then have "length (hex_upper k) \<noteq> Suc 0" by (simp add: hex_upper_length)
    moreover have "length (hex_upper k) \<noteq> 0" using hex_upper_nonempty [of k] by simp
    ultimately have "2 - length (hex_upper k) = 0" by arith
    then show ?thesis using False by simp
  qed
  have nonneg: "x = y" if "pad2 x = pad2 y"
    and "pad2 = (\<lambda>k. replicate (2 - length (hex_upper k)) CHR ''0'' @ hex_upper k)" for x y pad2
  proof -
    have e: "(if x < 16 then [CHR ''0'', hex_digit x] else hex_upper x) =
             (if y < 16 then [CHR ''0'', hex_digit y] else hex_upper y)"
      using that pad by simp
    consider "x < 16" "y < 16" | "x < 16" "\<not> y < 16" | "\<not> x < 16" "y < 16" | "\<not> x < 16" "\<not> y < 16"
      by blast
    then show ?thesis
    proof cases
      case 1
      then show ?thesis using e hex_digit_inj [of x y] by simp
    next
      case 2
      then have "hd (hex_upper y) = CHR ''0''" using e by (metis list.sel(1))
      moreover have "0 < y" using 2 by simp
      ultimately show ?thesis using hex_upper_hd [of y] by simp
    next
      case 3
      then have "hd (hex_upper x) = CHR ''0''" using e by (metis list.sel(1))
      moreover have "0 < x" using 3 by simp
      ultimately show ?thesis using hex_upper_hd [of x] by simp
    next
      case 4
      then show ?thesis using e hex_upper_inj by simp
    qed
  qed
  have minus_pad: "CHR ''-'' # xs \<noteq> replicate (2 - length (hex_upper k)) CHR ''0'' @ hex_upper k" for xs k
  proof
    assume "CHR ''-'' # xs = replicate (2 - length (hex_upper k)) CHR ''0'' @ hex_upper k"
    then have "CHR ''-'' \<in> set (replicate (2 - length (hex_upper k)) CHR ''0'' @ hex_upper k)"
      by (metis list.set_intros(1))
    then show False using nominus [of k] by (auto split: if_splits)
  qed
  consider "a < 0" "b < 0" | "a < 0" "\<not> b < 0" | "\<not> a < 0" "b < 0" | "\<not> a < 0" "\<not> b < 0"
    by blast
  then show "a = b"
  proof cases
    case 1
    then have "hex_upper (nat (- a)) = hex_upper (nat (- b))" using eq by (simp add: format_02X_def)
    then have "nat (- a) = nat (- b)" by (rule hex_upper_inj)
    then show ?thesis using 1 by simp
  next
    case 2
    then show ?thesis using eq minus_pad [of "hex_upper (nat (- a))" "nat b"]
      by (simp add: format_02X_def)
  next
    case 3
    then show ?thesis using eq minus_pad [of "hex_upper (nat (- b))" "nat a"]
      by (simp add: format_02X_def)
  next
    case 4
    then have "nat a = nat b"
      using eq nonneg [of _ "nat a" "nat b", OF _ refl] by (simp add: format_02X_def)
    then show ?thesis using 4 by simp
  qed
qed

lemma mask_fname_inj: "mask_fname tile_type a = mask_fname tile_type b \<Longrightarrow> a = b"
  by (rule format_02X_inj) (simp add: mask_fname_def)

section \<open>One generation pass never writes a mask twice\<close>

lemma rot_tile_step_masks:
  assumes "rot_tile_step rot tile_type base_key paths ia st = Inr st'"
    and "distinct ms" and "set ms = used_masks st"
    and "map fst (written st) = map (mask_fname tile_type) ms"
  shows "\<exists>ms'. distinct ms' \<and> set ms' = used_masks st' \<and>
           map fst (written st') = map (mask_fname tile_type) ms'"
proof -
  from assms(1) obtain key m where
    k: "rot_key rot base_key (fst ia) (snd ia) = Inr key" and m: "key_to_mask key = Inr m"
    by (auto simp: rot_tile_step_def split: sum.splits)
  from assms(1) have
    st': "st' = (if m \<in> used_masks st then st
                else \<lparr>used_masks = insert m (used_masks st),
                      written = written st @
                        [write_svg (mask_fname tile_type m) (mask_desc tile_type key m)
                           (outer paths) (inner paths) (rotate_attr (snd ia))]\<rparr>)"
    by (simp add: rot_tile_step_def k m split: if_splits)
  show ?thesis
  proof (cases "m \<in> used_masks st")
    case True
    then show ?thesis using st' assms(2-4) by auto
  next
    case False
    then have "distinct (ms @ [m])" "set (ms @ [m]) = used_masks st'"
      "map fst (written st') = map (mask_fname tile_type) (ms @ [m])"
      using st' assms(2-4) by (simp_all add: write_svg_def)
    then show ?thesis by blast
  qed
qed

lemma angle_loop_masks:
  assumes "distinct ms" and "set ms = used_masks st"
    and "map fst (written st) = map (mask_fname tile_type) ms"
  shows "\<exists>ms'. distinct ms' \<and>
           set ms' = used_masks (fst (angle_loop rot tile_type base_key paths ias st)) \<and>
           map fst (written (fst (angle_loop rot tile_type base_key paths ias st))) =
             map (mask_fname tile_type) ms'"
  using assms
proof (induction ias arbitrary: st ms)
  case Nil
  then show ?case by auto
next
  case (Cons ia ias)
  show ?case
  proof (cases "rot_tile_step rot tile_type base_key paths ia st")
    case (Inl e)
    then show ?thesis using Cons.prems by auto
  next
    case (Inr st')
    from rot_tile_step_masks [OF Inr Cons.prems] obtain ms' where
      "distinct ms'" "set ms' = used_masks st'"
      "map fst (written st') = map (mask_fname tile_type) ms'"
      by blast
    from Cons.IH [OF this] show ?thesis using Inr by simp
  qed
qed

lemma base_loop_masks:
  assumes "distinct ms" and "set ms = used_masks st"
    and "map fst (written st) = map (mask_fname tile_type) ms"
  shows "\<exists>ms'. distinct ms' \<and>
           set ms' = used_masks (fst (base_loop rot tile_type base_dict st)) \<and>
           map fst (written (fst (base_loop rot tile_type base_dict st))) =
             map (mask_fname tile_type) ms'"
  using assms
proof (induction base_dict arbitrary: st ms)
  case Nil
  then show ?case by auto
next
  case (Cons kp rest)
  obtain st' err where a: "angle_loop rot tile_type (fst kp) (snd kp) ANGLES st = (st', err)"
    by (cases "angle_loop rot tile_type (fst kp) (snd kp) ANGLES st") blast
  from angle_loop_masks [OF Cons.prems, of rot "fst kp" "snd kp" ANGLES] a obtain ms' where
    inv': "distinct ms'" "set ms' = used_masks st'"
      "map fst (written st') = map (mask_fname tile_type) ms'"
    by auto
  show ?case
  proof (cases err)
    case None
    from Cons.IH [OF inv'] show ?thesis using a None by simp
  next
    case (Some e)
    then show ?thesis using a inv' by auto
  qed
qed

lemma straight_step_masks:
  assumes "straight_step kp st = Inr st'"
    and "distinct ms" and "set ms = used_masks st"
    and "map fst (written st) = map (mask_fname ''straight'') ms"
  shows "\<exists>ms'. distinct ms' \<and> set ms' = used_masks st' \<and>
           map fst (written st') = map (mask_fname ''straight'') ms'"
proof -
  from assms(1) obtain m where m: "key_to_mask (fst kp) = Inr m"
    by (auto simp: straight_step_def split: sum.splits)
  from assms(1) have
    st': "st' = (if m \<in> used_masks st then st
                else \<lparr>used_masks = insert m (used_masks st),
                      written = written st @
                        [write_svg (mask_fname ''straight'' m) (mask_desc ''straight'' (fst kp) m)
                           (outer (snd kp)) (inner (snd kp)) []]\<rparr>)"
    by (simp add: straight_step_def m split: if_splits)
  show ?thesis
  proof (cases "m \<in> used_masks st")
    case True
    then show ?thesis using st' assms(2-4) by auto
  next
    case False
    then have "distinct (ms @ [m])" "set (ms @ [m]) = used_masks st'"
      "map fst (written st') = map (mask_fname ''straight'') (ms @ [m])"
      using st' assms(2-4) by (simp_all add: write_svg_def)
    then show ?thesis by blast
  qed
qed

lemma straight_loop_masks:
  assumes "distinct ms" and "set ms = used_masks st"
    and "map fst (written st) = map (mask_fname ''straight'') ms"
  shows "\<exists>ms'. distinct ms' \<and>
           set ms' = used_masks (fst (straight_loop paths_dict st)) \<and>
           map fst (written (fst (straight_loop paths_dict st))) =
             map (mask_fname ''straight'') ms'"
  using assms
proof (induction paths_dict arbitrary: st ms)
  case Nil
  then show ?case by auto
next
  case (Cons kp rest)
  show ?case
  proof (cases "straight_step kp st")
    case (Inl e)
    then show ?thesis using Cons.prems by auto
  next
    case (Inr st')
    from straight_step_masks [OF Inr Cons.prems] obtain ms' where
      "distinct ms'" "set ms' = used_masks st'"
      "map fst (written st') = map (mask_fname ''straight'') ms'"
      by blast
    from Cons.IH [OF this] show ?thesis using Inr by simp
  qed
qed

lemma distinct_mask_fnames: "distinct ms \<Longrightarrow> distinct (map (mask_fname tile_type) ms)"
  by (simp add: distinct_map inj_on_def) (blast dest: mask_fname_inj)

lemma gen_rot_tiles_masks:
  "\<exists>ms. distinct ms \<and>
     map fst (fst (gen_rot_tiles_with rot base_dict tile_type)) = map (mask_fname tile_type) ms"
proof -
  have "\<exists>ms'. distinct ms' \<and>
      set ms' = used_masks (fst (base_loop rot tile_type base_dict \<lparr>used_masks = {}, written = []\<rparr>)) \<and>
      map fst (written (fst (base_loop rot tile_type base_dict \<lparr>used_masks = {}, written = []\<rparr>))) =
        map (mask_fname tile_type) ms'"
    by (rule base_loop_masks [of "[]"]) simp_all
  then show ?thesis
    by (auto simp: gen_rot_tiles_with_def split: prod.splits)
qed

lemma gen_straight_tiles_masks:
  "\<exists>ms. distinct ms \<and>
     map fst (fst (gen_straight_tiles paths_dict)) = map (mask_fname ''straight'') ms"
proof -
  have "\<exists>ms'. distinct ms' \<and>
      set ms' = used_masks (fst (straight_loop paths_dict \<lparr>used_masks = {}, written = []\<rparr>)) \<and>
      map fst (written (fst (straight_loop paths_dict \<lparr>used_masks = {}, written = []\<rparr>))) =
        map (mask_fname ''straight'') ms'"
    by (rule straight_loop_masks [of "[]"]) simp_all
  then show ?thesis
    by (auto simp: gen_straight_tiles_def split: prod.splits)
qed

lemma curve_family_names:
  "map fst (fst (gen_rot_tiles curve_paths_base ''curve'')) =
     [''road-tile-curve-05.svg'', ''road-tile-curve-24.svg'', ''road-tile-curve-A0.svg'',
      ''road-tile-curve-81.svg'', ''road-tile-curve-09.svg'', ''road-tile-curve-14.svg'',
      ''road-tile-curve-60.svg'', ''road-tile-curve-82.svg'', ''road-tile-curve-06.svg'',
      ''road-tile-curve-28.svg'', ''road-tile-curve-90.svg'', ''road-tile-curve-41.svg'',
      ''road-tile-curve-0A.svg'', ''road-tile-curve-18.svg'', ''road-tile-curve-50.svg'',
      ''road-tile-curve-42.svg'']
   \<and> snd (gen_rot_tiles curve_paths_base ''curve'') = None"
  by (simp add: gen_rot_tiles_def gen_rot_tiles_with_def curve_paths_base_def ANGLES_eval
      rot_tile_step_def rot_key_def py_index_def ROT_KEYS_def eval_key write_svg_def
      mask_fname_def eval_fmt)

text \<open>
  C1. In one call of \<^verbatim>\<open>gen_rot_tiles\<close>, with any rotation table, any dictionary of base
  paths and any tile type, and in the straight loop on any dictionary, the names of the
  files written are the names of pairwise distinct masks, so no two files share a name,
  also when the run ends in an exception. The curve family, four base keys with four
  rotations each, writes exactly 16 files, for 16 distinct masks, and ends without an
  exception.
\<close>

theorem dedup_masks_distinct:
  "(\<exists>ms. distinct ms \<and>
      map fst (fst (gen_rot_tiles_with rot base_dict tile_type)) = map (mask_fname tile_type) ms)
   \<and> distinct (map fst (fst (gen_rot_tiles_with rot base_dict tile_type)))
   \<and> (\<exists>ms. distinct ms \<and>
      map fst (fst (gen_straight_tiles paths_dict)) = map (mask_fname ''straight'') ms)
   \<and> distinct (map fst (fst (gen_straight_tiles paths_dict)))
   \<and> map fst (fst (gen_rot_tiles curve_paths_base ''curve'')) =
       map (mask_fname ''curve'')
         [0x05, 0x24, 0xA0, 0x81, 0x09, 0x14, 0x60, 0x82, 0x06, 0x28, 0x90, 0x41, 0x0A, 0x18,
          0x50, 0x42]
   \<and> distinct [0x05, 0x24, 0xA0, 0x81, 0x09, 0x14, 0x60, 0x82, 0x06, 0x28, 0x90, 0x41, 0x0A,
         0x18, 0x50, (0x42 :: int)]
   \<and> length (fst (gen_rot_tiles curve_paths_base ''curve'')) = 16
   \<and> snd (gen_rot_tiles curve_paths_base ''curve'') = None"
proof -
  obtain ms where ms: "distinct ms"
    "map fst (fst (gen_rot_tiles_with rot base_dict tile_type)) = map (mask_fname tile_type) ms"
    using gen_rot_tiles_masks by blast
  obtain ns where ns: "distinct ns"
    "map fst (fst (gen_straight_tiles paths_dict)) = map (mask_fname ''straight'') ns"
    using gen_straight_tiles_masks by blast
  have a: "distinct (map fst (fst (gen_rot_tiles_with rot base_dict tile_type)))"
    using ms distinct_mask_fnames [of ms tile_type] by simp
  have b: "distinct (map fst (fst (gen_straight_tiles paths_dict)))"
    using ns distinct_mask_fnames [of ns "''straight''"] by simp
  have c: "map fst (fst (gen_rot_tiles curve_paths_base ''curve'')) =
       map (mask_fname ''curve'')
         [0x05, 0x24, 0xA0, 0x81, 0x09, 0x14, 0x60, 0x82, 0x06, 0x28, 0x90, 0x41, 0x0A, 0x18,
          0x50, 0x42]"
    by (simp add: curve_family_names mask_fname_def eval_fmt)
  have d: "distinct [0x05, 0x24, 0xA0, 0x81, 0x09, 0x14, 0x60, 0x82, 0x06, 0x28, 0x90, 0x41, 0x0A,
         0x18, 0x50, (0x42 :: int)]"
    by simp
  have "length (map fst (fst (gen_rot_tiles curve_paths_base ''curve''))) = 16"
    by (simp only: c length_map) simp
  then have e: "length (fst (gen_rot_tiles curve_paths_base ''curve'')) = 16"
    by (simp only: length_map)
  have f: "snd (gen_rot_tiles curve_paths_base ''curve'') = None"
    by (simp add: curve_family_names)
  from ms ns a b c d e f show ?thesis by blast
qed

section \<open>The key-named generator writes every variant\<close>

lemma capitalize_curve: "capitalize ''curve'' = ''Curve''"
  by code_simp

lemma capitalize_sharp: "capitalize ''sharp'' = ''Sharp''"
  by code_simp

lemma capitalize_straight: "capitalize ''straight'' = ''Straight''"
  by code_simp

lemmas eval_desc = get_description_def capitalize_curve capitalize_sharp capitalize_straight
  dict_get_def dir_map_full_def pair_range_map_def

lemma generate_py_eval:
  "\<exists>st. generate_py = (st, None) \<and> generated_files_count st = 36 \<and>
     map fst (road_files st) =
    [''road-tile-curve-U1U2-R1R2.svg'', ''road-tile-curve-R1R2-D1D2.svg'',
     ''road-tile-curve-D1D2-L1L2.svg'', ''road-tile-curve-L1L2-U1U2.svg'',
     ''road-tile-curve-U1U2-R2R3.svg'', ''road-tile-curve-R1R2-D2D3.svg'',
     ''road-tile-curve-D1D2-L2L3.svg'', ''road-tile-curve-L1L2-U2U3.svg'',
     ''road-tile-curve-U2U3-R1R2.svg'', ''road-tile-curve-R2R3-D1D2.svg'',
     ''road-tile-curve-D2D3-L1L2.svg'', ''road-tile-curve-L2L3-U1U2.svg'',
     ''road-tile-curve-U2U3-R2R3.svg'', ''road-tile-curve-R2R3-D2D3.svg'',
     ''road-tile-curve-D2D3-L2L3.svg'', ''road-tile-curve-L2L3-U2U3.svg'',
     ''road-tile-sharp-U1U2-R1R2.svg'', ''road-tile-sharp-R1R2-D1D2.svg'',
     ''road-tile-sharp-D1D2-L1L2.svg'', ''road-tile-sharp-L1L2-U1U2.svg'',
     ''road-tile-sharp-U1U2-R2R3.svg'', ''road-tile-sharp-R1R2-D2D3.svg'',
     ''road-tile-sharp-D1D2-L2L3.svg'', ''road-tile-sharp-L1L2-U2U3.svg'',
     ''road-tile-sharp-U2U3-R1R2.svg'', ''road-tile-sharp-R2R3-D1D2.svg'',
     ''road-tile-sharp-D2D3-L1L2.svg'', ''road-tile-sharp-L2L3-U1U2.svg'',
     ''road-tile-sharp-U2U3-R2R3.svg'', ''road-tile-sharp-R2R3-D2D3.svg'',
     ''road-tile-sharp-D2D3-L2L3.svg'', ''road-tile-sharp-L2L3-U2U3.svg'',
     ''road-tile-straight-L2L3-R2R3.svg'', ''road-tile-straight-R2R3-L2L3.svg'',
     ''road-tile-straight-U2U3-D2D3.svg'', ''road-tile-straight-D2D3-U2U3.svg''] \<and>
     road_printed st =
       [''Generating curve tiles...'', ''Generating sharp tiles...'',
        ''Generating straight tiles (central lanes only)...''] @ summary_lines 36"
  by (simp add: generate_py_def generate_rotated_tiles_def generate_rotated_tiles_with_def
      curve_paths_base_def sharp_paths_base_def straight_paths_def ANGLES_eval say_def
      rotated_tile_step_def rotated_tile_key_def py_index_def rotated_keys_map_def
      write_key_tile_def key_fname_def eval_desc)

lemma key_file_names_distinct:
  "distinct
    [''road-tile-curve-U1U2-R1R2.svg'', ''road-tile-curve-R1R2-D1D2.svg'',
     ''road-tile-curve-D1D2-L1L2.svg'', ''road-tile-curve-L1L2-U1U2.svg'',
     ''road-tile-curve-U1U2-R2R3.svg'', ''road-tile-curve-R1R2-D2D3.svg'',
     ''road-tile-curve-D1D2-L2L3.svg'', ''road-tile-curve-L1L2-U2U3.svg'',
     ''road-tile-curve-U2U3-R1R2.svg'', ''road-tile-curve-R2R3-D1D2.svg'',
     ''road-tile-curve-D2D3-L1L2.svg'', ''road-tile-curve-L2L3-U1U2.svg'',
     ''road-tile-curve-U2U3-R2R3.svg'', ''road-tile-curve-R2R3-D2D3.svg'',
     ''road-tile-curve-D2D3-L2L3.svg'', ''road-tile-curve-L2L3-U2U3.svg'',
     ''road-tile-sharp-U1U2-R1R2.svg'', ''road-tile-sharp-R1R2-D1D2.svg'',
     ''road-tile-sharp-D1D2-L1L2.svg'', ''road-tile-sharp-L1L2-U1U2.svg'',
     ''road-tile-sharp-U1U2-R2R3.svg'', ''road-tile-sharp-R1R2-D2D3.svg'',
     ''road-tile-sharp-D1D2-L2L3.svg'', ''road-tile-sharp-L1L2-U2U3.svg'',
     ''road-tile-sharp-U2U3-R1R2.svg'', ''road-tile-sharp-R2R3-D1D2.svg'',
     ''road-tile-sharp-D2D3-L1L2.svg'', ''road-tile-sharp-L2L3-U1U2.svg'',
     ''road-tile-sharp-U2U3-R2R3.svg'', ''road-tile-sharp-R2R3-D2D3.svg'',
     ''road-tile-sharp-D2D3-L2L3.svg'', ''road-tile-sharp-L2L3-U2U3.svg'',
     ''road-tile-straight-L2L3-R2R3.svg'', ''road-tile-straight-R2R3-L2L3.svg'',
     ''road-tile-straight-U2U3-D2D3.svg'', ''road-tile-straight-D2D3-U2U3.svg'']"
  by simp

text \<open>
  C10. \<^verbatim>\<open>generate.py\<close> has no set of used masks: run as a whole it ends without an
  exception and writes 36 files with 36 different names, each name holding the tile key:
  16 curve tiles, 16 sharp tiles and all 4 straight keys, the two reversed ones included
  although their masks are those of the other two. Its counter ends at 36, so the last line
  it prints is the message for the expected number.
\<close>

theorem key_named_generator_writes_36:
  "snd generate_py = None
   \<and> generated_files_count (fst generate_py) = 36
   \<and> length (road_files (fst generate_py)) = 36
   \<and> distinct (map fst (road_files (fst generate_py)))
   \<and> map fst (road_files (fst generate_py)) =
    [''road-tile-curve-U1U2-R1R2.svg'', ''road-tile-curve-R1R2-D1D2.svg'',
     ''road-tile-curve-D1D2-L1L2.svg'', ''road-tile-curve-L1L2-U1U2.svg'',
     ''road-tile-curve-U1U2-R2R3.svg'', ''road-tile-curve-R1R2-D2D3.svg'',
     ''road-tile-curve-D1D2-L2L3.svg'', ''road-tile-curve-L1L2-U2U3.svg'',
     ''road-tile-curve-U2U3-R1R2.svg'', ''road-tile-curve-R2R3-D1D2.svg'',
     ''road-tile-curve-D2D3-L1L2.svg'', ''road-tile-curve-L2L3-U1U2.svg'',
     ''road-tile-curve-U2U3-R2R3.svg'', ''road-tile-curve-R2R3-D2D3.svg'',
     ''road-tile-curve-D2D3-L2L3.svg'', ''road-tile-curve-L2L3-U2U3.svg'',
     ''road-tile-sharp-U1U2-R1R2.svg'', ''road-tile-sharp-R1R2-D1D2.svg'',
     ''road-tile-sharp-D1D2-L1L2.svg'', ''road-tile-sharp-L1L2-U1U2.svg'',
     ''road-tile-sharp-U1U2-R2R3.svg'', ''road-tile-sharp-R1R2-D2D3.svg'',
     ''road-tile-sharp-D1D2-L2L3.svg'', ''road-tile-sharp-L1L2-U2U3.svg'',
     ''road-tile-sharp-U2U3-R1R2.svg'', ''road-tile-sharp-R2R3-D1D2.svg'',
     ''road-tile-sharp-D2D3-L1L2.svg'', ''road-tile-sharp-L2L3-U1U2.svg'',
     ''road-tile-sharp-U2U3-R2R3.svg'', ''road-tile-sharp-R2R3-D2D3.svg'',
     ''road-tile-sharp-D2D3-L2L3.svg'', ''road-tile-sharp-L2L3-U2U3.svg'',
     ''road-tile-straight-L2L3-R2R3.svg'', ''road-tile-straight-R2R3-L2L3.svg'',
     ''road-tile-straight-U2U3-D2D3.svg'', ''road-tile-straight-D2D3-U2U3.svg'']
   \<and> key_to_mask ''R2R3-L2L3'' = key_to_mask ''L2L3-R2R3''
   \<and> key_to_mask ''D2D3-U2U3'' = key_to_mask ''U2U3-D2D3''
   \<and> last (road_printed (fst generate_py)) =
       ''Generated 16 curve, 16 sharp, and 4 straight (central lanes only) tiles as expected.''"
proof -
  from generate_py_eval show ?thesis
  proof (elim exE conjE)
  fix st
  assume g: "generate_py = (st, None)" and c: "generated_files_count st = 36"
    and n: "map fst (road_files st) =
    [''road-tile-curve-U1U2-R1R2.svg'', ''road-tile-curve-R1R2-D1D2.svg'',
     ''road-tile-curve-D1D2-L1L2.svg'', ''road-tile-curve-L1L2-U1U2.svg'',
     ''road-tile-curve-U1U2-R2R3.svg'', ''road-tile-curve-R1R2-D2D3.svg'',
     ''road-tile-curve-D1D2-L2L3.svg'', ''road-tile-curve-L1L2-U2U3.svg'',
     ''road-tile-curve-U2U3-R1R2.svg'', ''road-tile-curve-R2R3-D1D2.svg'',
     ''road-tile-curve-D2D3-L1L2.svg'', ''road-tile-curve-L2L3-U1U2.svg'',
     ''road-tile-curve-U2U3-R2R3.svg'', ''road-tile-curve-R2R3-D2D3.svg'',
     ''road-tile-curve-D2D3-L2L3.svg'', ''road-tile-curve-L2L3-U2U3.svg'',
     ''road-tile-sharp-U1U2-R1R2.svg'', ''road-tile-sharp-R1R2-D1D2.svg'',
     ''road-tile-sharp-D1D2-L1L2.svg'', ''road-tile-sharp-L1L2-U1U2.svg'',
     ''road-tile-sharp-U1U2-R2R3.svg'', ''road-tile-sharp-R1R2-D2D3.svg'',
     ''road-tile-sharp-D1D2-L2L3.svg'', ''road-tile-sharp-L1L2-U2U3.svg'',
     ''road-tile-sharp-U2U3-R1R2.svg'', ''road-tile-sharp-R2R3-D1D2.svg'',
     ''road-tile-sharp-D2D3-L1L2.svg'', ''road-tile-sharp-L2L3-U1U2.svg'',
     ''road-tile-sharp-U2U3-R2R3.svg'', ''road-tile-sharp-R2R3-D2D3.svg'',
     ''road-tile-sharp-D2D3-L2L3.svg'', ''road-tile-sharp-L2L3-U2U3.svg'',
     ''road-tile-straight-L2L3-R2R3.svg'', ''road-tile-straight-R2R3-L2L3.svg'',
     ''road-tile-straight-U2U3-D2D3.svg'', ''road-tile-straight-D2D3-U2U3.svg'']"

    and p: "road_printed st =
       [''Generating curve tiles...'', ''Generating sharp tiles...'',
        ''Generating straight tiles (central lanes only)...''] @ summary_lines 36"
  have l: "length (map fst (road_files st)) = 36"
    by (simp only: n) simp
  have d: "distinct (map fst (road_files st))"
    by (simp only: n key_file_names_distinct)
  have k: "key_to_mask ''R2R3-L2L3'' = key_to_mask ''L2L3-R2R3''"
    "key_to_mask ''D2D3-U2U3'' = key_to_mask ''U2U3-D2D3''"
    by (simp_all add: eval_key)
  have e: "last (road_printed st) =
       ''Generated 16 curve, 16 sharp, and 4 straight (central lanes only) tiles as expected.''"
    by (simp add: p summary_lines_def)
  from l have l': "length (road_files st) = 36" by (simp only: length_map)
  show ?thesis
    unfolding g fst_conv snd_conv by (intro conjI refl c l' d n k e)
  qed
qed

section \<open>A rotation entry that is missing\<close>











section \<open>The variants of a base key, in the order of the loop\<close>

lemma rot_tile_step_emit:
  assumes "rot_key rot base_key i a = Inr key" and "key_to_mask key = Inr m"
  shows "rot_tile_step rot tile_type base_key paths (i, a) st =
     Inr (if m \<in> used_masks st then st
          else \<lparr>used_masks = insert m (used_masks st),
                written = written st @
                  [(mask_fname tile_type m,
                    SVG_TMPL_format (take (length (mask_fname tile_type m) - 4) (mask_fname tile_type m))
                      (mask_desc tile_type key m) (rotate_attr a) (outer paths) (inner paths))]\<rparr>)"
  using assms by (simp add: rot_tile_step_def write_svg_def)

lemma rot_tile_step_grows:
  assumes "rot_tile_step rot tile_type base_key paths ia st = Inr st'"
  shows "\<exists>more. written st' = written st @ more"
  using assms by (auto simp: rot_tile_step_def split: sum.splits if_splits)

lemma angle_loop_grows:
  "\<exists>more. written (fst (angle_loop rot tile_type base_key paths ias st)) = written st @ more"
proof (induction ias arbitrary: st)
  case Nil
  show ?case by simp
next
  case (Cons ia ias)
  show ?case
  proof (cases "rot_tile_step rot tile_type base_key paths ia st")
    case (Inl e)
    then show ?thesis by simp
  next
    case (Inr st')
    from rot_tile_step_grows [OF Inr] obtain m1 where m1: "written st' = written st @ m1"
      by blast
    from Cons.IH [of st'] obtain m2 where
      "written (fst (angle_loop rot tile_type base_key paths ias st')) = written st' @ m2"
      by blast
    then show ?thesis using Inr m1 by simp
  qed
qed

lemma base_key_first:
  assumes "key_to_mask base_key = Inr m0"
  shows "\<exists>rest. fst (gen_rot_tiles_with rot [(base_key, paths)] tile_type) =
          (mask_fname tile_type m0,
           SVG_TMPL_format (take (length (mask_fname tile_type m0) - 4) (mask_fname tile_type m0))
             (mask_desc tile_type base_key m0) (rotate_attr 0) (outer paths) (inner paths)) # rest"
proof -
  let ?st0 = "\<lparr>used_masks = {}, written = []\<rparr>"
  have k: "rot_key rot base_key 0 0 = Inr base_key" by (simp add: rot_key_def)
  obtain st1 where s1: "rot_tile_step rot tile_type base_key paths (0, 0) ?st0 = Inr st1"
    and w1: "written st1 =
      [(mask_fname tile_type m0,
           SVG_TMPL_format (take (length (mask_fname tile_type m0) - 4) (mask_fname tile_type m0))
             (mask_desc tile_type base_key m0) (rotate_attr 0) (outer paths) (inner paths))]"
    using rot_tile_step_emit [OF k assms, of tile_type paths ?st0] by simp
  obtain more where
    m: "written (fst (angle_loop rot tile_type base_key paths [(1, 90), (2, 180), (3, 270)] st1)) =
          written st1 @ more"
    using angle_loop_grows by blast
  have "fst (gen_rot_tiles_with rot [(base_key, paths)] tile_type) =
      written (fst (angle_loop rot tile_type base_key paths [(1, 90), (2, 180), (3, 270)] st1))"
    using s1 by (simp add: gen_rot_tiles_with_def ANGLES_eval split: prod.splits option.splits)
  then show ?thesis using m w1 by (simp only: append_Cons append_Nil) blast
qed

lemma angle_loop_four:
  assumes "rot base_key = Some ks" and "3 \<le> length ks" and "key_to_mask base_key = Inr m0"
    and "key_to_mask (ks ! 0) = Inr m1" and "key_to_mask (ks ! 1) = Inr m2"
    and "key_to_mask (ks ! 2) = Inr m3"
  shows "angle_loop rot tile_type base_key paths ANGLES st =
          (foldl (\<lambda>s (a, key, m).
              if m \<in> used_masks s then s
              else \<lparr>used_masks = insert m (used_masks s),
                    written = written s @
                      [(mask_fname tile_type m,
                        SVG_TMPL_format (take (length (mask_fname tile_type m) - 4) (mask_fname tile_type m))
                          (mask_desc tile_type key m) (rotate_attr a) (outer paths) (inner paths))]\<rparr>) st
             [(0, base_key, m0), (90, ks ! 0, m1), (180, ks ! 1, m2), (270, ks ! 2, m3)], None)"
proof -
  let ?f = "\<lambda>s (a, key, m).
              if m \<in> used_masks s then s
              else \<lparr>used_masks = insert m (used_masks s),
                    written = written s @
                      [(mask_fname tile_type m,
                        SVG_TMPL_format (take (length (mask_fname tile_type m) - 4) (mask_fname tile_type m))
                          (mask_desc tile_type key m) (rotate_attr a) (outer paths) (inner paths))]\<rparr>"
  have k0: "rot_key rot base_key 0 0 = Inr base_key" by (simp add: rot_key_def)
  note k = rot_key_positional [of rot base_key ks, OF assms(1,2)]
  have step: "angle_loop rot tile_type base_key paths ((i, a) # rest) s =
      angle_loop rot tile_type base_key paths rest (?f s (a, key, m))"
    if "rot_key rot base_key i a = Inr key" and "key_to_mask key = Inr m" for i a key m rest s
    by (simp add: rot_tile_step_emit [OF that])
  have "angle_loop rot tile_type base_key paths ANGLES st =
      angle_loop rot tile_type base_key paths [(1, 90), (2, 180), (3, 270)]
        (?f st (0, base_key, m0))"
    unfolding ANGLES_eval by (rule step [OF k0 assms(3)])
  also have "\<dots> = angle_loop rot tile_type base_key paths [(2, 180), (3, 270)]
        (?f (?f st (0, base_key, m0)) (90, ks ! 0, m1))"
    by (rule step [OF k(1) assms(4)])
  also have "\<dots> = angle_loop rot tile_type base_key paths [(3, 270)]
        (?f (?f (?f st (0, base_key, m0)) (90, ks ! 0, m1)) (180, ks ! 1, m2))"
    by (rule step [OF k(2) assms(5)])
  also have "\<dots> = angle_loop rot tile_type base_key paths []
        (?f (?f (?f (?f st (0, base_key, m0)) (90, ks ! 0, m1)) (180, ks ! 1, m2))
           (270, ks ! 2, m3))"
    by (rule step [OF k(3) assms(6)])
  also have "\<dots> = (foldl ?f st
             [(0, base_key, m0), (90, ks ! 0, m1), (180, ks ! 1, m2), (270, ks ! 2, m3)], None)"
    by (simp only: angle_loop.simps foldl_Cons foldl_Nil)
  finally show ?thesis .
qed

lemma single_key_four_files:
  assumes "rot base_key = Some ks" and "3 \<le> length ks" and "key_to_mask base_key = Inr m0"
    and "key_to_mask (ks ! 0) = Inr m1" and "key_to_mask (ks ! 1) = Inr m2"
    and "key_to_mask (ks ! 2) = Inr m3" and "distinct [m0, m1, m2, m3]"
  shows "gen_rot_tiles_with rot [(base_key, paths)] tile_type =
         ([(mask_fname tile_type m0,
           SVG_TMPL_format (take (length (mask_fname tile_type m0) - 4) (mask_fname tile_type m0))
             (mask_desc tile_type base_key m0) (rotate_attr 0) (outer paths) (inner paths)),
          (mask_fname tile_type m1,
           SVG_TMPL_format (take (length (mask_fname tile_type m1) - 4) (mask_fname tile_type m1))
             (mask_desc tile_type (ks ! 0) m1) (rotate_attr 90) (outer paths) (inner paths)),
          (mask_fname tile_type m2,
           SVG_TMPL_format (take (length (mask_fname tile_type m2) - 4) (mask_fname tile_type m2))
             (mask_desc tile_type (ks ! 1) m2) (rotate_attr 180) (outer paths) (inner paths)),
          (mask_fname tile_type m3,
           SVG_TMPL_format (take (length (mask_fname tile_type m3) - 4) (mask_fname tile_type m3))
             (mask_desc tile_type (ks ! 2) m3) (rotate_attr 270) (outer paths) (inner paths))], None)"
proof -
  have "angle_loop rot tile_type base_key paths ANGLES \<lparr>used_masks = {}, written = []\<rparr> =
      (\<lparr>used_masks = {m3, m2, m1, m0},
        written = [(mask_fname tile_type m0,
           SVG_TMPL_format (take (length (mask_fname tile_type m0) - 4) (mask_fname tile_type m0))
             (mask_desc tile_type base_key m0) (rotate_attr 0) (outer paths) (inner paths)),
          (mask_fname tile_type m1,
           SVG_TMPL_format (take (length (mask_fname tile_type m1) - 4) (mask_fname tile_type m1))
             (mask_desc tile_type (ks ! 0) m1) (rotate_attr 90) (outer paths) (inner paths)),
          (mask_fname tile_type m2,
           SVG_TMPL_format (take (length (mask_fname tile_type m2) - 4) (mask_fname tile_type m2))
             (mask_desc tile_type (ks ! 1) m2) (rotate_attr 180) (outer paths) (inner paths)),
          (mask_fname tile_type m3,
           SVG_TMPL_format (take (length (mask_fname tile_type m3) - 4) (mask_fname tile_type m3))
             (mask_desc tile_type (ks ! 2) m3) (rotate_attr 270) (outer paths) (inner paths))]\<rparr>, None)"
    using assms(7)
      angle_loop_four [where rot = rot and base_key = base_key and ks = ks and ?m0.0 = m0
        and ?m1.0 = m1 and ?m2.0 = m2 and ?m3.0 = m3 and tile_type = tile_type
        and paths = paths and st = "\<lparr>used_masks = {}, written = []\<rparr>"]
      assms(1-6)
    by simp
  then show ?thesis by (simp add: gen_rot_tiles_with_def)
qed

lemma curve_family_files:
  "gen_rot_tiles curve_paths_base ''curve'' =
      ([(''road-tile-curve-05.svg'',
        SVG_TMPL_format ''road-tile-curve-05'' ''curve tile, key=U1U2-R1R2, mask=0x05''
          (rotate_attr 0) ''M 10 0 L 10 10 C 10 15.5 14.5 20 20 20 L 40 20''
          ''M 20 0 L 20 5 C 20 7.8 22.2 10 25 10 L 40 10''),
       (''road-tile-curve-24.svg'',
        SVG_TMPL_format ''road-tile-curve-24'' ''curve tile, key=R1R2-D1D2, mask=0x24''
          (rotate_attr 90) ''M 10 0 L 10 10 C 10 15.5 14.5 20 20 20 L 40 20''
          ''M 20 0 L 20 5 C 20 7.8 22.2 10 25 10 L 40 10''),
       (''road-tile-curve-A0.svg'',
        SVG_TMPL_format ''road-tile-curve-A0'' ''curve tile, key=D1D2-L1L2, mask=0xA0''
          (rotate_attr 180) ''M 10 0 L 10 10 C 10 15.5 14.5 20 20 20 L 40 20''
          ''M 20 0 L 20 5 C 20 7.8 22.2 10 25 10 L 40 10''),
       (''road-tile-curve-81.svg'',
        SVG_TMPL_format ''road-tile-curve-81'' ''curve tile, key=L1L2-U1U2, mask=0x81''
          (rotate_attr 270) ''M 10 0 L 10 10 C 10 15.5 14.5 20 20 20 L 40 20''
          ''M 20 0 L 20 5 C 20 7.8 22.2 10 25 10 L 40 10''),
       (''road-tile-curve-09.svg'',
        SVG_TMPL_format ''road-tile-curve-09'' ''curve tile, key=U1U2-R2R3, mask=0x09''
          (rotate_attr 0) ''M 10 0 L 10 20 C 10 25.5 14.5 30 20 30 L 40 30''
          ''M 20 0 L 20 15 C 20 17.8 22.2 20 25 20 L 40 20''),
       (''road-tile-curve-14.svg'',
        SVG_TMPL_format ''road-tile-curve-14'' ''curve tile, key=R1R2-D2D3, mask=0x14''
          (rotate_attr 90) ''M 10 0 L 10 20 C 10 25.5 14.5 30 20 30 L 40 30''
          ''M 20 0 L 20 15 C 20 17.8 22.2 20 25 20 L 40 20''),
       (''road-tile-curve-60.svg'',
        SVG_TMPL_format ''road-tile-curve-60'' ''curve tile, key=D1D2-L2L3, mask=0x60''
          (rotate_attr 180) ''M 10 0 L 10 20 C 10 25.5 14.5 30 20 30 L 40 30''
          ''M 20 0 L 20 15 C 20 17.8 22.2 20 25 20 L 40 20''),
       (''road-tile-curve-82.svg'',
        SVG_TMPL_format ''road-tile-curve-82'' ''curve tile, key=L1L2-U2U3, mask=0x82''
          (rotate_attr 270) ''M 10 0 L 10 20 C 10 25.5 14.5 30 20 30 L 40 30''
          ''M 20 0 L 20 15 C 20 17.8 22.2 20 25 20 L 40 20''),
       (''road-tile-curve-06.svg'',
        SVG_TMPL_format ''road-tile-curve-06'' ''curve tile, key=U2U3-R1R2, mask=0x06''
          (rotate_attr 0) ''M 20 0 L 20 10 C 20 15.5 24.5 20 30 20 L 40 20''
          ''M 30 0 L 30 5 C 30 7.8 32.2 10 35 10 L 40 10''),
       (''road-tile-curve-28.svg'',
        SVG_TMPL_format ''road-tile-curve-28'' ''curve tile, key=R2R3-D1D2, mask=0x28''
          (rotate_attr 90) ''M 20 0 L 20 10 C 20 15.5 24.5 20 30 20 L 40 20''
          ''M 30 0 L 30 5 C 30 7.8 32.2 10 35 10 L 40 10''),
       (''road-tile-curve-90.svg'',
        SVG_TMPL_format ''road-tile-curve-90'' ''curve tile, key=D2D3-L1L2, mask=0x90''
          (rotate_attr 180) ''M 20 0 L 20 10 C 20 15.5 24.5 20 30 20 L 40 20''
          ''M 30 0 L 30 5 C 30 7.8 32.2 10 35 10 L 40 10''),
       (''road-tile-curve-41.svg'',
        SVG_TMPL_format ''road-tile-curve-41'' ''curve tile, key=L2L3-U1U2, mask=0x41''
          (rotate_attr 270) ''M 20 0 L 20 10 C 20 15.5 24.5 20 30 20 L 40 20''
          ''M 30 0 L 30 5 C 30 7.8 32.2 10 35 10 L 40 10''),
       (''road-tile-curve-0A.svg'',
        SVG_TMPL_format ''road-tile-curve-0A'' ''curve tile, key=U2U3-R2R3, mask=0x0A''
          (rotate_attr 0) ''M 20 0 L 20 20 C 20 25.5 24.5 30 30 30 L 40 30''
          ''M 30 0 L 30 15 C 30 17.8 32.2 20 35 20 L 40 20''),
       (''road-tile-curve-18.svg'',
        SVG_TMPL_format ''road-tile-curve-18'' ''curve tile, key=R2R3-D2D3, mask=0x18''
          (rotate_attr 90) ''M 20 0 L 20 20 C 20 25.5 24.5 30 30 30 L 40 30''
          ''M 30 0 L 30 15 C 30 17.8 32.2 20 35 20 L 40 20''),
       (''road-tile-curve-50.svg'',
        SVG_TMPL_format ''road-tile-curve-50'' ''curve tile, key=D2D3-L2L3, mask=0x50''
          (rotate_attr 180) ''M 20 0 L 20 20 C 20 25.5 24.5 30 30 30 L 40 30''
          ''M 30 0 L 30 15 C 30 17.8 32.2 20 35 20 L 40 20''),
       (''road-tile-curve-42.svg'',
        SVG_TMPL_format ''road-tile-curve-42'' ''curve tile, key=L2L3-U2U3, mask=0x42''
          (rotate_attr 270) ''M 20 0 L 20 20 C 20 25.5 24.5 30 30 30 L 40 30''
          ''M 30 0 L 30 15 C 30 17.8 32.2 20 35 20 L 40 20'')], None)"
  by (simp add: gen_rot_tiles_def gen_rot_tiles_with_def curve_paths_base_def ANGLES_eval
      rot_tile_step_def rot_key_def py_index_def ROT_KEYS_def eval_key write_svg_def
      mask_fname_def mask_desc_def eval_fmt)

text \<open>
  C6. The inner loop of \<^verbatim>\<open>gen_rot_tiles\<close> visits the angles in the order 0, 90, 180, 270.
  At angle 0 the key is the base key itself, whatever the rotation table holds, and its
  file is the first that the generator writes for the base key. At 90, 180 and 270 the key
  is the entry at index 0, 1 and 2 of the base key's list in the table: from any state the
  loop handles these four keys in this order, each written unless its mask is already
  used, and for a dictionary of one base key with four different masks the generator
  writes the four files in this order. On the curve dictionary of the script the 16 files
  carry, in order, each base key and then its three table entries.
\<close>

theorem variant_keys_positional:
  "map snd ANGLES = [0, 90, 180, 270]
   \<and> rot_key rot base_key (fst (ANGLES ! 0)) (snd (ANGLES ! 0)) = Inr base_key
   \<and> (key_to_mask base_key = Inr m0 \<longrightarrow>
        (\<exists>rest. fst (gen_rot_tiles_with rot [(base_key, paths)] tile_type) =
          (mask_fname tile_type m0,
           SVG_TMPL_format (take (length (mask_fname tile_type m0) - 4) (mask_fname tile_type m0))
             (mask_desc tile_type base_key m0) (rotate_attr 0) (outer paths) (inner paths)) # rest))
   \<and> (rot base_key = Some ks \<and> 3 \<le> length ks \<longrightarrow>
        map (\<lambda>ia. (snd ia, rot_key rot base_key (fst ia) (snd ia))) ANGLES =
          [(0, Inr base_key), (90, Inr (ks ! 0)), (180, Inr (ks ! 1)), (270, Inr (ks ! 2))])
   \<and> (rot base_key = Some ks \<and> 3 \<le> length ks \<and> key_to_mask base_key = Inr m0
        \<and> key_to_mask (ks ! 0) = Inr m1 \<and> key_to_mask (ks ! 1) = Inr m2
        \<and> key_to_mask (ks ! 2) = Inr m3 \<longrightarrow>
        angle_loop rot tile_type base_key paths ANGLES st =
          (foldl (\<lambda>s (a, key, m).
              if m \<in> used_masks s then s
              else \<lparr>used_masks = insert m (used_masks s),
                    written = written s @
                      [(mask_fname tile_type m,
                        SVG_TMPL_format (take (length (mask_fname tile_type m) - 4) (mask_fname tile_type m))
                          (mask_desc tile_type key m) (rotate_attr a) (outer paths) (inner paths))]\<rparr>) st
             [(0, base_key, m0), (90, ks ! 0, m1), (180, ks ! 1, m2), (270, ks ! 2, m3)], None))
   \<and> (rot base_key = Some ks \<and> 3 \<le> length ks \<and> key_to_mask base_key = Inr m0
        \<and> key_to_mask (ks ! 0) = Inr m1 \<and> key_to_mask (ks ! 1) = Inr m2
        \<and> key_to_mask (ks ! 2) = Inr m3
        \<and> distinct [m0, m1, m2, m3] \<longrightarrow>
        gen_rot_tiles_with rot [(base_key, paths)] tile_type =
         ([(mask_fname tile_type m0,
           SVG_TMPL_format (take (length (mask_fname tile_type m0) - 4) (mask_fname tile_type m0))
             (mask_desc tile_type base_key m0) (rotate_attr 0) (outer paths) (inner paths)),
          (mask_fname tile_type m1,
           SVG_TMPL_format (take (length (mask_fname tile_type m1) - 4) (mask_fname tile_type m1))
             (mask_desc tile_type (ks ! 0) m1) (rotate_attr 90) (outer paths) (inner paths)),
          (mask_fname tile_type m2,
           SVG_TMPL_format (take (length (mask_fname tile_type m2) - 4) (mask_fname tile_type m2))
             (mask_desc tile_type (ks ! 1) m2) (rotate_attr 180) (outer paths) (inner paths)),
          (mask_fname tile_type m3,
           SVG_TMPL_format (take (length (mask_fname tile_type m3) - 4) (mask_fname tile_type m3))
             (mask_desc tile_type (ks ! 2) m3) (rotate_attr 270) (outer paths) (inner paths))], None))
   \<and> gen_rot_tiles curve_paths_base ''curve'' =
      ([(''road-tile-curve-05.svg'',
        SVG_TMPL_format ''road-tile-curve-05'' ''curve tile, key=U1U2-R1R2, mask=0x05''
          (rotate_attr 0) ''M 10 0 L 10 10 C 10 15.5 14.5 20 20 20 L 40 20''
          ''M 20 0 L 20 5 C 20 7.8 22.2 10 25 10 L 40 10''),
       (''road-tile-curve-24.svg'',
        SVG_TMPL_format ''road-tile-curve-24'' ''curve tile, key=R1R2-D1D2, mask=0x24''
          (rotate_attr 90) ''M 10 0 L 10 10 C 10 15.5 14.5 20 20 20 L 40 20''
          ''M 20 0 L 20 5 C 20 7.8 22.2 10 25 10 L 40 10''),
       (''road-tile-curve-A0.svg'',
        SVG_TMPL_format ''road-tile-curve-A0'' ''curve tile, key=D1D2-L1L2, mask=0xA0''
          (rotate_attr 180) ''M 10 0 L 10 10 C 10 15.5 14.5 20 20 20 L 40 20''
          ''M 20 0 L 20 5 C 20 7.8 22.2 10 25 10 L 40 10''),
       (''road-tile-curve-81.svg'',
        SVG_TMPL_format ''road-tile-curve-81'' ''curve tile, key=L1L2-U1U2, mask=0x81''
          (rotate_attr 270) ''M 10 0 L 10 10 C 10 15.5 14.5 20 20 20 L 40 20''
          ''M 20 0 L 20 5 C 20 7.8 22.2 10 25 10 L 40 10''),
       (''road-tile-curve-09.svg'',
        SVG_TMPL_format ''road-tile-curve-09'' ''curve tile, key=U1U2-R2R3, mask=0x09''
          (rotate_attr 0) ''M 10 0 L 10 20 C 10 25.5 14.5 30 20 30 L 40 30''
          ''M 20 0 L 20 15 C 20 17.8 22.2 20 25 20 L 40 20''),
       (''road-tile-curve-14.svg'',
        SVG_TMPL_format ''road-tile-curve-14'' ''curve tile, key=R1R2-D2D3, mask=0x14''
          (rotate_attr 90) ''M 10 0 L 10 20 C 10 25.5 14.5 30 20 30 L 40 30''
          ''M 20 0 L 20 15 C 20 17.8 22.2 20 25 20 L 40 20''),
       (''road-tile-curve-60.svg'',
        SVG_TMPL_format ''road-tile-curve-60'' ''curve tile, key=D1D2-L2L3, mask=0x60''
          (rotate_attr 180) ''M 10 0 L 10 20 C 10 25.5 14.5 30 20 30 L 40 30''
          ''M 20 0 L 20 15 C 20 17.8 22.2 20 25 20 L 40 20''),
       (''road-tile-curve-82.svg'',
        SVG_TMPL_format ''road-tile-curve-82'' ''curve tile, key=L1L2-U2U3, mask=0x82''
          (rotate_attr 270) ''M 10 0 L 10 20 C 10 25.5 14.5 30 20 30 L 40 30''
          ''M 20 0 L 20 15 C 20 17.8 22.2 20 25 20 L 40 20''),
       (''road-tile-curve-06.svg'',
        SVG_TMPL_format ''road-tile-curve-06'' ''curve tile, key=U2U3-R1R2, mask=0x06''
          (rotate_attr 0) ''M 20 0 L 20 10 C 20 15.5 24.5 20 30 20 L 40 20''
          ''M 30 0 L 30 5 C 30 7.8 32.2 10 35 10 L 40 10''),
       (''road-tile-curve-28.svg'',
        SVG_TMPL_format ''road-tile-curve-28'' ''curve tile, key=R2R3-D1D2, mask=0x28''
          (rotate_attr 90) ''M 20 0 L 20 10 C 20 15.5 24.5 20 30 20 L 40 20''
          ''M 30 0 L 30 5 C 30 7.8 32.2 10 35 10 L 40 10''),
       (''road-tile-curve-90.svg'',
        SVG_TMPL_format ''road-tile-curve-90'' ''curve tile, key=D2D3-L1L2, mask=0x90''
          (rotate_attr 180) ''M 20 0 L 20 10 C 20 15.5 24.5 20 30 20 L 40 20''
          ''M 30 0 L 30 5 C 30 7.8 32.2 10 35 10 L 40 10''),
       (''road-tile-curve-41.svg'',
        SVG_TMPL_format ''road-tile-curve-41'' ''curve tile, key=L2L3-U1U2, mask=0x41''
          (rotate_attr 270) ''M 20 0 L 20 10 C 20 15.5 24.5 20 30 20 L 40 20''
          ''M 30 0 L 30 5 C 30 7.8 32.2 10 35 10 L 40 10''),
       (''road-tile-curve-0A.svg'',
        SVG_TMPL_format ''road-tile-curve-0A'' ''curve tile, key=U2U3-R2R3, mask=0x0A''
          (rotate_attr 0) ''M 20 0 L 20 20 C 20 25.5 24.5 30 30 30 L 40 30''
          ''M 30 0 L 30 15 C 30 17.8 32.2 20 35 20 L 40 20''),
       (''road-tile-curve-18.svg'',
        SVG_TMPL_format ''road-tile-curve-18'' ''curve tile, key=R2R3-D2D3, mask=0x18''
          (rotate_attr 90) ''M 20 0 L 20 20 C 20 25.5 24.5 30 30 30 L 40 30''
          ''M 30 0 L 30 15 C 30 17.8 32.2 20 35 20 L 40 20''),
       (''road-tile-curve-50.svg'',
        SVG_TMPL_format ''road-tile-curve-50'' ''curve tile, key=D2D3-L2L3, mask=0x50''
          (rotate_attr 180) ''M 20 0 L 20 20 C 20 25.5 24.5 30 30 30 L 40 30''
          ''M 30 0 L 30 15 C 30 17.8 32.2 20 35 20 L 40 20''),
       (''road-tile-curve-42.svg'',
        SVG_TMPL_format ''road-tile-curve-42'' ''curve tile, key=L2L3-U2U3, mask=0x42''
          (rotate_attr 270) ''M 20 0 L 20 20 C 20 25.5 24.5 30 30 30 L 40 30''
          ''M 30 0 L 30 15 C 30 17.8 32.2 20 35 20 L 40 20'')], None)"
proof (intro conjI impI)
  show "map snd ANGLES = [0, 90, 180, 270]" by (simp add: ANGLES_eval)
  show "rot_key rot base_key (fst (ANGLES ! 0)) (snd (ANGLES ! 0)) = Inr base_key"
    by (simp add: ANGLES_eval rot_key_def)
  show "\<exists>rest. fst (gen_rot_tiles_with rot [(base_key, paths)] tile_type) =
          (mask_fname tile_type m0,
           SVG_TMPL_format (take (length (mask_fname tile_type m0) - 4) (mask_fname tile_type m0))
             (mask_desc tile_type base_key m0) (rotate_attr 0) (outer paths) (inner paths)) # rest"
    if "key_to_mask base_key = Inr m0"
    using that by (rule base_key_first)
  show "map (\<lambda>ia. (snd ia, rot_key rot base_key (fst ia) (snd ia))) ANGLES =
          [(0, Inr base_key), (90, Inr (ks ! 0)), (180, Inr (ks ! 1)), (270, Inr (ks ! 2))]"
    if "rot base_key = Some ks \<and> 3 \<le> length ks"
  proof -
    from that have a: "rot base_key = Some ks" and b: "3 \<le> length ks" by simp_all
    have "rot_key rot base_key 0 0 = Inr base_key" by (simp add: rot_key_def)
    then show ?thesis
      using rot_key_positional [of rot base_key ks] a b by (simp add: ANGLES_eval)
  qed
  show "angle_loop rot tile_type base_key paths ANGLES st =
          (foldl (\<lambda>s (a, key, m).
              if m \<in> used_masks s then s
              else \<lparr>used_masks = insert m (used_masks s),
                    written = written s @
                      [(mask_fname tile_type m,
                        SVG_TMPL_format (take (length (mask_fname tile_type m) - 4) (mask_fname tile_type m))
                          (mask_desc tile_type key m) (rotate_attr a) (outer paths) (inner paths))]\<rparr>) st
             [(0, base_key, m0), (90, ks ! 0, m1), (180, ks ! 1, m2), (270, ks ! 2, m3)], None)"
    if "rot base_key = Some ks \<and> 3 \<le> length ks \<and> key_to_mask base_key = Inr m0
        \<and> key_to_mask (ks ! 0) = Inr m1 \<and> key_to_mask (ks ! 1) = Inr m2
        \<and> key_to_mask (ks ! 2) = Inr m3"
    using that by (intro angle_loop_four) simp_all
  show "gen_rot_tiles_with rot [(base_key, paths)] tile_type =
         ([(mask_fname tile_type m0,
           SVG_TMPL_format (take (length (mask_fname tile_type m0) - 4) (mask_fname tile_type m0))
             (mask_desc tile_type base_key m0) (rotate_attr 0) (outer paths) (inner paths)),
          (mask_fname tile_type m1,
           SVG_TMPL_format (take (length (mask_fname tile_type m1) - 4) (mask_fname tile_type m1))
             (mask_desc tile_type (ks ! 0) m1) (rotate_attr 90) (outer paths) (inner paths)),
          (mask_fname tile_type m2,
           SVG_TMPL_format (take (length (mask_fname tile_type m2) - 4) (mask_fname tile_type m2))
             (mask_desc tile_type (ks ! 1) m2) (rotate_attr 180) (outer paths) (inner paths)),
          (mask_fname tile_type m3,
           SVG_TMPL_format (take (length (mask_fname tile_type m3) - 4) (mask_fname tile_type m3))
             (mask_desc tile_type (ks ! 2) m3) (rotate_attr 270) (outer paths) (inner paths))], None)"
    if "rot base_key = Some ks \<and> 3 \<le> length ks \<and> key_to_mask base_key = Inr m0
        \<and> key_to_mask (ks ! 0) = Inr m1 \<and> key_to_mask (ks ! 1) = Inr m2
        \<and> key_to_mask (ks ! 2) = Inr m3
        \<and> distinct [m0, m1, m2, m3]"
    using that by (intro single_key_four_files) simp_all
  show "gen_rot_tiles curve_paths_base ''curve'' =
      ([(''road-tile-curve-05.svg'',
        SVG_TMPL_format ''road-tile-curve-05'' ''curve tile, key=U1U2-R1R2, mask=0x05''
          (rotate_attr 0) ''M 10 0 L 10 10 C 10 15.5 14.5 20 20 20 L 40 20''
          ''M 20 0 L 20 5 C 20 7.8 22.2 10 25 10 L 40 10''),
       (''road-tile-curve-24.svg'',
        SVG_TMPL_format ''road-tile-curve-24'' ''curve tile, key=R1R2-D1D2, mask=0x24''
          (rotate_attr 90) ''M 10 0 L 10 10 C 10 15.5 14.5 20 20 20 L 40 20''
          ''M 20 0 L 20 5 C 20 7.8 22.2 10 25 10 L 40 10''),
       (''road-tile-curve-A0.svg'',
        SVG_TMPL_format ''road-tile-curve-A0'' ''curve tile, key=D1D2-L1L2, mask=0xA0''
          (rotate_attr 180) ''M 10 0 L 10 10 C 10 15.5 14.5 20 20 20 L 40 20''
          ''M 20 0 L 20 5 C 20 7.8 22.2 10 25 10 L 40 10''),
       (''road-tile-curve-81.svg'',
        SVG_TMPL_format ''road-tile-curve-81'' ''curve tile, key=L1L2-U1U2, mask=0x81''
          (rotate_attr 270) ''M 10 0 L 10 10 C 10 15.5 14.5 20 20 20 L 40 20''
          ''M 20 0 L 20 5 C 20 7.8 22.2 10 25 10 L 40 10''),
       (''road-tile-curve-09.svg'',
        SVG_TMPL_format ''road-tile-curve-09'' ''curve tile, key=U1U2-R2R3, mask=0x09''
          (rotate_attr 0) ''M 10 0 L 10 20 C 10 25.5 14.5 30 20 30 L 40 30''
          ''M 20 0 L 20 15 C 20 17.8 22.2 20 25 20 L 40 20''),
       (''road-tile-curve-14.svg'',
        SVG_TMPL_format ''road-tile-curve-14'' ''curve tile, key=R1R2-D2D3, mask=0x14''
          (rotate_attr 90) ''M 10 0 L 10 20 C 10 25.5 14.5 30 20 30 L 40 30''
          ''M 20 0 L 20 15 C 20 17.8 22.2 20 25 20 L 40 20''),
       (''road-tile-curve-60.svg'',
        SVG_TMPL_format ''road-tile-curve-60'' ''curve tile, key=D1D2-L2L3, mask=0x60''
          (rotate_attr 180) ''M 10 0 L 10 20 C 10 25.5 14.5 30 20 30 L 40 30''
          ''M 20 0 L 20 15 C 20 17.8 22.2 20 25 20 L 40 20''),
       (''road-tile-curve-82.svg'',
        SVG_TMPL_format ''road-tile-curve-82'' ''curve tile, key=L1L2-U2U3, mask=0x82''
          (rotate_attr 270) ''M 10 0 L 10 20 C 10 25.5 14.5 30 20 30 L 40 30''
          ''M 20 0 L 20 15 C 20 17.8 22.2 20 25 20 L 40 20''),
       (''road-tile-curve-06.svg'',
        SVG_TMPL_format ''road-tile-curve-06'' ''curve tile, key=U2U3-R1R2, mask=0x06''
          (rotate_attr 0) ''M 20 0 L 20 10 C 20 15.5 24.5 20 30 20 L 40 20''
          ''M 30 0 L 30 5 C 30 7.8 32.2 10 35 10 L 40 10''),
       (''road-tile-curve-28.svg'',
        SVG_TMPL_format ''road-tile-curve-28'' ''curve tile, key=R2R3-D1D2, mask=0x28''
          (rotate_attr 90) ''M 20 0 L 20 10 C 20 15.5 24.5 20 30 20 L 40 20''
          ''M 30 0 L 30 5 C 30 7.8 32.2 10 35 10 L 40 10''),
       (''road-tile-curve-90.svg'',
        SVG_TMPL_format ''road-tile-curve-90'' ''curve tile, key=D2D3-L1L2, mask=0x90''
          (rotate_attr 180) ''M 20 0 L 20 10 C 20 15.5 24.5 20 30 20 L 40 20''
          ''M 30 0 L 30 5 C 30 7.8 32.2 10 35 10 L 40 10''),
       (''road-tile-curve-41.svg'',
        SVG_TMPL_format ''road-tile-curve-41'' ''curve tile, key=L2L3-U1U2, mask=0x41''
          (rotate_attr 270) ''M 20 0 L 20 10 C 20 15.5 24.5 20 30 20 L 40 20''
          ''M 30 0 L 30 5 C 30 7.8 32.2 10 35 10 L 40 10''),
       (''road-tile-curve-0A.svg'',
        SVG_TMPL_format ''road-tile-curve-0A'' ''curve tile, key=U2U3-R2R3, mask=0x0A''
          (rotate_attr 0) ''M 20 0 L 20 20 C 20 25.5 24.5 30 30 30 L 40 30''
          ''M 30 0 L 30 15 C 30 17.8 32.2 20 35 20 L 40 20''),
       (''road-tile-curve-18.svg'',
        SVG_TMPL_format ''road-tile-curve-18'' ''curve tile, key=R2R3-D2D3, mask=0x18''
          (rotate_attr 90) ''M 20 0 L 20 20 C 20 25.5 24.5 30 30 30 L 40 30''
          ''M 30 0 L 30 15 C 30 17.8 32.2 20 35 20 L 40 20''),
       (''road-tile-curve-50.svg'',
        SVG_TMPL_format ''road-tile-curve-50'' ''curve tile, key=D2D3-L2L3, mask=0x50''
          (rotate_attr 180) ''M 20 0 L 20 20 C 20 25.5 24.5 30 30 30 L 40 30''
          ''M 30 0 L 30 15 C 30 17.8 32.2 20 35 20 L 40 20''),
       (''road-tile-curve-42.svg'',
        SVG_TMPL_format ''road-tile-curve-42'' ''curve tile, key=L2L3-U2U3, mask=0x42''
          (rotate_attr 270) ''M 20 0 L 20 20 C 20 25.5 24.5 30 30 30 L 40 30''
          ''M 30 0 L 30 15 C 30 17.8 32.2 20 35 20 L 40 20'')], None)"
    by (rule curve_family_files)
qed

theorem variant_keys_positional_witness:
  "ROT_KEYS ''U1U2-R2R3'' = Some [''R1R2-D2D3'', ''D1D2-L2L3'', ''L1L2-U2U3'']
   \<and> key_to_mask ''U1U2-R2R3'' = Inr 0x09 \<and> key_to_mask ''R1R2-D2D3'' = Inr 0x14
   \<and> key_to_mask ''D1D2-L2L3'' = Inr 0x60 \<and> key_to_mask ''L1L2-U2U3'' = Inr 0x82
   \<and> map (\<lambda>ia. (snd ia, rot_key ROT_KEYS ''U1U2-R2R3'' (fst ia) (snd ia))) ANGLES =
       [(0, Inr ''U1U2-R2R3''), (90, Inr ''R1R2-D2D3''), (180, Inr ''D1D2-L2L3''),
        (270, Inr ''L1L2-U2U3'')]
   \<and> gen_rot_tiles_with ROT_KEYS
        [(''U1U2-R2R3'', \<lparr>outer = ''M 10 0 L 10 20 C 10 25.5 14.5 30 20 30 L 40 30'', inner = ''M 20 0 L 20 15 C 20 17.8 22.2 20 25 20 L 40 20''\<rparr>)]
        ''curve'' =
      ([(''road-tile-curve-09.svg'',
        SVG_TMPL_format ''road-tile-curve-09'' ''curve tile, key=U1U2-R2R3, mask=0x09''
          (rotate_attr 0) ''M 10 0 L 10 20 C 10 25.5 14.5 30 20 30 L 40 30''
          ''M 20 0 L 20 15 C 20 17.8 22.2 20 25 20 L 40 20''),
       (''road-tile-curve-14.svg'',
        SVG_TMPL_format ''road-tile-curve-14'' ''curve tile, key=R1R2-D2D3, mask=0x14''
          (rotate_attr 90) ''M 10 0 L 10 20 C 10 25.5 14.5 30 20 30 L 40 30''
          ''M 20 0 L 20 15 C 20 17.8 22.2 20 25 20 L 40 20''),
       (''road-tile-curve-60.svg'',
        SVG_TMPL_format ''road-tile-curve-60'' ''curve tile, key=D1D2-L2L3, mask=0x60''
          (rotate_attr 180) ''M 10 0 L 10 20 C 10 25.5 14.5 30 20 30 L 40 30''
          ''M 20 0 L 20 15 C 20 17.8 22.2 20 25 20 L 40 20''),
       (''road-tile-curve-82.svg'',
        SVG_TMPL_format ''road-tile-curve-82'' ''curve tile, key=L1L2-U2U3, mask=0x82''
          (rotate_attr 270) ''M 10 0 L 10 20 C 10 25.5 14.5 30 20 30 L 40 30''
          ''M 20 0 L 20 15 C 20 17.8 22.2 20 25 20 L 40 20'')], None)"
proof -
  let ?ks = "[''R1R2-D2D3'', ''D1D2-L2L3'', ''L1L2-U2U3'']"
  let ?p = "\<lparr>outer = ''M 10 0 L 10 20 C 10 25.5 14.5 30 20 30 L 40 30'', inner = ''M 20 0 L 20 15 C 20 17.8 22.2 20 25 20 L 40 20''\<rparr>"
  have t: "ROT_KEYS ''U1U2-R2R3'' = Some ?ks" by (simp add: ROT_KEYS_def)
  have l: "3 \<le> length ?ks" by simp
  have m0: "key_to_mask ''U1U2-R2R3'' = Inr 0x09" and m1: "key_to_mask ''R1R2-D2D3'' = Inr 0x14"
    and m2: "key_to_mask ''D1D2-L2L3'' = Inr 0x60" and m3: "key_to_mask ''L1L2-U2U3'' = Inr 0x82"
    by (simp_all add: eval_key)
  have d: "distinct [0x09, 0x14, 0x60, (0x82 :: int)]" by simp
  note v = variant_keys_positional [of ROT_KEYS "''U1U2-R2R3''" "0x09" ?p "''curve''" ?ks
      "0x14" "0x60" "0x82"]
  have h1: "ROT_KEYS ''U1U2-R2R3'' = Some ?ks \<and> 3 \<le> length ?ks" using t l by simp
  have h2: "ROT_KEYS ''U1U2-R2R3'' = Some ?ks \<and> 3 \<le> length ?ks
      \<and> key_to_mask ''U1U2-R2R3'' = Inr 0x09
      \<and> key_to_mask (?ks ! 0) = Inr 0x14 \<and> key_to_mask (?ks ! 1) = Inr 0x60
      \<and> key_to_mask (?ks ! 2) = Inr 0x82
      \<and> distinct [0x09, 0x14, 0x60, (0x82 :: int)]"
    using t m0 m1 m2 m3 by simp
  from v [THEN conjunct2, THEN conjunct2, THEN conjunct2, THEN conjunct1, THEN mp, OF h1]
  have a: "map (\<lambda>ia. (snd ia, rot_key ROT_KEYS ''U1U2-R2R3'' (fst ia) (snd ia))) ANGLES =
       [(0, Inr ''U1U2-R2R3''), (90, Inr ''R1R2-D2D3''), (180, Inr ''D1D2-L2L3''),
        (270, Inr ''L1L2-U2U3'')]"
    by simp
  from v [THEN conjunct2, THEN conjunct2, THEN conjunct2, THEN conjunct2, THEN conjunct2,
      THEN conjunct1, THEN mp, OF h2]
  have b: "gen_rot_tiles_with ROT_KEYS [(''U1U2-R2R3'', ?p)] ''curve'' =
      ([(''road-tile-curve-09.svg'',
        SVG_TMPL_format ''road-tile-curve-09'' ''curve tile, key=U1U2-R2R3, mask=0x09''
          (rotate_attr 0) ''M 10 0 L 10 20 C 10 25.5 14.5 30 20 30 L 40 30''
          ''M 20 0 L 20 15 C 20 17.8 22.2 20 25 20 L 40 20''),
       (''road-tile-curve-14.svg'',
        SVG_TMPL_format ''road-tile-curve-14'' ''curve tile, key=R1R2-D2D3, mask=0x14''
          (rotate_attr 90) ''M 10 0 L 10 20 C 10 25.5 14.5 30 20 30 L 40 30''
          ''M 20 0 L 20 15 C 20 17.8 22.2 20 25 20 L 40 20''),
       (''road-tile-curve-60.svg'',
        SVG_TMPL_format ''road-tile-curve-60'' ''curve tile, key=D1D2-L2L3, mask=0x60''
          (rotate_attr 180) ''M 10 0 L 10 20 C 10 25.5 14.5 30 20 30 L 40 30''
          ''M 20 0 L 20 15 C 20 17.8 22.2 20 25 20 L 40 20''),
       (''road-tile-curve-82.svg'',
        SVG_TMPL_format ''road-tile-curve-82'' ''curve tile, key=L1L2-U2U3, mask=0x82''
          (rotate_attr 270) ''M 10 0 L 10 20 C 10 25.5 14.5 30 20 30 L 40 30''
          ''M 20 0 L 20 15 C 20 17.8 22.2 20 25 20 L 40 20'')], None)"
    by (simp add: mask_fname_def mask_desc_def eval_fmt)
  show ?thesis by (intro conjI t m0 m1 m2 m3 a b)
qed

section \<open>The paths of a variant are the paths of its base key\<close>

lemma rotate_attr_eval:
  \<open>rotate_attr 0 = []\<close>
  \<open>rotate_attr 90 = '' transform="rotate(90 20 20)"''\<close>
  \<open>rotate_attr 180 = '' transform="rotate(180 20 20)"''\<close>
  \<open>rotate_attr 270 = '' transform="rotate(270 20 20)"''\<close>
  by (simp_all add: rotate_attr_def eval_fmt)

lemma rot_tile_step_new:
  assumes "rot_key rot base_key i a = Inr key" and "key_to_mask key = Inr m"
    and "m \<notin> used_masks st"
  shows "rot_tile_step rot tile_type base_key paths (i, a) st =
     Inr \<lparr>used_masks = insert m (used_masks st),
          written = written st @
            [(mask_fname tile_type m,
           SVG_TMPL_format (take (length (mask_fname tile_type m) - 4) (mask_fname tile_type m))
             (mask_desc tile_type key m) (rotate_attr a) (outer paths) (inner paths))]\<rparr>"
  using assms(3) by (simp add: rot_tile_step_emit [OF assms(1,2)])

lemma rot_tile_step_file:
  assumes "rot_tile_step rot tile_type base_key paths ia st = Inr st'"
  shows "written st' = written st \<or>
    (\<exists>key m. rot_key rot base_key (fst ia) (snd ia) = Inr key \<and> key_to_mask key = Inr m \<and>
       written st' = written st @
         [(mask_fname tile_type m,
           SVG_TMPL_format (take (length (mask_fname tile_type m) - 4) (mask_fname tile_type m))
             (mask_desc tile_type key m) (rotate_attr (snd ia)) (outer paths) (inner paths))])"
proof -
  obtain i a where ia: "ia = (i, a)" by (cases ia) auto
  from assms obtain key m where
    k: "rot_key rot base_key i a = Inr key" and m: "key_to_mask key = Inr m"
    by (auto simp: rot_tile_step_def ia split: sum.splits)
  have e: "rot_tile_step rot tile_type base_key paths (i, a) st = Inr st'"
    using assms by (simp add: ia)
  show ?thesis
  proof (cases "m \<in> used_masks st")
    case True
    have "rot_tile_step rot tile_type base_key paths (i, a) st = Inr st"
      using True by (simp add: rot_tile_step_emit [OF k m])
    with e have "st' = st" by simp
    then show ?thesis by simp
  next
    case False
    from e have "written st' = written st @
         [(mask_fname tile_type m,
           SVG_TMPL_format (take (length (mask_fname tile_type m) - 4) (mask_fname tile_type m))
             (mask_desc tile_type key m) (rotate_attr a) (outer paths) (inner paths))]"
      by (auto simp: rot_tile_step_new [OF k m False])
    with k m show ?thesis unfolding ia fst_conv snd_conv by blast
  qed
qed

lemma angle_loop_files:
  assumes "w \<in> set (written (fst (angle_loop rot tile_type base_key paths ias st)))"
  shows "w \<in> set (written st) \<or>
    (\<exists>ia \<in> set ias. \<exists>key m.
       rot_key rot base_key (fst ia) (snd ia) = Inr key \<and> key_to_mask key = Inr m \<and>
       w = (mask_fname tile_type m,
           SVG_TMPL_format (take (length (mask_fname tile_type m) - 4) (mask_fname tile_type m))
             (mask_desc tile_type key m) (rotate_attr (snd ia)) (outer paths) (inner paths)))"
  using assms
proof (induction ias arbitrary: st)
  case Nil
  then show ?case by simp
next
  case (Cons ia ias)
  show ?case
  proof (cases "rot_tile_step rot tile_type base_key paths ia st")
    case (Inl e)
    then show ?thesis using Cons.prems by simp
  next
    case (Inr st')
    then have "w \<in> set (written (fst (angle_loop rot tile_type base_key paths ias st')))"
      using Cons.prems by simp
    from Cons.IH [OF this] consider
      (old) "w \<in> set (written st')"
      | (later) "\<exists>ia \<in> set ias. \<exists>key m.
          rot_key rot base_key (fst ia) (snd ia) = Inr key \<and> key_to_mask key = Inr m \<and>
          w = (mask_fname tile_type m,
           SVG_TMPL_format (take (length (mask_fname tile_type m) - 4) (mask_fname tile_type m))
             (mask_desc tile_type key m) (rotate_attr (snd ia)) (outer paths) (inner paths))"
      by blast
    then show ?thesis
    proof cases
      case later
      then show ?thesis by auto
    next
      case old
      from rot_tile_step_file [OF Inr] show ?thesis
      proof
        assume "written st' = written st"
        with old show ?thesis by simp
      next
        assume "\<exists>key m. rot_key rot base_key (fst ia) (snd ia) = Inr key \<and>
          key_to_mask key = Inr m \<and>
          written st' = written st @
            [(mask_fname tile_type m,
           SVG_TMPL_format (take (length (mask_fname tile_type m) - 4) (mask_fname tile_type m))
             (mask_desc tile_type key m) (rotate_attr (snd ia)) (outer paths) (inner paths))]"
        then obtain key m where
          k: "rot_key rot base_key (fst ia) (snd ia) = Inr key" "key_to_mask key = Inr m"
          and wr: "written st' = written st @
            [(mask_fname tile_type m,
           SVG_TMPL_format (take (length (mask_fname tile_type m) - 4) (mask_fname tile_type m))
             (mask_desc tile_type key m) (rotate_attr (snd ia)) (outer paths) (inner paths))]"
          by blast
        from old wr have "w \<in> set (written st) \<or>
            w = (mask_fname tile_type m,
           SVG_TMPL_format (take (length (mask_fname tile_type m) - 4) (mask_fname tile_type m))
             (mask_desc tile_type key m) (rotate_attr (snd ia)) (outer paths) (inner paths))"
          by auto
        then show ?thesis
        proof
          assume "w \<in> set (written st)"
          then show ?thesis by simp
        next
          assume "w = (mask_fname tile_type m,
           SVG_TMPL_format (take (length (mask_fname tile_type m) - 4) (mask_fname tile_type m))
             (mask_desc tile_type key m) (rotate_attr (snd ia)) (outer paths) (inner paths))"
          with k have "\<exists>ia' \<in> set (ia # ias). \<exists>key m.
            rot_key rot base_key (fst ia') (snd ia') = Inr key \<and> key_to_mask key = Inr m \<and>
            w = (mask_fname tile_type m,
           SVG_TMPL_format (take (length (mask_fname tile_type m) - 4) (mask_fname tile_type m))
             (mask_desc tile_type key m) (rotate_attr (snd ia')) (outer paths) (inner paths))"
            by (intro bexI [of _ ia] exI [of _ key] exI [of _ m]) simp_all
          then show ?thesis by (rule disjI2)
        qed
      qed
    qed
  qed
qed

lemma base_loop_files:
  assumes "w \<in> set (written (fst (base_loop rot tile_type base_dict st)))"
  shows "w \<in> set (written st) \<or>
    (\<exists>kp \<in> set base_dict. \<exists>ia \<in> set ANGLES. \<exists>key m.
       rot_key rot (fst kp) (fst ia) (snd ia) = Inr key \<and> key_to_mask key = Inr m \<and>
       w = (mask_fname tile_type m,
           SVG_TMPL_format (take (length (mask_fname tile_type m) - 4) (mask_fname tile_type m))
             (mask_desc tile_type key m) (rotate_attr (snd ia)) (outer (snd kp)) (inner (snd kp))))"
  using assms
proof (induction base_dict arbitrary: st)
  case Nil
  then show ?case by simp
next
  case (Cons kp rest)
  obtain st' err where a: "angle_loop rot tile_type (fst kp) (snd kp) ANGLES st = (st', err)"
    by (cases "angle_loop rot tile_type (fst kp) (snd kp) ANGLES st") auto
  have here: "w \<in> set (written st) \<or>
    (\<exists>kp' \<in> set (kp # rest). \<exists>ia \<in> set ANGLES. \<exists>key m.
       rot_key rot (fst kp') (fst ia) (snd ia) = Inr key \<and> key_to_mask key = Inr m \<and>
       w = (mask_fname tile_type m,
           SVG_TMPL_format (take (length (mask_fname tile_type m) - 4) (mask_fname tile_type m))
             (mask_desc tile_type key m) (rotate_attr (snd ia)) (outer (snd kp')) (inner (snd kp'))))"
    if "w \<in> set (written st')"
  proof -
    from that a have "w \<in> set (written (fst (angle_loop rot tile_type (fst kp) (snd kp) ANGLES st)))"
      by simp
    from angle_loop_files [OF this] show ?thesis
    proof
      assume "w \<in> set (written st)"
      then show ?thesis by simp
    next
      assume "\<exists>ia \<in> set ANGLES. \<exists>key m.
         rot_key rot (fst kp) (fst ia) (snd ia) = Inr key \<and> key_to_mask key = Inr m \<and>
         w = (mask_fname tile_type m,
           SVG_TMPL_format (take (length (mask_fname tile_type m) - 4) (mask_fname tile_type m))
             (mask_desc tile_type key m) (rotate_attr (snd ia)) (outer (snd kp)) (inner (snd kp)))"
      then have "\<exists>kp' \<in> set (kp # rest). \<exists>ia \<in> set ANGLES. \<exists>key m.
         rot_key rot (fst kp') (fst ia) (snd ia) = Inr key \<and> key_to_mask key = Inr m \<and>
         w = (mask_fname tile_type m,
           SVG_TMPL_format (take (length (mask_fname tile_type m) - 4) (mask_fname tile_type m))
             (mask_desc tile_type key m) (rotate_attr (snd ia)) (outer (snd kp')) (inner (snd kp')))"
        by (intro bexI [of _ kp]) simp_all
      then show ?thesis by (rule disjI2)
    qed
  qed
  show ?case
  proof (cases err)
    case (Some e)
    then have "w \<in> set (written st')" using Cons.prems a by simp
    then show ?thesis by (rule here)
  next
    case None
    then have "w \<in> set (written (fst (base_loop rot tile_type rest st')))"
      using Cons.prems a by simp
    from Cons.IH [OF this] show ?thesis
    proof
      assume "w \<in> set (written st')"
      then show ?thesis by (rule here)
    next
      assume "\<exists>kp \<in> set rest. \<exists>ia \<in> set ANGLES. \<exists>key m.
         rot_key rot (fst kp) (fst ia) (snd ia) = Inr key \<and> key_to_mask key = Inr m \<and>
         w = (mask_fname tile_type m,
           SVG_TMPL_format (take (length (mask_fname tile_type m) - 4) (mask_fname tile_type m))
             (mask_desc tile_type key m) (rotate_attr (snd ia)) (outer (snd kp)) (inner (snd kp)))"
      then obtain kp' where "kp' \<in> set rest" and
        "\<exists>ia \<in> set ANGLES. \<exists>key m.
         rot_key rot (fst kp') (fst ia) (snd ia) = Inr key \<and> key_to_mask key = Inr m \<and>
         w = (mask_fname tile_type m,
           SVG_TMPL_format (take (length (mask_fname tile_type m) - 4) (mask_fname tile_type m))
             (mask_desc tile_type key m) (rotate_attr (snd ia)) (outer (snd kp')) (inner (snd kp')))"
        by blast
      then have "\<exists>kp' \<in> set (kp # rest). \<exists>ia \<in> set ANGLES. \<exists>key m.
         rot_key rot (fst kp') (fst ia) (snd ia) = Inr key \<and> key_to_mask key = Inr m \<and>
         w = (mask_fname tile_type m,
           SVG_TMPL_format (take (length (mask_fname tile_type m) - 4) (mask_fname tile_type m))
             (mask_desc tile_type key m) (rotate_attr (snd ia)) (outer (snd kp')) (inner (snd kp')))"
        by (intro bexI [of _ kp']) simp_all
      then show ?thesis by (rule disjI2)
    qed
  qed
qed

lemma rotated_tile_step_new:
  assumes "rotated_tile_key rmap base_key i a = Some (Inr tile_key)"
    and "get_description tile_key tile_type = Inr description"
  shows "rotated_tile_step rmap tile_type base_key paths (i, a) rst =
     Inr (rst\<lparr>generated_files_count := generated_files_count rst + 1,
              road_files := road_files rst @
                [(key_fname tile_type tile_key,
           SVG_TEMPLATE_format (remove_all ''.svg'' (key_fname tile_type tile_key)) description (rotate_attr a)
             tile_type (outer paths) (inner paths))]\<rparr>)"
  using assms by (simp add: rotated_tile_step_def write_key_tile_def)

lemma rotated_tile_step_file:
  assumes "rotated_tile_step rmap tile_type base_key paths ia rst = Inr rst'"
  shows "road_files rst' = road_files rst \<or>
    (\<exists>tile_key description.
       rotated_tile_key rmap base_key (fst ia) (snd ia) = Some (Inr tile_key) \<and>
       get_description tile_key tile_type = Inr description \<and>
       road_files rst' = road_files rst @
         [(key_fname tile_type tile_key,
           SVG_TEMPLATE_format (remove_all ''.svg'' (key_fname tile_type tile_key)) description (rotate_attr (snd ia))
             tile_type (outer paths) (inner paths))])"
proof -
  obtain i a where ia: "ia = (i, a)" by (cases ia) auto
  have e: "rotated_tile_step rmap tile_type base_key paths (i, a) rst = Inr rst'"
    using assms by (simp add: ia)
  show ?thesis
  proof (cases "rotated_tile_key rmap base_key i a")
    case None
    then show ?thesis using e by (auto simp: rotated_tile_step_def)
  next
    case (Some r)
    then obtain tile_key where
      k: "rotated_tile_key rmap base_key i a = Some (Inr tile_key)"
      using e by (cases r) (simp_all add: rotated_tile_step_def)
    then obtain description where d: "get_description tile_key tile_type = Inr description"
      using e by (cases "get_description tile_key tile_type")
        (simp_all add: rotated_tile_step_def write_key_tile_def)
    from e have "road_files rst' = road_files rst @
         [(key_fname tile_type tile_key,
           SVG_TEMPLATE_format (remove_all ''.svg'' (key_fname tile_type tile_key)) description (rotate_attr a)
             tile_type (outer paths) (inner paths))]"
      by (auto simp: rotated_tile_step_new [OF k d])
    with k d show ?thesis unfolding ia fst_conv snd_conv by blast
  qed
qed

lemma rotated_angle_loop_files:
  assumes "w \<in> set (road_files (fst (rotated_angle_loop rmap tile_type base_key paths ias rst)))"
  shows "w \<in> set (road_files rst) \<or>
    (\<exists>ia \<in> set ias. \<exists>tile_key description.
       rotated_tile_key rmap base_key (fst ia) (snd ia) = Some (Inr tile_key) \<and>
       get_description tile_key tile_type = Inr description \<and>
       w = (key_fname tile_type tile_key,
           SVG_TEMPLATE_format (remove_all ''.svg'' (key_fname tile_type tile_key)) description (rotate_attr (snd ia))
             tile_type (outer paths) (inner paths)))"
  using assms
proof (induction ias arbitrary: rst)
  case Nil
  then show ?case by simp
next
  case (Cons ia ias)
  show ?case
  proof (cases "rotated_tile_step rmap tile_type base_key paths ia rst")
    case (Inl e)
    then show ?thesis using Cons.prems by simp
  next
    case (Inr rst')
    then have "w \<in> set (road_files (fst (rotated_angle_loop rmap tile_type base_key paths ias rst')))"
      using Cons.prems by simp
    from Cons.IH [OF this] consider
      (old) "w \<in> set (road_files rst')"
      | (later) "\<exists>ia \<in> set ias. \<exists>tile_key description.
          rotated_tile_key rmap base_key (fst ia) (snd ia) = Some (Inr tile_key) \<and>
          get_description tile_key tile_type = Inr description \<and>
          w = (key_fname tile_type tile_key,
           SVG_TEMPLATE_format (remove_all ''.svg'' (key_fname tile_type tile_key)) description (rotate_attr (snd ia))
             tile_type (outer paths) (inner paths))"
      by blast
    then show ?thesis
    proof cases
      case later
      then show ?thesis by auto
    next
      case old
      from rotated_tile_step_file [OF Inr] show ?thesis
      proof
        assume "road_files rst' = road_files rst"
        with old show ?thesis by simp
      next
        assume "\<exists>tile_key description.
          rotated_tile_key rmap base_key (fst ia) (snd ia) = Some (Inr tile_key) \<and>
          get_description tile_key tile_type = Inr description \<and>
          road_files rst' = road_files rst @
            [(key_fname tile_type tile_key,
           SVG_TEMPLATE_format (remove_all ''.svg'' (key_fname tile_type tile_key)) description (rotate_attr (snd ia))
             tile_type (outer paths) (inner paths))]"
        then obtain tile_key description where
          k: "rotated_tile_key rmap base_key (fst ia) (snd ia) = Some (Inr tile_key)"
            "get_description tile_key tile_type = Inr description"
          and wr: "road_files rst' = road_files rst @
            [(key_fname tile_type tile_key,
           SVG_TEMPLATE_format (remove_all ''.svg'' (key_fname tile_type tile_key)) description (rotate_attr (snd ia))
             tile_type (outer paths) (inner paths))]"
          by blast
        from old wr have "w \<in> set (road_files rst) \<or>
            w = (key_fname tile_type tile_key,
           SVG_TEMPLATE_format (remove_all ''.svg'' (key_fname tile_type tile_key)) description (rotate_attr (snd ia))
             tile_type (outer paths) (inner paths))"
          by auto
        then show ?thesis
        proof
          assume "w \<in> set (road_files rst)"
          then show ?thesis by simp
        next
          assume "w = (key_fname tile_type tile_key,
           SVG_TEMPLATE_format (remove_all ''.svg'' (key_fname tile_type tile_key)) description (rotate_attr (snd ia))
             tile_type (outer paths) (inner paths))"
          with k have "\<exists>ia' \<in> set (ia # ias). \<exists>tile_key description.
            rotated_tile_key rmap base_key (fst ia') (snd ia') = Some (Inr tile_key) \<and>
            get_description tile_key tile_type = Inr description \<and>
            w = (key_fname tile_type tile_key,
           SVG_TEMPLATE_format (remove_all ''.svg'' (key_fname tile_type tile_key)) description (rotate_attr (snd ia'))
             tile_type (outer paths) (inner paths))"
            by (intro bexI [of _ ia] exI [of _ tile_key] exI [of _ description]) simp_all
          then show ?thesis by (rule disjI2)
        qed
      qed
    qed
  qed
qed

lemma rotated_base_loop_files:
  assumes "w \<in> set (road_files (fst (rotated_base_loop rmap tile_type base_paths rst)))"
  shows "w \<in> set (road_files rst) \<or>
    (\<exists>kp \<in> set base_paths. \<exists>ia \<in> set ANGLES. \<exists>tile_key description.
       rotated_tile_key rmap (fst kp) (fst ia) (snd ia) = Some (Inr tile_key) \<and>
       get_description tile_key tile_type = Inr description \<and>
       w = (key_fname tile_type tile_key,
           SVG_TEMPLATE_format (remove_all ''.svg'' (key_fname tile_type tile_key)) description (rotate_attr (snd ia))
             tile_type (outer (snd kp)) (inner (snd kp))))"
  using assms
proof (induction base_paths arbitrary: rst)
  case Nil
  then show ?case by simp
next
  case (Cons kp rest)
  obtain rst' err where
    a: "rotated_angle_loop rmap tile_type (fst kp) (snd kp) ANGLES rst = (rst', err)"
    by (cases "rotated_angle_loop rmap tile_type (fst kp) (snd kp) ANGLES rst") auto
  have here: "w \<in> set (road_files rst) \<or>
    (\<exists>kp' \<in> set (kp # rest). \<exists>ia \<in> set ANGLES. \<exists>tile_key description.
       rotated_tile_key rmap (fst kp') (fst ia) (snd ia) = Some (Inr tile_key) \<and>
       get_description tile_key tile_type = Inr description \<and>
       w = (key_fname tile_type tile_key,
           SVG_TEMPLATE_format (remove_all ''.svg'' (key_fname tile_type tile_key)) description (rotate_attr (snd ia))
             tile_type (outer (snd kp')) (inner (snd kp'))))"
    if "w \<in> set (road_files rst')"
  proof -
    from that a have
      "w \<in> set (road_files (fst (rotated_angle_loop rmap tile_type (fst kp) (snd kp) ANGLES rst)))"
      by simp
    from rotated_angle_loop_files [OF this] show ?thesis
    proof
      assume "w \<in> set (road_files rst)"
      then show ?thesis by simp
    next
      assume "\<exists>ia \<in> set ANGLES. \<exists>tile_key description.
         rotated_tile_key rmap (fst kp) (fst ia) (snd ia) = Some (Inr tile_key) \<and>
         get_description tile_key tile_type = Inr description \<and>
         w = (key_fname tile_type tile_key,
           SVG_TEMPLATE_format (remove_all ''.svg'' (key_fname tile_type tile_key)) description (rotate_attr (snd ia))
             tile_type (outer (snd kp)) (inner (snd kp)))"
      then have "\<exists>kp' \<in> set (kp # rest). \<exists>ia \<in> set ANGLES. \<exists>tile_key description.
         rotated_tile_key rmap (fst kp') (fst ia) (snd ia) = Some (Inr tile_key) \<and>
         get_description tile_key tile_type = Inr description \<and>
         w = (key_fname tile_type tile_key,
           SVG_TEMPLATE_format (remove_all ''.svg'' (key_fname tile_type tile_key)) description (rotate_attr (snd ia))
             tile_type (outer (snd kp')) (inner (snd kp')))"
        by (intro bexI [of _ kp]) simp_all
      then show ?thesis by (rule disjI2)
    qed
  qed
  show ?case
  proof (cases err)
    case (Some e)
    then have "w \<in> set (road_files rst')" using Cons.prems a by simp
    then show ?thesis by (rule here)
  next
    case None
    then have "w \<in> set (road_files (fst (rotated_base_loop rmap tile_type rest rst')))"
      using Cons.prems a by simp
    from Cons.IH [OF this] show ?thesis
    proof
      assume "w \<in> set (road_files rst')"
      then show ?thesis by (rule here)
    next
      assume "\<exists>kp \<in> set rest. \<exists>ia \<in> set ANGLES. \<exists>tile_key description.
         rotated_tile_key rmap (fst kp) (fst ia) (snd ia) = Some (Inr tile_key) \<and>
         get_description tile_key tile_type = Inr description \<and>
         w = (key_fname tile_type tile_key,
           SVG_TEMPLATE_format (remove_all ''.svg'' (key_fname tile_type tile_key)) description (rotate_attr (snd ia))
             tile_type (outer (snd kp)) (inner (snd kp)))"
      then obtain kp' where "kp' \<in> set rest" and
        "\<exists>ia \<in> set ANGLES. \<exists>tile_key description.
         rotated_tile_key rmap (fst kp') (fst ia) (snd ia) = Some (Inr tile_key) \<and>
         get_description tile_key tile_type = Inr description \<and>
         w = (key_fname tile_type tile_key,
           SVG_TEMPLATE_format (remove_all ''.svg'' (key_fname tile_type tile_key)) description (rotate_attr (snd ia))
             tile_type (outer (snd kp')) (inner (snd kp')))"
        by blast
      then have "\<exists>kp' \<in> set (kp # rest). \<exists>ia \<in> set ANGLES. \<exists>tile_key description.
         rotated_tile_key rmap (fst kp') (fst ia) (snd ia) = Some (Inr tile_key) \<and>
         get_description tile_key tile_type = Inr description \<and>
         w = (key_fname tile_type tile_key,
           SVG_TEMPLATE_format (remove_all ''.svg'' (key_fname tile_type tile_key)) description (rotate_attr (snd ia))
             tile_type (outer (snd kp')) (inner (snd kp')))"
        by (intro bexI [of _ kp']) simp_all
      then show ?thesis by (rule disjI2)
    qed
  qed
qed

lemma rotated_tile_key_positional:
  assumes "rmap base_key = Some ks" and "3 \<le> length ks"
  shows "rotated_tile_key rmap base_key 0 0 = Some (Inr base_key)"
    and "rotated_tile_key rmap base_key 1 90 = Some (Inr (ks ! 0))"
    and "rotated_tile_key rmap base_key 2 180 = Some (Inr (ks ! 1))"
    and "rotated_tile_key rmap base_key 3 270 = Some (Inr (ks ! 2))"
  using assms by (auto simp: rotated_tile_key_def py_index_def)

lemma rotated_angle_loop_four:
  assumes "rmap base_key = Some ks" and "3 \<le> length ks"
    and "get_description base_key tile_type = Inr d0"
    and "get_description (ks ! 0) tile_type = Inr d1"
    and "get_description (ks ! 1) tile_type = Inr d2"
    and "get_description (ks ! 2) tile_type = Inr d3"
  shows "rotated_angle_loop rmap tile_type base_key paths ANGLES rst =
     (rst\<lparr>generated_files_count := generated_files_count rst + 4,
          road_files := road_files rst @
            [(key_fname tile_type base_key,
           SVG_TEMPLATE_format (remove_all ''.svg'' (key_fname tile_type base_key)) d0 (rotate_attr 0)
             tile_type (outer paths) (inner paths)),
             (key_fname tile_type (ks ! 0),
           SVG_TEMPLATE_format (remove_all ''.svg'' (key_fname tile_type (ks ! 0))) d1 (rotate_attr 90)
             tile_type (outer paths) (inner paths)),
             (key_fname tile_type (ks ! 1),
           SVG_TEMPLATE_format (remove_all ''.svg'' (key_fname tile_type (ks ! 1))) d2 (rotate_attr 180)
             tile_type (outer paths) (inner paths)),
             (key_fname tile_type (ks ! 2),
           SVG_TEMPLATE_format (remove_all ''.svg'' (key_fname tile_type (ks ! 2))) d3 (rotate_attr 270)
             tile_type (outer paths) (inner paths))]\<rparr>, None)"
proof -
  note k = rotated_tile_key_positional [of rmap base_key ks, OF assms(1,2)]
  have step: "rotated_angle_loop rmap tile_type base_key paths ((i, a) # rest) s =
      rotated_angle_loop rmap tile_type base_key paths rest
        (s\<lparr>generated_files_count := generated_files_count s + 1,
           road_files := road_files s @
             [(key_fname tile_type tile_key,
           SVG_TEMPLATE_format (remove_all ''.svg'' (key_fname tile_type tile_key)) description (rotate_attr a)
             tile_type (outer paths) (inner paths))]\<rparr>)"
    if "rotated_tile_key rmap base_key i a = Some (Inr tile_key)"
      and "get_description tile_key tile_type = Inr description"
    for i a tile_key description rest s
    by (simp add: rotated_tile_step_new [OF that])
  let ?f = "\<lambda>s tile_key description a.
      s\<lparr>generated_files_count := generated_files_count s + 1,
         road_files := road_files s @
           [(key_fname tile_type tile_key,
           SVG_TEMPLATE_format (remove_all ''.svg'' (key_fname tile_type tile_key)) description (rotate_attr a)
             tile_type (outer paths) (inner paths))]\<rparr>"
  have "rotated_angle_loop rmap tile_type base_key paths ANGLES rst =
      rotated_angle_loop rmap tile_type base_key paths [(1, 90), (2, 180), (3, 270)]
        (?f rst base_key d0 0)"
    unfolding ANGLES_eval by (rule step [OF k(1) assms(3)])
  also have "\<dots> = rotated_angle_loop rmap tile_type base_key paths [(2, 180), (3, 270)]
        (?f (?f rst base_key d0 0) (ks ! 0) d1 90)"
    by (rule step [OF k(2) assms(4)])
  also have "\<dots> = rotated_angle_loop rmap tile_type base_key paths [(3, 270)]
        (?f (?f (?f rst base_key d0 0) (ks ! 0) d1 90) (ks ! 1) d2 180)"
    by (rule step [OF k(3) assms(5)])
  also have "\<dots> = rotated_angle_loop rmap tile_type base_key paths []
        (?f (?f (?f (?f rst base_key d0 0) (ks ! 0) d1 90) (ks ! 1) d2 180) (ks ! 2) d3 270)"
    by (rule step [OF k(4) assms(6)])
  also have "\<dots> = (rst\<lparr>generated_files_count := generated_files_count rst + 4,
          road_files := road_files rst @
            [(key_fname tile_type base_key,
           SVG_TEMPLATE_format (remove_all ''.svg'' (key_fname tile_type base_key)) d0 (rotate_attr 0)
             tile_type (outer paths) (inner paths)),
             (key_fname tile_type (ks ! 0),
           SVG_TEMPLATE_format (remove_all ''.svg'' (key_fname tile_type (ks ! 0))) d1 (rotate_attr 90)
             tile_type (outer paths) (inner paths)),
             (key_fname tile_type (ks ! 1),
           SVG_TEMPLATE_format (remove_all ''.svg'' (key_fname tile_type (ks ! 1))) d2 (rotate_attr 180)
             tile_type (outer paths) (inner paths)),
             (key_fname tile_type (ks ! 2),
           SVG_TEMPLATE_format (remove_all ''.svg'' (key_fname tile_type (ks ! 2))) d3 (rotate_attr 270)
             tile_type (outer paths) (inner paths))]\<rparr>, None)"
    by simp
  finally show ?thesis .
qed

lemma sharp_family_8bit:
  \<open>gen_rot_tiles sharp_paths_base ''sharp'' =
      ([(''road-tile-sharp-05.svg'',
        SVG_TMPL_format ''road-tile-sharp-05'' ''sharp tile, key=U1U2-R1R2, mask=0x05''
          []
          ''M 10 0 L 10 20 L 40 20''
          ''M 20 0 L 20 10 L 40 10''),
       (''road-tile-sharp-24.svg'',
        SVG_TMPL_format ''road-tile-sharp-24'' ''sharp tile, key=R1R2-D1D2, mask=0x24''
          '' transform="rotate(90 20 20)"''
          ''M 10 0 L 10 20 L 40 20''
          ''M 20 0 L 20 10 L 40 10''),
       (''road-tile-sharp-A0.svg'',
        SVG_TMPL_format ''road-tile-sharp-A0'' ''sharp tile, key=D1D2-L1L2, mask=0xA0''
          '' transform="rotate(180 20 20)"''
          ''M 10 0 L 10 20 L 40 20''
          ''M 20 0 L 20 10 L 40 10''),
       (''road-tile-sharp-81.svg'',
        SVG_TMPL_format ''road-tile-sharp-81'' ''sharp tile, key=L1L2-U1U2, mask=0x81''
          '' transform="rotate(270 20 20)"''
          ''M 10 0 L 10 20 L 40 20''
          ''M 20 0 L 20 10 L 40 10''),
       (''road-tile-sharp-09.svg'',
        SVG_TMPL_format ''road-tile-sharp-09'' ''sharp tile, key=U1U2-R2R3, mask=0x09''
          []
          ''M 10 0 L 10 30 L 40 30''
          ''M 20 0 L 20 20 L 40 20''),
       (''road-tile-sharp-14.svg'',
        SVG_TMPL_format ''road-tile-sharp-14'' ''sharp tile, key=R1R2-D2D3, mask=0x14''
          '' transform="rotate(90 20 20)"''
          ''M 10 0 L 10 30 L 40 30''
          ''M 20 0 L 20 20 L 40 20''),
       (''road-tile-sharp-60.svg'',
        SVG_TMPL_format ''road-tile-sharp-60'' ''sharp tile, key=D1D2-L2L3, mask=0x60''
          '' transform="rotate(180 20 20)"''
          ''M 10 0 L 10 30 L 40 30''
          ''M 20 0 L 20 20 L 40 20''),
       (''road-tile-sharp-82.svg'',
        SVG_TMPL_format ''road-tile-sharp-82'' ''sharp tile, key=L1L2-U2U3, mask=0x82''
          '' transform="rotate(270 20 20)"''
          ''M 10 0 L 10 30 L 40 30''
          ''M 20 0 L 20 20 L 40 20''),
       (''road-tile-sharp-06.svg'',
        SVG_TMPL_format ''road-tile-sharp-06'' ''sharp tile, key=U2U3-R1R2, mask=0x06''
          []
          ''M 20 0 L 20 20 L 40 20''
          ''M 30 0 L 30 10 L 40 10''),
       (''road-tile-sharp-28.svg'',
        SVG_TMPL_format ''road-tile-sharp-28'' ''sharp tile, key=R2R3-D1D2, mask=0x28''
          '' transform="rotate(90 20 20)"''
          ''M 20 0 L 20 20 L 40 20''
          ''M 30 0 L 30 10 L 40 10''),
       (''road-tile-sharp-90.svg'',
        SVG_TMPL_format ''road-tile-sharp-90'' ''sharp tile, key=D2D3-L1L2, mask=0x90''
          '' transform="rotate(180 20 20)"''
          ''M 20 0 L 20 20 L 40 20''
          ''M 30 0 L 30 10 L 40 10''),
       (''road-tile-sharp-41.svg'',
        SVG_TMPL_format ''road-tile-sharp-41'' ''sharp tile, key=L2L3-U1U2, mask=0x41''
          '' transform="rotate(270 20 20)"''
          ''M 20 0 L 20 20 L 40 20''
          ''M 30 0 L 30 10 L 40 10''),
       (''road-tile-sharp-0A.svg'',
        SVG_TMPL_format ''road-tile-sharp-0A'' ''sharp tile, key=U2U3-R2R3, mask=0x0A''
          []
          ''M 20 0 L 20 30 L 40 30''
          ''M 30 0 L 30 20 L 40 20''),
       (''road-tile-sharp-18.svg'',
        SVG_TMPL_format ''road-tile-sharp-18'' ''sharp tile, key=R2R3-D2D3, mask=0x18''
          '' transform="rotate(90 20 20)"''
          ''M 20 0 L 20 30 L 40 30''
          ''M 30 0 L 30 20 L 40 20''),
       (''road-tile-sharp-50.svg'',
        SVG_TMPL_format ''road-tile-sharp-50'' ''sharp tile, key=D2D3-L2L3, mask=0x50''
          '' transform="rotate(180 20 20)"''
          ''M 20 0 L 20 30 L 40 30''
          ''M 30 0 L 30 20 L 40 20''),
       (''road-tile-sharp-42.svg'',
        SVG_TMPL_format ''road-tile-sharp-42'' ''sharp tile, key=L2L3-U2U3, mask=0x42''
          '' transform="rotate(270 20 20)"''
          ''M 20 0 L 20 30 L 40 30''
          ''M 30 0 L 30 20 L 40 20'')], None)\<close>
  by (simp add: gen_rot_tiles_def gen_rot_tiles_with_def sharp_paths_base_def ANGLES_eval
      rot_tile_step_def rot_key_def py_index_def ROT_KEYS_def eval_key write_svg_def
      mask_fname_def mask_desc_def rotate_attr_def eval_fmt)

lemma sharp_family_key_named:
  \<open>generate_rotated_tiles sharp_paths_base ''sharp''
       \<lparr>generated_files_count = 0, road_files = [], road_printed = []\<rparr> =
      (\<lparr>generated_files_count = 16,
        road_files =
      [(''road-tile-sharp-U1U2-R1R2.svg'',
        SVG_TEMPLATE_format ''road-tile-sharp-U1U2-R1R2''
          ''Sharp tile: Entry Upper (X:10-20), Exit Right (Y:10-20)''
          [] ''sharp''
          ''M 10 0 L 10 20 L 40 20''
          ''M 20 0 L 20 10 L 40 10''),
       (''road-tile-sharp-R1R2-D1D2.svg'',
        SVG_TEMPLATE_format ''road-tile-sharp-R1R2-D1D2''
          ''Sharp tile: Entry Right (Y:10-20), Exit Bottom (X:10-20)''
          '' transform="rotate(90 20 20)"'' ''sharp''
          ''M 10 0 L 10 20 L 40 20''
          ''M 20 0 L 20 10 L 40 10''),
       (''road-tile-sharp-D1D2-L1L2.svg'',
        SVG_TEMPLATE_format ''road-tile-sharp-D1D2-L1L2''
          ''Sharp tile: Entry Bottom (X:10-20), Exit Left (Y:10-20)''
          '' transform="rotate(180 20 20)"'' ''sharp''
          ''M 10 0 L 10 20 L 40 20''
          ''M 20 0 L 20 10 L 40 10''),
       (''road-tile-sharp-L1L2-U1U2.svg'',
        SVG_TEMPLATE_format ''road-tile-sharp-L1L2-U1U2''
          ''Sharp tile: Entry Left (Y:10-20), Exit Upper (X:10-20)''
          '' transform="rotate(270 20 20)"'' ''sharp''
          ''M 10 0 L 10 20 L 40 20''
          ''M 20 0 L 20 10 L 40 10''),
       (''road-tile-sharp-U1U2-R2R3.svg'',
        SVG_TEMPLATE_format ''road-tile-sharp-U1U2-R2R3''
          ''Sharp tile: Entry Upper (X:10-20), Exit Right (Y:20-30)''
          [] ''sharp''
          ''M 10 0 L 10 30 L 40 30''
          ''M 20 0 L 20 20 L 40 20''),
       (''road-tile-sharp-R1R2-D2D3.svg'',
        SVG_TEMPLATE_format ''road-tile-sharp-R1R2-D2D3''
          ''Sharp tile: Entry Right (Y:10-20), Exit Bottom (X:20-30)''
          '' transform="rotate(90 20 20)"'' ''sharp''
          ''M 10 0 L 10 30 L 40 30''
          ''M 20 0 L 20 20 L 40 20''),
       (''road-tile-sharp-D1D2-L2L3.svg'',
        SVG_TEMPLATE_format ''road-tile-sharp-D1D2-L2L3''
          ''Sharp tile: Entry Bottom (X:10-20), Exit Left (Y:20-30)''
          '' transform="rotate(180 20 20)"'' ''sharp''
          ''M 10 0 L 10 30 L 40 30''
          ''M 20 0 L 20 20 L 40 20''),
       (''road-tile-sharp-L1L2-U2U3.svg'',
        SVG_TEMPLATE_format ''road-tile-sharp-L1L2-U2U3''
          ''Sharp tile: Entry Left (Y:10-20), Exit Upper (X:20-30)''
          '' transform="rotate(270 20 20)"'' ''sharp''
          ''M 10 0 L 10 30 L 40 30''
          ''M 20 0 L 20 20 L 40 20''),
       (''road-tile-sharp-U2U3-R1R2.svg'',
        SVG_TEMPLATE_format ''road-tile-sharp-U2U3-R1R2''
          ''Sharp tile: Entry Upper (X:20-30), Exit Right (Y:10-20)''
          [] ''sharp''
          ''M 20 0 L 20 20 L 40 20''
          ''M 30 0 L 30 10 L 40 10''),
       (''road-tile-sharp-R2R3-D1D2.svg'',
        SVG_TEMPLATE_format ''road-tile-sharp-R2R3-D1D2''
          ''Sharp tile: Entry Right (Y:20-30), Exit Bottom (X:10-20)''
          '' transform="rotate(90 20 20)"'' ''sharp''
          ''M 20 0 L 20 20 L 40 20''
          ''M 30 0 L 30 10 L 40 10''),
       (''road-tile-sharp-D2D3-L1L2.svg'',
        SVG_TEMPLATE_format ''road-tile-sharp-D2D3-L1L2''
          ''Sharp tile: Entry Bottom (X:20-30), Exit Left (Y:10-20)''
          '' transform="rotate(180 20 20)"'' ''sharp''
          ''M 20 0 L 20 20 L 40 20''
          ''M 30 0 L 30 10 L 40 10''),
       (''road-tile-sharp-L2L3-U1U2.svg'',
        SVG_TEMPLATE_format ''road-tile-sharp-L2L3-U1U2''
          ''Sharp tile: Entry Left (Y:20-30), Exit Upper (X:10-20)''
          '' transform="rotate(270 20 20)"'' ''sharp''
          ''M 20 0 L 20 20 L 40 20''
          ''M 30 0 L 30 10 L 40 10''),
       (''road-tile-sharp-U2U3-R2R3.svg'',
        SVG_TEMPLATE_format ''road-tile-sharp-U2U3-R2R3''
          ''Sharp tile: Entry Upper (X:20-30), Exit Right (Y:20-30)''
          [] ''sharp''
          ''M 20 0 L 20 30 L 40 30''
          ''M 30 0 L 30 20 L 40 20''),
       (''road-tile-sharp-R2R3-D2D3.svg'',
        SVG_TEMPLATE_format ''road-tile-sharp-R2R3-D2D3''
          ''Sharp tile: Entry Right (Y:20-30), Exit Bottom (X:20-30)''
          '' transform="rotate(90 20 20)"'' ''sharp''
          ''M 20 0 L 20 30 L 40 30''
          ''M 30 0 L 30 20 L 40 20''),
       (''road-tile-sharp-D2D3-L2L3.svg'',
        SVG_TEMPLATE_format ''road-tile-sharp-D2D3-L2L3''
          ''Sharp tile: Entry Bottom (X:20-30), Exit Left (Y:20-30)''
          '' transform="rotate(180 20 20)"'' ''sharp''
          ''M 20 0 L 20 30 L 40 30''
          ''M 30 0 L 30 20 L 40 20''),
       (''road-tile-sharp-L2L3-U2U3.svg'',
        SVG_TEMPLATE_format ''road-tile-sharp-L2L3-U2U3''
          ''Sharp tile: Entry Left (Y:20-30), Exit Upper (X:20-30)''
          '' transform="rotate(270 20 20)"'' ''sharp''
          ''M 20 0 L 20 30 L 40 30''
          ''M 30 0 L 30 20 L 40 20'')],
        road_printed = []\<rparr>, None)\<close>
  by (simp add: generate_rotated_tiles_def generate_rotated_tiles_with_def sharp_paths_base_def
      ANGLES_eval rotated_tile_step_def rotated_tile_key_def py_index_def rotated_keys_map_def
      write_key_tile_def key_fname_def rotate_attr_def eval_desc eval_fmt)

lemma sharp_text_8bit:
  \<open>SVG_TMPL_format ''road-tile-sharp-24'' ''sharp tile, key=R1R2-D1D2, mask=0x24''
       '' transform="rotate(90 20 20)"'' ''M 10 0 L 10 20 L 40 20'' ''M 20 0 L 20 10 L 40 10'' =
        ''<svg xmlns="http://www.w3.org/2000/svg" id="road-tile-sharp-24" width="40" height="40" viewBox="0 0 40 40">\<newline>'' @
        ''  <desc>sharp tile, key=R1R2-D1D2, mask=0x24</desc>\<newline>'' @
        ''  <g stroke="#ccc" stroke-width="0.5">\<newline>'' @
        ''    <line x1="10" y1="0" x2="10" y2="40"/><line x1="20" y1="0" x2="20" y2="40"/><line x1="30" y1="0" x2="30" y2="40"/>\<newline>'' @
        ''    <line x1="0" y1="10" x2="40" y2="10"/><line x1="0" y1="20" x2="40" y2="20"/><line x1="0" y1="30" x2="40" y2="30"/>\<newline>'' @
        ''    <rect x="0" y="0" width="40" height="40" fill="none"/>\<newline>'' @
        ''  </g>\<newline>'' @
        ''  <g stroke="#000" stroke-width="1" fill="none" transform="rotate(90 20 20)">\<newline>'' @
        ''    <path d="M 10 0 L 10 20 L 40 20" />\<newline>'' @
        ''    <path d="M 20 0 L 20 10 L 40 10" />\<newline>'' @
        ''  </g>\<newline>'' @
        ''</svg>''\<close>
  by (simp add: SVG_TMPL_format_def)

lemma sharp_text_key_named:
  \<open>SVG_TEMPLATE_format ''road-tile-sharp-R1R2-D1D2''
       ''Sharp tile: Entry Right (Y:10-20), Exit Bottom (X:10-20)''
       '' transform="rotate(90 20 20)"'' ''sharp'' ''M 10 0 L 10 20 L 40 20''
       ''M 20 0 L 20 10 L 40 10'' =
        ''<svg xmlns="http://www.w3.org/2000/svg" id="road-tile-sharp-R1R2-D1D2" width="40" height="40" viewBox="0 0 40 40">\<newline>'' @
        ''  <desc>Sharp tile: Entry Right (Y:10-20), Exit Bottom (X:10-20)</desc>\<newline>'' @
        ''  <defs>\<newline>'' @
        ''    <style>\<newline>'' @
        ''      /* Styles can be kept simple or removed if not strictly needed */\<newline>'' @
        ''      /* .grid { stroke: #cccccc; stroke-width: 0.5; } */\<newline>'' @
        ''      /* .road { stroke: #000000; stroke-width: 1; fill: none; } */\<newline>'' @
        ''      /* .point { fill: #ff0000; } */\<newline>'' @
        ''    </style>\<newline>'' @
        ''  </defs>\<newline>'' @
        ''\<newline>'' @
        ''  <g id="grid" stroke="#cccccc" stroke-width="0.5">\<newline>'' @
        ''    <line x1="0" y1="10" x2="40" y2="10" /> <line x1="0" y1="20" x2="40" y2="20" /> <line x1="0" y1="30" x2="40" y2="30" />\<newline>'' @
        ''    <line x1="10" y1="0" x2="10" y2="40" /> <line x1="20" y1="0" x2="20" y2="40" /> <line x1="30" y1="0" x2="30" y2="40" />\<newline>'' @
        ''    <line x1="0" y1="0" x2="40" y2="0" /> <line x1="0" y1="40" x2="40" y2="40" />\<newline>'' @
        ''    <line x1="0" y1="0" x2="0" y2="40" /> <line x1="40" y1="0" x2="40" y2="40" />\<newline>'' @
        ''  </g>\<newline>'' @
        ''\<newline>'' @
        ''  <g id="road" stroke="#000000" stroke-width="1" fill="none" transform="rotate(90 20 20)">\<newline>'' @
        ''    <path id="road-outer-sharp" d="M 10 0 L 10 20 L 40 20" />\<newline>'' @
        ''    <path id="road-inner-sharp" d="M 20 0 L 20 10 L 40 10" />\<newline>'' @
        ''  </g>\<newline>'' @
        ''\<newline>'' @
        ''  <g id="anchor-points" fill="#ff0000">\<newline>'' @
        ''    <circle cx="10" cy="0" r="1" /> <circle cx="20" cy="0" r="1" /> <circle cx="30" cy="0" r="1" />\<newline>'' @
        ''    <circle cx="40" cy="10" r="1" /> <circle cx="40" cy="20" r="1" /> <circle cx="40" cy="30" r="1" />\<newline>'' @
        ''    <circle cx="10" cy="40" r="1" /> <circle cx="20" cy="40" r="1" /> <circle cx="30" cy="40" r="1" />\<newline>'' @
        ''    <circle cx="0" cy="10" r="1" /> <circle cx="0" cy="20" r="1" /> <circle cx="0" cy="30" r="1" />\<newline>'' @
        ''  </g>\<newline>'' @
        ''</svg>\<newline>''\<close>
  by (simp add: SVG_TEMPLATE_format_def)

text \<open>
  C8. For every base key and every rotation variant, the step that writes the variant's
  file fills the template with the outer and inner path of the base key as they stand in
  the dictionary, and with the transform attribute of the variant's angle: this holds for
  \<^verbatim>\<open>gen_rot_tiles\<close> (when the variant's mask is not yet used) and for
  \<^verbatim>\<open>generate_rotated_tiles\<close>, whose inner loop writes the four variants of a base key in
  the order of the angles. Every file that either generator writes is the file of one
  variant, named and described by that variant's key, with the paths of that variant's base
  key and the transform of that variant's angle. The transform is empty at angle 0 and
  \<^verbatim>\<open>rotate(angle 20 20)\<close> at 90, 180 and 270. On the sharp dictionary of the scripts
  both generators write the 16 files listed, and the text of the 90 degree variant of the
  first base key is the text shown.
\<close>

theorem variants_reuse_base_paths:
  \<open>(rot_key rot base_key i a = Inr key \<and> key_to_mask key = Inr m \<and> m \<notin> used_masks st \<longrightarrow>
        rot_tile_step rot tile_type base_key paths (i, a) st =
          Inr \<lparr>used_masks = insert m (used_masks st),
               written = written st @
                 [(mask_fname tile_type m,
           SVG_TMPL_format (take (length (mask_fname tile_type m) - 4) (mask_fname tile_type m))
             (mask_desc tile_type key m) (rotate_attr a) (outer paths) (inner paths))]\<rparr>)
   \<and> (rotated_tile_key rmap base_key i a = Some (Inr tile_key)
        \<and> get_description tile_key tile_type = Inr description \<longrightarrow>
        rotated_tile_step rmap tile_type base_key paths (i, a) rst =
          Inr (rst\<lparr>generated_files_count := generated_files_count rst + 1,
                   road_files := road_files rst @
                     [(key_fname tile_type tile_key,
           SVG_TEMPLATE_format (remove_all ''.svg'' (key_fname tile_type tile_key)) description (rotate_attr a)
             tile_type (outer paths) (inner paths))]\<rparr>))
   \<and> (\<forall>w \<in> set (fst (gen_rot_tiles_with rot base_dict tile_type)).
      \<exists>kp \<in> set base_dict. \<exists>ia \<in> set ANGLES. \<exists>key m.
        rot_key rot (fst kp) (fst ia) (snd ia) = Inr key \<and> key_to_mask key = Inr m \<and>
        w = (mask_fname tile_type m,
           SVG_TMPL_format (take (length (mask_fname tile_type m) - 4) (mask_fname tile_type m))
             (mask_desc tile_type key m) (rotate_attr (snd ia)) (outer (snd kp)) (inner (snd kp))))
   \<and> (\<forall>w \<in> set (road_files (fst (generate_rotated_tiles_with rmap base_dict tile_type rst))).
      w \<in> set (road_files rst) \<or>
      (\<exists>kp \<in> set base_dict. \<exists>ia \<in> set ANGLES. \<exists>tile_key description.
        rotated_tile_key rmap (fst kp) (fst ia) (snd ia) = Some (Inr tile_key) \<and>
        get_description tile_key tile_type = Inr description \<and>
        w = (key_fname tile_type tile_key,
           SVG_TEMPLATE_format (remove_all ''.svg'' (key_fname tile_type tile_key)) description (rotate_attr (snd ia))
             tile_type (outer (snd kp)) (inner (snd kp)))))
   \<and> (rmap base_key = Some ks \<and> 3 \<le> length ks
        \<and> get_description base_key tile_type = Inr d0
        \<and> get_description (ks ! 0) tile_type = Inr d1
        \<and> get_description (ks ! 1) tile_type = Inr d2
        \<and> get_description (ks ! 2) tile_type = Inr d3 \<longrightarrow>
        rotated_angle_loop rmap tile_type base_key paths ANGLES rst =
          (rst\<lparr>generated_files_count := generated_files_count rst + 4,
               road_files := road_files rst @
                 [(key_fname tile_type base_key,
           SVG_TEMPLATE_format (remove_all ''.svg'' (key_fname tile_type base_key)) d0 (rotate_attr 0)
             tile_type (outer paths) (inner paths)),
             (key_fname tile_type (ks ! 0),
           SVG_TEMPLATE_format (remove_all ''.svg'' (key_fname tile_type (ks ! 0))) d1 (rotate_attr 90)
             tile_type (outer paths) (inner paths)),
             (key_fname tile_type (ks ! 1),
           SVG_TEMPLATE_format (remove_all ''.svg'' (key_fname tile_type (ks ! 1))) d2 (rotate_attr 180)
             tile_type (outer paths) (inner paths)),
             (key_fname tile_type (ks ! 2),
           SVG_TEMPLATE_format (remove_all ''.svg'' (key_fname tile_type (ks ! 2))) d3 (rotate_attr 270)
             tile_type (outer paths) (inner paths))]\<rparr>, None))
   \<and> map snd ANGLES = [0, 90, 180, 270]
   \<and> rotate_attr 0 = []
   \<and> rotate_attr 90 = '' transform="rotate(90 20 20)"''
   \<and> rotate_attr 180 = '' transform="rotate(180 20 20)"''
   \<and> rotate_attr 270 = '' transform="rotate(270 20 20)"''
   \<and> gen_rot_tiles sharp_paths_base ''sharp'' =
      ([(''road-tile-sharp-05.svg'',
        SVG_TMPL_format ''road-tile-sharp-05'' ''sharp tile, key=U1U2-R1R2, mask=0x05''
          []
          ''M 10 0 L 10 20 L 40 20''
          ''M 20 0 L 20 10 L 40 10''),
       (''road-tile-sharp-24.svg'',
        SVG_TMPL_format ''road-tile-sharp-24'' ''sharp tile, key=R1R2-D1D2, mask=0x24''
          '' transform="rotate(90 20 20)"''
          ''M 10 0 L 10 20 L 40 20''
          ''M 20 0 L 20 10 L 40 10''),
       (''road-tile-sharp-A0.svg'',
        SVG_TMPL_format ''road-tile-sharp-A0'' ''sharp tile, key=D1D2-L1L2, mask=0xA0''
          '' transform="rotate(180 20 20)"''
          ''M 10 0 L 10 20 L 40 20''
          ''M 20 0 L 20 10 L 40 10''),
       (''road-tile-sharp-81.svg'',
        SVG_TMPL_format ''road-tile-sharp-81'' ''sharp tile, key=L1L2-U1U2, mask=0x81''
          '' transform="rotate(270 20 20)"''
          ''M 10 0 L 10 20 L 40 20''
          ''M 20 0 L 20 10 L 40 10''),
       (''road-tile-sharp-09.svg'',
        SVG_TMPL_format ''road-tile-sharp-09'' ''sharp tile, key=U1U2-R2R3, mask=0x09''
          []
          ''M 10 0 L 10 30 L 40 30''
          ''M 20 0 L 20 20 L 40 20''),
       (''road-tile-sharp-14.svg'',
        SVG_TMPL_format ''road-tile-sharp-14'' ''sharp tile, key=R1R2-D2D3, mask=0x14''
          '' transform="rotate(90 20 20)"''
          ''M 10 0 L 10 30 L 40 30''
          ''M 20 0 L 20 20 L 40 20''),
       (''road-tile-sharp-60.svg'',
        SVG_TMPL_format ''road-tile-sharp-60'' ''sharp tile, key=D1D2-L2L3, mask=0x60''
          '' transform="rotate(180 20 20)"''
          ''M 10 0 L 10 30 L 40 30''
          ''M 20 0 L 20 20 L 40 20''),
       (''road-tile-sharp-82.svg'',
        SVG_TMPL_format ''road-tile-sharp-82'' ''sharp tile, key=L1L2-U2U3, mask=0x82''
          '' transform="rotate(270 20 20)"''
          ''M 10 0 L 10 30 L 40 30''
          ''M 20 0 L 20 20 L 40 20''),
       (''road-tile-sharp-06.svg'',
        SVG_TMPL_format ''road-tile-sharp-06'' ''sharp tile, key=U2U3-R1R2, mask=0x06''
          []
          ''M 20 0 L 20 20 L 40 20''
          ''M 30 0 L 30 10 L 40 10''),
       (''road-tile-sharp-28.svg'',
        SVG_TMPL_format ''road-tile-sharp-28'' ''sharp tile, key=R2R3-D1D2, mask=0x28''
          '' transform="rotate(90 20 20)"''
          ''M 20 0 L 20 20 L 40 20''
          ''M 30 0 L 30 10 L 40 10''),
       (''road-tile-sharp-90.svg'',
        SVG_TMPL_format ''road-tile-sharp-90'' ''sharp tile, key=D2D3-L1L2, mask=0x90''
          '' transform="rotate(180 20 20)"''
          ''M 20 0 L 20 20 L 40 20''
          ''M 30 0 L 30 10 L 40 10''),
       (''road-tile-sharp-41.svg'',
        SVG_TMPL_format ''road-tile-sharp-41'' ''sharp tile, key=L2L3-U1U2, mask=0x41''
          '' transform="rotate(270 20 20)"''
          ''M 20 0 L 20 20 L 40 20''
          ''M 30 0 L 30 10 L 40 10''),
       (''road-tile-sharp-0A.svg'',
        SVG_TMPL_format ''road-tile-sharp-0A'' ''sharp tile, key=U2U3-R2R3, mask=0x0A''
          []
          ''M 20 0 L 20 30 L 40 30''
          ''M 30 0 L 30 20 L 40 20''),
       (''road-tile-sharp-18.svg'',
        SVG_TMPL_format ''road-tile-sharp-18'' ''sharp tile, key=R2R3-D2D3, mask=0x18''
          '' transform="rotate(90 20 20)"''
          ''M 20 0 L 20 30 L 40 30''
          ''M 30 0 L 30 20 L 40 20''),
       (''road-tile-sharp-50.svg'',
        SVG_TMPL_format ''road-tile-sharp-50'' ''sharp tile, key=D2D3-L2L3, mask=0x50''
          '' transform="rotate(180 20 20)"''
          ''M 20 0 L 20 30 L 40 30''
          ''M 30 0 L 30 20 L 40 20''),
       (''road-tile-sharp-42.svg'',
        SVG_TMPL_format ''road-tile-sharp-42'' ''sharp tile, key=L2L3-U2U3, mask=0x42''
          '' transform="rotate(270 20 20)"''
          ''M 20 0 L 20 30 L 40 30''
          ''M 30 0 L 30 20 L 40 20'')], None)
   \<and> generate_rotated_tiles sharp_paths_base ''sharp''
       \<lparr>generated_files_count = 0, road_files = [], road_printed = []\<rparr> =
      (\<lparr>generated_files_count = 16,
        road_files =
      [(''road-tile-sharp-U1U2-R1R2.svg'',
        SVG_TEMPLATE_format ''road-tile-sharp-U1U2-R1R2''
          ''Sharp tile: Entry Upper (X:10-20), Exit Right (Y:10-20)''
          [] ''sharp''
          ''M 10 0 L 10 20 L 40 20''
          ''M 20 0 L 20 10 L 40 10''),
       (''road-tile-sharp-R1R2-D1D2.svg'',
        SVG_TEMPLATE_format ''road-tile-sharp-R1R2-D1D2''
          ''Sharp tile: Entry Right (Y:10-20), Exit Bottom (X:10-20)''
          '' transform="rotate(90 20 20)"'' ''sharp''
          ''M 10 0 L 10 20 L 40 20''
          ''M 20 0 L 20 10 L 40 10''),
       (''road-tile-sharp-D1D2-L1L2.svg'',
        SVG_TEMPLATE_format ''road-tile-sharp-D1D2-L1L2''
          ''Sharp tile: Entry Bottom (X:10-20), Exit Left (Y:10-20)''
          '' transform="rotate(180 20 20)"'' ''sharp''
          ''M 10 0 L 10 20 L 40 20''
          ''M 20 0 L 20 10 L 40 10''),
       (''road-tile-sharp-L1L2-U1U2.svg'',
        SVG_TEMPLATE_format ''road-tile-sharp-L1L2-U1U2''
          ''Sharp tile: Entry Left (Y:10-20), Exit Upper (X:10-20)''
          '' transform="rotate(270 20 20)"'' ''sharp''
          ''M 10 0 L 10 20 L 40 20''
          ''M 20 0 L 20 10 L 40 10''),
       (''road-tile-sharp-U1U2-R2R3.svg'',
        SVG_TEMPLATE_format ''road-tile-sharp-U1U2-R2R3''
          ''Sharp tile: Entry Upper (X:10-20), Exit Right (Y:20-30)''
          [] ''sharp''
          ''M 10 0 L 10 30 L 40 30''
          ''M 20 0 L 20 20 L 40 20''),
       (''road-tile-sharp-R1R2-D2D3.svg'',
        SVG_TEMPLATE_format ''road-tile-sharp-R1R2-D2D3''
          ''Sharp tile: Entry Right (Y:10-20), Exit Bottom (X:20-30)''
          '' transform="rotate(90 20 20)"'' ''sharp''
          ''M 10 0 L 10 30 L 40 30''
          ''M 20 0 L 20 20 L 40 20''),
       (''road-tile-sharp-D1D2-L2L3.svg'',
        SVG_TEMPLATE_format ''road-tile-sharp-D1D2-L2L3''
          ''Sharp tile: Entry Bottom (X:10-20), Exit Left (Y:20-30)''
          '' transform="rotate(180 20 20)"'' ''sharp''
          ''M 10 0 L 10 30 L 40 30''
          ''M 20 0 L 20 20 L 40 20''),
       (''road-tile-sharp-L1L2-U2U3.svg'',
        SVG_TEMPLATE_format ''road-tile-sharp-L1L2-U2U3''
          ''Sharp tile: Entry Left (Y:10-20), Exit Upper (X:20-30)''
          '' transform="rotate(270 20 20)"'' ''sharp''
          ''M 10 0 L 10 30 L 40 30''
          ''M 20 0 L 20 20 L 40 20''),
       (''road-tile-sharp-U2U3-R1R2.svg'',
        SVG_TEMPLATE_format ''road-tile-sharp-U2U3-R1R2''
          ''Sharp tile: Entry Upper (X:20-30), Exit Right (Y:10-20)''
          [] ''sharp''
          ''M 20 0 L 20 20 L 40 20''
          ''M 30 0 L 30 10 L 40 10''),
       (''road-tile-sharp-R2R3-D1D2.svg'',
        SVG_TEMPLATE_format ''road-tile-sharp-R2R3-D1D2''
          ''Sharp tile: Entry Right (Y:20-30), Exit Bottom (X:10-20)''
          '' transform="rotate(90 20 20)"'' ''sharp''
          ''M 20 0 L 20 20 L 40 20''
          ''M 30 0 L 30 10 L 40 10''),
       (''road-tile-sharp-D2D3-L1L2.svg'',
        SVG_TEMPLATE_format ''road-tile-sharp-D2D3-L1L2''
          ''Sharp tile: Entry Bottom (X:20-30), Exit Left (Y:10-20)''
          '' transform="rotate(180 20 20)"'' ''sharp''
          ''M 20 0 L 20 20 L 40 20''
          ''M 30 0 L 30 10 L 40 10''),
       (''road-tile-sharp-L2L3-U1U2.svg'',
        SVG_TEMPLATE_format ''road-tile-sharp-L2L3-U1U2''
          ''Sharp tile: Entry Left (Y:20-30), Exit Upper (X:10-20)''
          '' transform="rotate(270 20 20)"'' ''sharp''
          ''M 20 0 L 20 20 L 40 20''
          ''M 30 0 L 30 10 L 40 10''),
       (''road-tile-sharp-U2U3-R2R3.svg'',
        SVG_TEMPLATE_format ''road-tile-sharp-U2U3-R2R3''
          ''Sharp tile: Entry Upper (X:20-30), Exit Right (Y:20-30)''
          [] ''sharp''
          ''M 20 0 L 20 30 L 40 30''
          ''M 30 0 L 30 20 L 40 20''),
       (''road-tile-sharp-R2R3-D2D3.svg'',
        SVG_TEMPLATE_format ''road-tile-sharp-R2R3-D2D3''
          ''Sharp tile: Entry Right (Y:20-30), Exit Bottom (X:20-30)''
          '' transform="rotate(90 20 20)"'' ''sharp''
          ''M 20 0 L 20 30 L 40 30''
          ''M 30 0 L 30 20 L 40 20''),
       (''road-tile-sharp-D2D3-L2L3.svg'',
        SVG_TEMPLATE_format ''road-tile-sharp-D2D3-L2L3''
          ''Sharp tile: Entry Bottom (X:20-30), Exit Left (Y:20-30)''
          '' transform="rotate(180 20 20)"'' ''sharp''
          ''M 20 0 L 20 30 L 40 30''
          ''M 30 0 L 30 20 L 40 20''),
       (''road-tile-sharp-L2L3-U2U3.svg'',
        SVG_TEMPLATE_format ''road-tile-sharp-L2L3-U2U3''
          ''Sharp tile: Entry Left (Y:20-30), Exit Upper (X:20-30)''
          '' transform="rotate(270 20 20)"'' ''sharp''
          ''M 20 0 L 20 30 L 40 30''
          ''M 30 0 L 30 20 L 40 20'')],
        road_printed = []\<rparr>, None)
   \<and> SVG_TMPL_format ''road-tile-sharp-24'' ''sharp tile, key=R1R2-D1D2, mask=0x24''
       '' transform="rotate(90 20 20)"'' ''M 10 0 L 10 20 L 40 20'' ''M 20 0 L 20 10 L 40 10'' =
        ''<svg xmlns="http://www.w3.org/2000/svg" id="road-tile-sharp-24" width="40" height="40" viewBox="0 0 40 40">\<newline>'' @
        ''  <desc>sharp tile, key=R1R2-D1D2, mask=0x24</desc>\<newline>'' @
        ''  <g stroke="#ccc" stroke-width="0.5">\<newline>'' @
        ''    <line x1="10" y1="0" x2="10" y2="40"/><line x1="20" y1="0" x2="20" y2="40"/><line x1="30" y1="0" x2="30" y2="40"/>\<newline>'' @
        ''    <line x1="0" y1="10" x2="40" y2="10"/><line x1="0" y1="20" x2="40" y2="20"/><line x1="0" y1="30" x2="40" y2="30"/>\<newline>'' @
        ''    <rect x="0" y="0" width="40" height="40" fill="none"/>\<newline>'' @
        ''  </g>\<newline>'' @
        ''  <g stroke="#000" stroke-width="1" fill="none" transform="rotate(90 20 20)">\<newline>'' @
        ''    <path d="M 10 0 L 10 20 L 40 20" />\<newline>'' @
        ''    <path d="M 20 0 L 20 10 L 40 10" />\<newline>'' @
        ''  </g>\<newline>'' @
        ''</svg>''
   \<and> SVG_TEMPLATE_format ''road-tile-sharp-R1R2-D1D2''
       ''Sharp tile: Entry Right (Y:10-20), Exit Bottom (X:10-20)''
       '' transform="rotate(90 20 20)"'' ''sharp'' ''M 10 0 L 10 20 L 40 20''
       ''M 20 0 L 20 10 L 40 10'' =
        ''<svg xmlns="http://www.w3.org/2000/svg" id="road-tile-sharp-R1R2-D1D2" width="40" height="40" viewBox="0 0 40 40">\<newline>'' @
        ''  <desc>Sharp tile: Entry Right (Y:10-20), Exit Bottom (X:10-20)</desc>\<newline>'' @
        ''  <defs>\<newline>'' @
        ''    <style>\<newline>'' @
        ''      /* Styles can be kept simple or removed if not strictly needed */\<newline>'' @
        ''      /* .grid { stroke: #cccccc; stroke-width: 0.5; } */\<newline>'' @
        ''      /* .road { stroke: #000000; stroke-width: 1; fill: none; } */\<newline>'' @
        ''      /* .point { fill: #ff0000; } */\<newline>'' @
        ''    </style>\<newline>'' @
        ''  </defs>\<newline>'' @
        ''\<newline>'' @
        ''  <g id="grid" stroke="#cccccc" stroke-width="0.5">\<newline>'' @
        ''    <line x1="0" y1="10" x2="40" y2="10" /> <line x1="0" y1="20" x2="40" y2="20" /> <line x1="0" y1="30" x2="40" y2="30" />\<newline>'' @
        ''    <line x1="10" y1="0" x2="10" y2="40" /> <line x1="20" y1="0" x2="20" y2="40" /> <line x1="30" y1="0" x2="30" y2="40" />\<newline>'' @
        ''    <line x1="0" y1="0" x2="40" y2="0" /> <line x1="0" y1="40" x2="40" y2="40" />\<newline>'' @
        ''    <line x1="0" y1="0" x2="0" y2="40" /> <line x1="40" y1="0" x2="40" y2="40" />\<newline>'' @
        ''  </g>\<newline>'' @
        ''\<newline>'' @
        ''  <g id="road" stroke="#000000" stroke-width="1" fill="none" transform="rotate(90 20 20)">\<newline>'' @
        ''    <path id="road-outer-sharp" d="M 10 0 L 10 20 L 40 20" />\<newline>'' @
        ''    <path id="road-inner-sharp" d="M 20 0 L 20 10 L 40 10" />\<newline>'' @
        ''  </g>\<newline>'' @
        ''\<newline>'' @
        ''  <g id="anchor-points" fill="#ff0000">\<newline>'' @
        ''    <circle cx="10" cy="0" r="1" /> <circle cx="20" cy="0" r="1" /> <circle cx="30" cy="0" r="1" />\<newline>'' @
        ''    <circle cx="40" cy="10" r="1" /> <circle cx="40" cy="20" r="1" /> <circle cx="40" cy="30" r="1" />\<newline>'' @
        ''    <circle cx="10" cy="40" r="1" /> <circle cx="20" cy="40" r="1" /> <circle cx="30" cy="40" r="1" />\<newline>'' @
        ''    <circle cx="0" cy="10" r="1" /> <circle cx="0" cy="20" r="1" /> <circle cx="0" cy="30" r="1" />\<newline>'' @
        ''  </g>\<newline>'' @
        ''</svg>\<newline>''\<close>
proof (intro conjI impI ballI)
  show \<open>rot_tile_step rot tile_type base_key paths (i, a) st =
          Inr \<lparr>used_masks = insert m (used_masks st),
               written = written st @
                 [(mask_fname tile_type m,
           SVG_TMPL_format (take (length (mask_fname tile_type m) - 4) (mask_fname tile_type m))
             (mask_desc tile_type key m) (rotate_attr a) (outer paths) (inner paths))]\<rparr>\<close>
    if \<open>rot_key rot base_key i a = Inr key \<and> key_to_mask key = Inr m \<and> m \<notin> used_masks st\<close>
    using that by (intro rot_tile_step_new) simp_all
  show \<open>rotated_tile_step rmap tile_type base_key paths (i, a) rst =
          Inr (rst\<lparr>generated_files_count := generated_files_count rst + 1,
                   road_files := road_files rst @
                     [(key_fname tile_type tile_key,
           SVG_TEMPLATE_format (remove_all ''.svg'' (key_fname tile_type tile_key)) description (rotate_attr a)
             tile_type (outer paths) (inner paths))]\<rparr>)\<close>
    if \<open>rotated_tile_key rmap base_key i a = Some (Inr tile_key)
        \<and> get_description tile_key tile_type = Inr description\<close>
    using that by (intro rotated_tile_step_new) simp_all
  show \<open>\<exists>kp \<in> set base_dict. \<exists>ia \<in> set ANGLES. \<exists>key m.
        rot_key rot (fst kp) (fst ia) (snd ia) = Inr key \<and> key_to_mask key = Inr m \<and>
        w = (mask_fname tile_type m,
           SVG_TMPL_format (take (length (mask_fname tile_type m) - 4) (mask_fname tile_type m))
             (mask_desc tile_type key m) (rotate_attr (snd ia)) (outer (snd kp)) (inner (snd kp)))\<close>
    if \<open>w \<in> set (fst (gen_rot_tiles_with rot base_dict tile_type))\<close> for w
  proof -
    from that have "w \<in> set (written (fst (base_loop rot tile_type base_dict
        \<lparr>used_masks = {}, written = []\<rparr>)))"
      by (simp add: gen_rot_tiles_with_def split: prod.splits)
    from base_loop_files [OF this] show ?thesis by simp
  qed
  show \<open>w \<in> set (road_files rst) \<or>
      (\<exists>kp \<in> set base_dict. \<exists>ia \<in> set ANGLES. \<exists>tile_key description.
        rotated_tile_key rmap (fst kp) (fst ia) (snd ia) = Some (Inr tile_key) \<and>
        get_description tile_key tile_type = Inr description \<and>
        w = (key_fname tile_type tile_key,
           SVG_TEMPLATE_format (remove_all ''.svg'' (key_fname tile_type tile_key)) description (rotate_attr (snd ia))
             tile_type (outer (snd kp)) (inner (snd kp))))\<close>
    if \<open>w \<in> set (road_files (fst (generate_rotated_tiles_with rmap base_dict tile_type rst)))\<close> for w
  proof -
    from that have "w \<in> set (road_files (fst (rotated_base_loop rmap tile_type base_dict rst)))"
      by (simp add: generate_rotated_tiles_with_def)
    then show ?thesis by (rule rotated_base_loop_files)
  qed
  show \<open>rotated_angle_loop rmap tile_type base_key paths ANGLES rst =
          (rst\<lparr>generated_files_count := generated_files_count rst + 4,
               road_files := road_files rst @
                 [(key_fname tile_type base_key,
           SVG_TEMPLATE_format (remove_all ''.svg'' (key_fname tile_type base_key)) d0 (rotate_attr 0)
             tile_type (outer paths) (inner paths)),
             (key_fname tile_type (ks ! 0),
           SVG_TEMPLATE_format (remove_all ''.svg'' (key_fname tile_type (ks ! 0))) d1 (rotate_attr 90)
             tile_type (outer paths) (inner paths)),
             (key_fname tile_type (ks ! 1),
           SVG_TEMPLATE_format (remove_all ''.svg'' (key_fname tile_type (ks ! 1))) d2 (rotate_attr 180)
             tile_type (outer paths) (inner paths)),
             (key_fname tile_type (ks ! 2),
           SVG_TEMPLATE_format (remove_all ''.svg'' (key_fname tile_type (ks ! 2))) d3 (rotate_attr 270)
             tile_type (outer paths) (inner paths))]\<rparr>, None)\<close>
    if \<open>rmap base_key = Some ks \<and> 3 \<le> length ks
        \<and> get_description base_key tile_type = Inr d0
        \<and> get_description (ks ! 0) tile_type = Inr d1
        \<and> get_description (ks ! 1) tile_type = Inr d2
        \<and> get_description (ks ! 2) tile_type = Inr d3\<close>
    using that by (intro rotated_angle_loop_four) simp_all
  show \<open>gen_rot_tiles sharp_paths_base ''sharp'' =
      ([(''road-tile-sharp-05.svg'',
        SVG_TMPL_format ''road-tile-sharp-05'' ''sharp tile, key=U1U2-R1R2, mask=0x05''
          []
          ''M 10 0 L 10 20 L 40 20''
          ''M 20 0 L 20 10 L 40 10''),
       (''road-tile-sharp-24.svg'',
        SVG_TMPL_format ''road-tile-sharp-24'' ''sharp tile, key=R1R2-D1D2, mask=0x24''
          '' transform="rotate(90 20 20)"''
          ''M 10 0 L 10 20 L 40 20''
          ''M 20 0 L 20 10 L 40 10''),
       (''road-tile-sharp-A0.svg'',
        SVG_TMPL_format ''road-tile-sharp-A0'' ''sharp tile, key=D1D2-L1L2, mask=0xA0''
          '' transform="rotate(180 20 20)"''
          ''M 10 0 L 10 20 L 40 20''
          ''M 20 0 L 20 10 L 40 10''),
       (''road-tile-sharp-81.svg'',
        SVG_TMPL_format ''road-tile-sharp-81'' ''sharp tile, key=L1L2-U1U2, mask=0x81''
          '' transform="rotate(270 20 20)"''
          ''M 10 0 L 10 20 L 40 20''
          ''M 20 0 L 20 10 L 40 10''),
       (''road-tile-sharp-09.svg'',
        SVG_TMPL_format ''road-tile-sharp-09'' ''sharp tile, key=U1U2-R2R3, mask=0x09''
          []
          ''M 10 0 L 10 30 L 40 30''
          ''M 20 0 L 20 20 L 40 20''),
       (''road-tile-sharp-14.svg'',
        SVG_TMPL_format ''road-tile-sharp-14'' ''sharp tile, key=R1R2-D2D3, mask=0x14''
          '' transform="rotate(90 20 20)"''
          ''M 10 0 L 10 30 L 40 30''
          ''M 20 0 L 20 20 L 40 20''),
       (''road-tile-sharp-60.svg'',
        SVG_TMPL_format ''road-tile-sharp-60'' ''sharp tile, key=D1D2-L2L3, mask=0x60''
          '' transform="rotate(180 20 20)"''
          ''M 10 0 L 10 30 L 40 30''
          ''M 20 0 L 20 20 L 40 20''),
       (''road-tile-sharp-82.svg'',
        SVG_TMPL_format ''road-tile-sharp-82'' ''sharp tile, key=L1L2-U2U3, mask=0x82''
          '' transform="rotate(270 20 20)"''
          ''M 10 0 L 10 30 L 40 30''
          ''M 20 0 L 20 20 L 40 20''),
       (''road-tile-sharp-06.svg'',
        SVG_TMPL_format ''road-tile-sharp-06'' ''sharp tile, key=U2U3-R1R2, mask=0x06''
          []
          ''M 20 0 L 20 20 L 40 20''
          ''M 30 0 L 30 10 L 40 10''),
       (''road-tile-sharp-28.svg'',
        SVG_TMPL_format ''road-tile-sharp-28'' ''sharp tile, key=R2R3-D1D2, mask=0x28''
          '' transform="rotate(90 20 20)"''
          ''M 20 0 L 20 20 L 40 20''
          ''M 30 0 L 30 10 L 40 10''),
       (''road-tile-sharp-90.svg'',
        SVG_TMPL_format ''road-tile-sharp-90'' ''sharp tile, key=D2D3-L1L2, mask=0x90''
          '' transform="rotate(180 20 20)"''
          ''M 20 0 L 20 20 L 40 20''
          ''M 30 0 L 30 10 L 40 10''),
       (''road-tile-sharp-41.svg'',
        SVG_TMPL_format ''road-tile-sharp-41'' ''sharp tile, key=L2L3-U1U2, mask=0x41''
          '' transform="rotate(270 20 20)"''
          ''M 20 0 L 20 20 L 40 20''
          ''M 30 0 L 30 10 L 40 10''),
       (''road-tile-sharp-0A.svg'',
        SVG_TMPL_format ''road-tile-sharp-0A'' ''sharp tile, key=U2U3-R2R3, mask=0x0A''
          []
          ''M 20 0 L 20 30 L 40 30''
          ''M 30 0 L 30 20 L 40 20''),
       (''road-tile-sharp-18.svg'',
        SVG_TMPL_format ''road-tile-sharp-18'' ''sharp tile, key=R2R3-D2D3, mask=0x18''
          '' transform="rotate(90 20 20)"''
          ''M 20 0 L 20 30 L 40 30''
          ''M 30 0 L 30 20 L 40 20''),
       (''road-tile-sharp-50.svg'',
        SVG_TMPL_format ''road-tile-sharp-50'' ''sharp tile, key=D2D3-L2L3, mask=0x50''
          '' transform="rotate(180 20 20)"''
          ''M 20 0 L 20 30 L 40 30''
          ''M 30 0 L 30 20 L 40 20''),
       (''road-tile-sharp-42.svg'',
        SVG_TMPL_format ''road-tile-sharp-42'' ''sharp tile, key=L2L3-U2U3, mask=0x42''
          '' transform="rotate(270 20 20)"''
          ''M 20 0 L 20 30 L 40 30''
          ''M 30 0 L 30 20 L 40 20'')], None)\<close>
    by (rule sharp_family_8bit)
  show \<open>generate_rotated_tiles sharp_paths_base ''sharp''
       \<lparr>generated_files_count = 0, road_files = [], road_printed = []\<rparr> =
      (\<lparr>generated_files_count = 16,
        road_files =
      [(''road-tile-sharp-U1U2-R1R2.svg'',
        SVG_TEMPLATE_format ''road-tile-sharp-U1U2-R1R2''
          ''Sharp tile: Entry Upper (X:10-20), Exit Right (Y:10-20)''
          [] ''sharp''
          ''M 10 0 L 10 20 L 40 20''
          ''M 20 0 L 20 10 L 40 10''),
       (''road-tile-sharp-R1R2-D1D2.svg'',
        SVG_TEMPLATE_format ''road-tile-sharp-R1R2-D1D2''
          ''Sharp tile: Entry Right (Y:10-20), Exit Bottom (X:10-20)''
          '' transform="rotate(90 20 20)"'' ''sharp''
          ''M 10 0 L 10 20 L 40 20''
          ''M 20 0 L 20 10 L 40 10''),
       (''road-tile-sharp-D1D2-L1L2.svg'',
        SVG_TEMPLATE_format ''road-tile-sharp-D1D2-L1L2''
          ''Sharp tile: Entry Bottom (X:10-20), Exit Left (Y:10-20)''
          '' transform="rotate(180 20 20)"'' ''sharp''
          ''M 10 0 L 10 20 L 40 20''
          ''M 20 0 L 20 10 L 40 10''),
       (''road-tile-sharp-L1L2-U1U2.svg'',
        SVG_TEMPLATE_format ''road-tile-sharp-L1L2-U1U2''
          ''Sharp tile: Entry Left (Y:10-20), Exit Upper (X:10-20)''
          '' transform="rotate(270 20 20)"'' ''sharp''
          ''M 10 0 L 10 20 L 40 20''
          ''M 20 0 L 20 10 L 40 10''),
       (''road-tile-sharp-U1U2-R2R3.svg'',
        SVG_TEMPLATE_format ''road-tile-sharp-U1U2-R2R3''
          ''Sharp tile: Entry Upper (X:10-20), Exit Right (Y:20-30)''
          [] ''sharp''
          ''M 10 0 L 10 30 L 40 30''
          ''M 20 0 L 20 20 L 40 20''),
       (''road-tile-sharp-R1R2-D2D3.svg'',
        SVG_TEMPLATE_format ''road-tile-sharp-R1R2-D2D3''
          ''Sharp tile: Entry Right (Y:10-20), Exit Bottom (X:20-30)''
          '' transform="rotate(90 20 20)"'' ''sharp''
          ''M 10 0 L 10 30 L 40 30''
          ''M 20 0 L 20 20 L 40 20''),
       (''road-tile-sharp-D1D2-L2L3.svg'',
        SVG_TEMPLATE_format ''road-tile-sharp-D1D2-L2L3''
          ''Sharp tile: Entry Bottom (X:10-20), Exit Left (Y:20-30)''
          '' transform="rotate(180 20 20)"'' ''sharp''
          ''M 10 0 L 10 30 L 40 30''
          ''M 20 0 L 20 20 L 40 20''),
       (''road-tile-sharp-L1L2-U2U3.svg'',
        SVG_TEMPLATE_format ''road-tile-sharp-L1L2-U2U3''
          ''Sharp tile: Entry Left (Y:10-20), Exit Upper (X:20-30)''
          '' transform="rotate(270 20 20)"'' ''sharp''
          ''M 10 0 L 10 30 L 40 30''
          ''M 20 0 L 20 20 L 40 20''),
       (''road-tile-sharp-U2U3-R1R2.svg'',
        SVG_TEMPLATE_format ''road-tile-sharp-U2U3-R1R2''
          ''Sharp tile: Entry Upper (X:20-30), Exit Right (Y:10-20)''
          [] ''sharp''
          ''M 20 0 L 20 20 L 40 20''
          ''M 30 0 L 30 10 L 40 10''),
       (''road-tile-sharp-R2R3-D1D2.svg'',
        SVG_TEMPLATE_format ''road-tile-sharp-R2R3-D1D2''
          ''Sharp tile: Entry Right (Y:20-30), Exit Bottom (X:10-20)''
          '' transform="rotate(90 20 20)"'' ''sharp''
          ''M 20 0 L 20 20 L 40 20''
          ''M 30 0 L 30 10 L 40 10''),
       (''road-tile-sharp-D2D3-L1L2.svg'',
        SVG_TEMPLATE_format ''road-tile-sharp-D2D3-L1L2''
          ''Sharp tile: Entry Bottom (X:20-30), Exit Left (Y:10-20)''
          '' transform="rotate(180 20 20)"'' ''sharp''
          ''M 20 0 L 20 20 L 40 20''
          ''M 30 0 L 30 10 L 40 10''),
       (''road-tile-sharp-L2L3-U1U2.svg'',
        SVG_TEMPLATE_format ''road-tile-sharp-L2L3-U1U2''
          ''Sharp tile: Entry Left (Y:20-30), Exit Upper (X:10-20)''
          '' transform="rotate(270 20 20)"'' ''sharp''
          ''M 20 0 L 20 20 L 40 20''
          ''M 30 0 L 30 10 L 40 10''),
       (''road-tile-sharp-U2U3-R2R3.svg'',
        SVG_TEMPLATE_format ''road-tile-sharp-U2U3-R2R3''
          ''Sharp tile: Entry Upper (X:20-30), Exit Right (Y:20-30)''
          [] ''sharp''
          ''M 20 0 L 20 30 L 40 30''
          ''M 30 0 L 30 20 L 40 20''),
       (''road-tile-sharp-R2R3-D2D3.svg'',
        SVG_TEMPLATE_format ''road-tile-sharp-R2R3-D2D3''
          ''Sharp tile: Entry Right (Y:20-30), Exit Bottom (X:20-30)''
          '' transform="rotate(90 20 20)"'' ''sharp''
          ''M 20 0 L 20 30 L 40 30''
          ''M 30 0 L 30 20 L 40 20''),
       (''road-tile-sharp-D2D3-L2L3.svg'',
        SVG_TEMPLATE_format ''road-tile-sharp-D2D3-L2L3''
          ''Sharp tile: Entry Bottom (X:20-30), Exit Left (Y:20-30)''
          '' transform="rotate(180 20 20)"'' ''sharp''
          ''M 20 0 L 20 30 L 40 30''
          ''M 30 0 L 30 20 L 40 20''),
       (''road-tile-sharp-L2L3-U2U3.svg'',
        SVG_TEMPLATE_format ''road-tile-sharp-L2L3-U2U3''
          ''Sharp tile: Entry Left (Y:20-30), Exit Upper (X:20-30)''
          '' transform="rotate(270 20 20)"'' ''sharp''
          ''M 20 0 L 20 30 L 40 30''
          ''M 30 0 L 30 20 L 40 20'')],
        road_printed = []\<rparr>, None)\<close>
    by (rule sharp_family_key_named)
  show \<open>SVG_TMPL_format ''road-tile-sharp-24'' ''sharp tile, key=R1R2-D1D2, mask=0x24''
       '' transform="rotate(90 20 20)"'' ''M 10 0 L 10 20 L 40 20'' ''M 20 0 L 20 10 L 40 10'' =
        ''<svg xmlns="http://www.w3.org/2000/svg" id="road-tile-sharp-24" width="40" height="40" viewBox="0 0 40 40">\<newline>'' @
        ''  <desc>sharp tile, key=R1R2-D1D2, mask=0x24</desc>\<newline>'' @
        ''  <g stroke="#ccc" stroke-width="0.5">\<newline>'' @
        ''    <line x1="10" y1="0" x2="10" y2="40"/><line x1="20" y1="0" x2="20" y2="40"/><line x1="30" y1="0" x2="30" y2="40"/>\<newline>'' @
        ''    <line x1="0" y1="10" x2="40" y2="10"/><line x1="0" y1="20" x2="40" y2="20"/><line x1="0" y1="30" x2="40" y2="30"/>\<newline>'' @
        ''    <rect x="0" y="0" width="40" height="40" fill="none"/>\<newline>'' @
        ''  </g>\<newline>'' @
        ''  <g stroke="#000" stroke-width="1" fill="none" transform="rotate(90 20 20)">\<newline>'' @
        ''    <path d="M 10 0 L 10 20 L 40 20" />\<newline>'' @
        ''    <path d="M 20 0 L 20 10 L 40 10" />\<newline>'' @
        ''  </g>\<newline>'' @
        ''</svg>''\<close>
    by (rule sharp_text_8bit)
  show \<open>SVG_TEMPLATE_format ''road-tile-sharp-R1R2-D1D2''
       ''Sharp tile: Entry Right (Y:10-20), Exit Bottom (X:10-20)''
       '' transform="rotate(90 20 20)"'' ''sharp'' ''M 10 0 L 10 20 L 40 20''
       ''M 20 0 L 20 10 L 40 10'' =
        ''<svg xmlns="http://www.w3.org/2000/svg" id="road-tile-sharp-R1R2-D1D2" width="40" height="40" viewBox="0 0 40 40">\<newline>'' @
        ''  <desc>Sharp tile: Entry Right (Y:10-20), Exit Bottom (X:10-20)</desc>\<newline>'' @
        ''  <defs>\<newline>'' @
        ''    <style>\<newline>'' @
        ''      /* Styles can be kept simple or removed if not strictly needed */\<newline>'' @
        ''      /* .grid { stroke: #cccccc; stroke-width: 0.5; } */\<newline>'' @
        ''      /* .road { stroke: #000000; stroke-width: 1; fill: none; } */\<newline>'' @
        ''      /* .point { fill: #ff0000; } */\<newline>'' @
        ''    </style>\<newline>'' @
        ''  </defs>\<newline>'' @
        ''\<newline>'' @
        ''  <g id="grid" stroke="#cccccc" stroke-width="0.5">\<newline>'' @
        ''    <line x1="0" y1="10" x2="40" y2="10" /> <line x1="0" y1="20" x2="40" y2="20" /> <line x1="0" y1="30" x2="40" y2="30" />\<newline>'' @
        ''    <line x1="10" y1="0" x2="10" y2="40" /> <line x1="20" y1="0" x2="20" y2="40" /> <line x1="30" y1="0" x2="30" y2="40" />\<newline>'' @
        ''    <line x1="0" y1="0" x2="40" y2="0" /> <line x1="0" y1="40" x2="40" y2="40" />\<newline>'' @
        ''    <line x1="0" y1="0" x2="0" y2="40" /> <line x1="40" y1="0" x2="40" y2="40" />\<newline>'' @
        ''  </g>\<newline>'' @
        ''\<newline>'' @
        ''  <g id="road" stroke="#000000" stroke-width="1" fill="none" transform="rotate(90 20 20)">\<newline>'' @
        ''    <path id="road-outer-sharp" d="M 10 0 L 10 20 L 40 20" />\<newline>'' @
        ''    <path id="road-inner-sharp" d="M 20 0 L 20 10 L 40 10" />\<newline>'' @
        ''  </g>\<newline>'' @
        ''\<newline>'' @
        ''  <g id="anchor-points" fill="#ff0000">\<newline>'' @
        ''    <circle cx="10" cy="0" r="1" /> <circle cx="20" cy="0" r="1" /> <circle cx="30" cy="0" r="1" />\<newline>'' @
        ''    <circle cx="40" cy="10" r="1" /> <circle cx="40" cy="20" r="1" /> <circle cx="40" cy="30" r="1" />\<newline>'' @
        ''    <circle cx="10" cy="40" r="1" /> <circle cx="20" cy="40" r="1" /> <circle cx="30" cy="40" r="1" />\<newline>'' @
        ''    <circle cx="0" cy="10" r="1" /> <circle cx="0" cy="20" r="1" /> <circle cx="0" cy="30" r="1" />\<newline>'' @
        ''  </g>\<newline>'' @
        ''</svg>\<newline>''\<close>
    by (rule sharp_text_key_named)
qed (simp_all add: ANGLES_eval rotate_attr_eval)

lemma sharp_one_key_8bit:
  \<open>gen_rot_tiles_with ROT_KEYS [(''U1U2-R1R2'', \<lparr>outer = ''M 10 0 L 10 20 L 40 20'', inner = ''M 20 0 L 20 10 L 40 10''\<rparr>)] ''sharp'' =
      ([(''road-tile-sharp-05.svg'',
        SVG_TMPL_format ''road-tile-sharp-05'' ''sharp tile, key=U1U2-R1R2, mask=0x05''
          []
          ''M 10 0 L 10 20 L 40 20''
          ''M 20 0 L 20 10 L 40 10''),
       (''road-tile-sharp-24.svg'',
        SVG_TMPL_format ''road-tile-sharp-24'' ''sharp tile, key=R1R2-D1D2, mask=0x24''
          '' transform="rotate(90 20 20)"''
          ''M 10 0 L 10 20 L 40 20''
          ''M 20 0 L 20 10 L 40 10''),
       (''road-tile-sharp-A0.svg'',
        SVG_TMPL_format ''road-tile-sharp-A0'' ''sharp tile, key=D1D2-L1L2, mask=0xA0''
          '' transform="rotate(180 20 20)"''
          ''M 10 0 L 10 20 L 40 20''
          ''M 20 0 L 20 10 L 40 10''),
       (''road-tile-sharp-81.svg'',
        SVG_TMPL_format ''road-tile-sharp-81'' ''sharp tile, key=L1L2-U1U2, mask=0x81''
          '' transform="rotate(270 20 20)"''
          ''M 10 0 L 10 20 L 40 20''
          ''M 20 0 L 20 10 L 40 10'')], None)\<close>
  by (simp add: gen_rot_tiles_with_def ANGLES_eval rot_tile_step_def rot_key_def py_index_def
      ROT_KEYS_def eval_key write_svg_def mask_fname_def mask_desc_def rotate_attr_def eval_fmt)

lemma sharp_one_key_named:
  \<open>generate_rotated_tiles_with rotated_keys_map [(''U1U2-R1R2'', \<lparr>outer = ''M 10 0 L 10 20 L 40 20'', inner = ''M 20 0 L 20 10 L 40 10''\<rparr>)] ''sharp''
       \<lparr>generated_files_count = 0, road_files = [], road_printed = []\<rparr> =
      (\<lparr>generated_files_count = 4,
        road_files =
      [(''road-tile-sharp-U1U2-R1R2.svg'',
        SVG_TEMPLATE_format ''road-tile-sharp-U1U2-R1R2''
          ''Sharp tile: Entry Upper (X:10-20), Exit Right (Y:10-20)''
          [] ''sharp''
          ''M 10 0 L 10 20 L 40 20''
          ''M 20 0 L 20 10 L 40 10''),
       (''road-tile-sharp-R1R2-D1D2.svg'',
        SVG_TEMPLATE_format ''road-tile-sharp-R1R2-D1D2''
          ''Sharp tile: Entry Right (Y:10-20), Exit Bottom (X:10-20)''
          '' transform="rotate(90 20 20)"'' ''sharp''
          ''M 10 0 L 10 20 L 40 20''
          ''M 20 0 L 20 10 L 40 10''),
       (''road-tile-sharp-D1D2-L1L2.svg'',
        SVG_TEMPLATE_format ''road-tile-sharp-D1D2-L1L2''
          ''Sharp tile: Entry Bottom (X:10-20), Exit Left (Y:10-20)''
          '' transform="rotate(180 20 20)"'' ''sharp''
          ''M 10 0 L 10 20 L 40 20''
          ''M 20 0 L 20 10 L 40 10''),
       (''road-tile-sharp-L1L2-U1U2.svg'',
        SVG_TEMPLATE_format ''road-tile-sharp-L1L2-U1U2''
          ''Sharp tile: Entry Left (Y:10-20), Exit Upper (X:10-20)''
          '' transform="rotate(270 20 20)"'' ''sharp''
          ''M 10 0 L 10 20 L 40 20''
          ''M 20 0 L 20 10 L 40 10'')],
        road_printed = []\<rparr>, None)\<close>
  by (simp add: generate_rotated_tiles_with_def ANGLES_eval rotated_tile_step_def
      rotated_tile_key_def py_index_def rotated_keys_map_def write_key_tile_def key_fname_def
      rotate_attr_def eval_desc eval_fmt)

theorem variants_reuse_base_paths_witness:
  \<open>rot_key ROT_KEYS ''U1U2-R1R2'' 1 90 = Inr ''R1R2-D1D2'' \<and> key_to_mask ''R1R2-D1D2'' = Inr 0x24
   \<and> rot_tile_step ROT_KEYS ''sharp'' ''U1U2-R1R2'' \<lparr>outer = ''M 10 0 L 10 20 L 40 20'', inner = ''M 20 0 L 20 10 L 40 10''\<rparr> (1, 90) \<lparr>used_masks = {}, written = []\<rparr> =
       Inr \<lparr>used_masks = {0x24}, written = [(''road-tile-sharp-24.svg'',
        SVG_TMPL_format ''road-tile-sharp-24'' ''sharp tile, key=R1R2-D1D2, mask=0x24''
          '' transform="rotate(90 20 20)"''
          ''M 10 0 L 10 20 L 40 20''
          ''M 20 0 L 20 10 L 40 10'')]\<rparr>
   \<and> rotated_tile_key rotated_keys_map ''U1U2-R1R2'' 1 90 = Some (Inr ''R1R2-D1D2'')
   \<and> get_description ''R1R2-D1D2'' ''sharp'' = Inr ''Sharp tile: Entry Right (Y:10-20), Exit Bottom (X:10-20)''
   \<and> rotated_tile_step rotated_keys_map ''sharp'' ''U1U2-R1R2'' \<lparr>outer = ''M 10 0 L 10 20 L 40 20'', inner = ''M 20 0 L 20 10 L 40 10''\<rparr> (1, 90) \<lparr>generated_files_count = 0, road_files = [], road_printed = []\<rparr> =
       Inr \<lparr>generated_files_count = 1, road_files = [(''road-tile-sharp-R1R2-D1D2.svg'',
        SVG_TEMPLATE_format ''road-tile-sharp-R1R2-D1D2''
          ''Sharp tile: Entry Right (Y:10-20), Exit Bottom (X:10-20)''
          '' transform="rotate(90 20 20)"'' ''sharp''
          ''M 10 0 L 10 20 L 40 20''
          ''M 20 0 L 20 10 L 40 10'')], road_printed = []\<rparr>
   \<and> (''road-tile-sharp-24.svg'',
        SVG_TMPL_format ''road-tile-sharp-24'' ''sharp tile, key=R1R2-D1D2, mask=0x24''
          '' transform="rotate(90 20 20)"''
          ''M 10 0 L 10 20 L 40 20''
          ''M 20 0 L 20 10 L 40 10'') \<in> set (fst (gen_rot_tiles_with ROT_KEYS [(''U1U2-R1R2'', \<lparr>outer = ''M 10 0 L 10 20 L 40 20'', inner = ''M 20 0 L 20 10 L 40 10''\<rparr>)] ''sharp''))
   \<and> (\<exists>kp \<in> set [(''U1U2-R1R2'', \<lparr>outer = ''M 10 0 L 10 20 L 40 20'', inner = ''M 20 0 L 20 10 L 40 10''\<rparr>)]. \<exists>ia \<in> set ANGLES. \<exists>key m.
        rot_key ROT_KEYS (fst kp) (fst ia) (snd ia) = Inr key \<and> key_to_mask key = Inr m \<and>
        (''road-tile-sharp-24.svg'',
        SVG_TMPL_format ''road-tile-sharp-24'' ''sharp tile, key=R1R2-D1D2, mask=0x24''
          '' transform="rotate(90 20 20)"''
          ''M 10 0 L 10 20 L 40 20''
          ''M 20 0 L 20 10 L 40 10'') = (mask_fname ''sharp'' m,
           SVG_TMPL_format (take (length (mask_fname ''sharp'' m) - 4) (mask_fname ''sharp'' m))
             (mask_desc ''sharp'' key m) (rotate_attr (snd ia)) (outer (snd kp)) (inner (snd kp))))
   \<and> (''road-tile-sharp-R1R2-D1D2.svg'',
        SVG_TEMPLATE_format ''road-tile-sharp-R1R2-D1D2''
          ''Sharp tile: Entry Right (Y:10-20), Exit Bottom (X:10-20)''
          '' transform="rotate(90 20 20)"'' ''sharp''
          ''M 10 0 L 10 20 L 40 20''
          ''M 20 0 L 20 10 L 40 10'') \<in> set (road_files (fst (generate_rotated_tiles_with rotated_keys_map
          [(''U1U2-R1R2'', \<lparr>outer = ''M 10 0 L 10 20 L 40 20'', inner = ''M 20 0 L 20 10 L 40 10''\<rparr>)] ''sharp'' \<lparr>generated_files_count = 0, road_files = [], road_printed = []\<rparr>)))
   \<and> (\<exists>kp \<in> set [(''U1U2-R1R2'', \<lparr>outer = ''M 10 0 L 10 20 L 40 20'', inner = ''M 20 0 L 20 10 L 40 10''\<rparr>)]. \<exists>ia \<in> set ANGLES. \<exists>tile_key description.
        rotated_tile_key rotated_keys_map (fst kp) (fst ia) (snd ia) = Some (Inr tile_key) \<and>
        get_description tile_key ''sharp'' = Inr description \<and>
        (''road-tile-sharp-R1R2-D1D2.svg'',
        SVG_TEMPLATE_format ''road-tile-sharp-R1R2-D1D2''
          ''Sharp tile: Entry Right (Y:10-20), Exit Bottom (X:10-20)''
          '' transform="rotate(90 20 20)"'' ''sharp''
          ''M 10 0 L 10 20 L 40 20''
          ''M 20 0 L 20 10 L 40 10'') = (key_fname ''sharp'' tile_key,
           SVG_TEMPLATE_format (remove_all ''.svg'' (key_fname ''sharp'' tile_key)) description (rotate_attr (snd ia))
             ''sharp'' (outer (snd kp)) (inner (snd kp))))
   \<and> rotated_angle_loop rotated_keys_map ''sharp'' ''U1U2-R1R2'' \<lparr>outer = ''M 10 0 L 10 20 L 40 20'', inner = ''M 20 0 L 20 10 L 40 10''\<rparr> ANGLES \<lparr>generated_files_count = 0, road_files = [], road_printed = []\<rparr> =
       (\<lparr>generated_files_count = 4,
         road_files =
      [(''road-tile-sharp-U1U2-R1R2.svg'',
        SVG_TEMPLATE_format ''road-tile-sharp-U1U2-R1R2''
          ''Sharp tile: Entry Upper (X:10-20), Exit Right (Y:10-20)''
          [] ''sharp''
          ''M 10 0 L 10 20 L 40 20''
          ''M 20 0 L 20 10 L 40 10''),
       (''road-tile-sharp-R1R2-D1D2.svg'',
        SVG_TEMPLATE_format ''road-tile-sharp-R1R2-D1D2''
          ''Sharp tile: Entry Right (Y:10-20), Exit Bottom (X:10-20)''
          '' transform="rotate(90 20 20)"'' ''sharp''
          ''M 10 0 L 10 20 L 40 20''
          ''M 20 0 L 20 10 L 40 10''),
       (''road-tile-sharp-D1D2-L1L2.svg'',
        SVG_TEMPLATE_format ''road-tile-sharp-D1D2-L1L2''
          ''Sharp tile: Entry Bottom (X:10-20), Exit Left (Y:10-20)''
          '' transform="rotate(180 20 20)"'' ''sharp''
          ''M 10 0 L 10 20 L 40 20''
          ''M 20 0 L 20 10 L 40 10''),
       (''road-tile-sharp-L1L2-U1U2.svg'',
        SVG_TEMPLATE_format ''road-tile-sharp-L1L2-U1U2''
          ''Sharp tile: Entry Left (Y:10-20), Exit Upper (X:10-20)''
          '' transform="rotate(270 20 20)"'' ''sharp''
          ''M 10 0 L 10 20 L 40 20''
          ''M 20 0 L 20 10 L 40 10'')],
         road_printed = []\<rparr>, None)\<close>
proof -
  let ?d = \<open>[(''U1U2-R1R2'', \<lparr>outer = ''M 10 0 L 10 20 L 40 20'', inner = ''M 20 0 L 20 10 L 40 10''\<rparr>)]\<close>
  let ?p = \<open>\<lparr>outer = ''M 10 0 L 10 20 L 40 20'', inner = ''M 20 0 L 20 10 L 40 10''\<rparr>\<close>
  let ?st = \<open>\<lparr>used_masks = {}, written = []\<rparr>\<close>
  let ?rst = \<open>\<lparr>generated_files_count = 0, road_files = [], road_printed = []\<rparr>\<close>
  let ?ks = \<open>[''R1R2-D1D2'', ''D1D2-L1L2'', ''L1L2-U1U2'']\<close>
  let ?w8 = \<open>(''road-tile-sharp-24.svg'',
        SVG_TMPL_format ''road-tile-sharp-24'' ''sharp tile, key=R1R2-D1D2, mask=0x24''
          '' transform="rotate(90 20 20)"''
          ''M 10 0 L 10 20 L 40 20''
          ''M 20 0 L 20 10 L 40 10'')\<close>
  let ?wg = \<open>(''road-tile-sharp-R1R2-D1D2.svg'',
        SVG_TEMPLATE_format ''road-tile-sharp-R1R2-D1D2''
          ''Sharp tile: Entry Right (Y:10-20), Exit Bottom (X:10-20)''
          '' transform="rotate(90 20 20)"'' ''sharp''
          ''M 10 0 L 10 20 L 40 20''
          ''M 20 0 L 20 10 L 40 10'')\<close>
  note t = variants_reuse_base_paths [where rot = ROT_KEYS and base_key = \<open>''U1U2-R1R2''\<close>
      and i = 1 and a = 90 and key = \<open>''R1R2-D1D2''\<close> and m = \<open>0x24\<close> and st = ?st
      and tile_type = \<open>''sharp''\<close> and paths = ?p and rmap = rotated_keys_map
      and tile_key = \<open>''R1R2-D1D2''\<close> and description = \<open>''Sharp tile: Entry Right (Y:10-20), Exit Bottom (X:10-20)''\<close> and rst = ?rst
      and base_dict = ?d and ks = ?ks and ?d0.0 = \<open>''Sharp tile: Entry Upper (X:10-20), Exit Right (Y:10-20)''\<close> and ?d1.0 = \<open>''Sharp tile: Entry Right (Y:10-20), Exit Bottom (X:10-20)''\<close>
      and ?d2.0 = \<open>''Sharp tile: Entry Bottom (X:10-20), Exit Left (Y:10-20)''\<close> and ?d3.0 = \<open>''Sharp tile: Entry Left (Y:10-20), Exit Upper (X:10-20)''\<close>]
  have k: \<open>rot_key ROT_KEYS ''U1U2-R1R2'' 1 90 = Inr ''R1R2-D1D2''\<close>
    by (simp add: rot_key_def ROT_KEYS_def py_index_def)
  have m: \<open>key_to_mask ''R1R2-D1D2'' = Inr 0x24\<close> by (simp add: eval_key)
  have u: \<open>(0x24 :: int) \<notin> used_masks ?st\<close> by simp
  have rk: \<open>rotated_tile_key rotated_keys_map ''U1U2-R1R2'' 1 90 = Some (Inr ''R1R2-D1D2'')\<close>
    by (simp add: rotated_tile_key_def rotated_keys_map_def py_index_def)
  have ds: \<open>get_description ''U1U2-R1R2'' ''sharp'' = Inr ''Sharp tile: Entry Upper (X:10-20), Exit Right (Y:10-20)''\<close>
    \<open>get_description ''R1R2-D1D2'' ''sharp'' = Inr ''Sharp tile: Entry Right (Y:10-20), Exit Bottom (X:10-20)''\<close>
    \<open>get_description ''D1D2-L1L2'' ''sharp'' = Inr ''Sharp tile: Entry Bottom (X:10-20), Exit Left (Y:10-20)''\<close>
    \<open>get_description ''L1L2-U1U2'' ''sharp'' = Inr ''Sharp tile: Entry Left (Y:10-20), Exit Upper (X:10-20)''\<close>
    by (simp_all add: eval_desc)
  have tb: \<open>rotated_keys_map ''U1U2-R1R2'' = Some ?ks\<close> by (simp add: rotated_keys_map_def)
  from t [THEN conjunct1, THEN mp, OF conjI [OF k conjI [OF m u]]]
  have c1: \<open>rot_tile_step ROT_KEYS ''sharp'' ''U1U2-R1R2'' ?p (1, 90) ?st =
       Inr \<lparr>used_masks = {0x24}, written = [?w8]\<rparr>\<close>
    by (simp add: mask_fname_def mask_desc_def rotate_attr_eval eval_fmt)
  from t [THEN conjunct2, THEN conjunct1, THEN mp, OF conjI [OF rk ds(2)]]
  have c2: \<open>rotated_tile_step rotated_keys_map ''sharp'' ''U1U2-R1R2'' ?p (1, 90) ?rst =
       Inr \<lparr>generated_files_count = 1, road_files = [?wg], road_printed = []\<rparr>\<close>
    by (simp add: key_fname_def rotate_attr_eval)
  have m8: \<open>?w8 \<in> set (fst (gen_rot_tiles_with ROT_KEYS ?d ''sharp''))\<close>
    by (simp only: sharp_one_key_8bit fst_conv) simp
  from bspec [OF t [THEN conjunct2, THEN conjunct2, THEN conjunct1] m8]
  have c3: \<open>\<exists>kp \<in> set ?d. \<exists>ia \<in> set ANGLES. \<exists>key m.
        rot_key ROT_KEYS (fst kp) (fst ia) (snd ia) = Inr key \<and> key_to_mask key = Inr m \<and>
        ?w8 = (mask_fname ''sharp'' m,
           SVG_TMPL_format (take (length (mask_fname ''sharp'' m) - 4) (mask_fname ''sharp'' m))
             (mask_desc ''sharp'' key m) (rotate_attr (snd ia)) (outer (snd kp)) (inner (snd kp)))\<close> .
  have mg: \<open>?wg \<in> set (road_files (fst (generate_rotated_tiles_with rotated_keys_map ?d
        ''sharp'' ?rst)))\<close>
    by (simp only: sharp_one_key_named fst_conv) simp
  from bspec [OF t [THEN conjunct2, THEN conjunct2, THEN conjunct2, THEN conjunct1] mg]
  have c4: \<open>\<exists>kp \<in> set ?d. \<exists>ia \<in> set ANGLES. \<exists>tile_key description.
        rotated_tile_key rotated_keys_map (fst kp) (fst ia) (snd ia) = Some (Inr tile_key) \<and>
        get_description tile_key ''sharp'' = Inr description \<and>
        ?wg = (key_fname ''sharp'' tile_key,
           SVG_TEMPLATE_format (remove_all ''.svg'' (key_fname ''sharp'' tile_key)) description (rotate_attr (snd ia))
             ''sharp'' (outer (snd kp)) (inner (snd kp)))\<close>
    by simp
  have h5: \<open>rotated_keys_map ''U1U2-R1R2'' = Some ?ks \<and> 3 \<le> length ?ks
        \<and> get_description ''U1U2-R1R2'' ''sharp'' = Inr ''Sharp tile: Entry Upper (X:10-20), Exit Right (Y:10-20)''
        \<and> get_description (?ks ! 0) ''sharp'' = Inr ''Sharp tile: Entry Right (Y:10-20), Exit Bottom (X:10-20)''
        \<and> get_description (?ks ! 1) ''sharp'' = Inr ''Sharp tile: Entry Bottom (X:10-20), Exit Left (Y:10-20)''
        \<and> get_description (?ks ! 2) ''sharp'' = Inr ''Sharp tile: Entry Left (Y:10-20), Exit Upper (X:10-20)''\<close>
    using tb ds by simp
  from t [THEN conjunct2, THEN conjunct2, THEN conjunct2, THEN conjunct2, THEN conjunct1,
      THEN mp, OF h5]
  have c5: \<open>rotated_angle_loop rotated_keys_map ''sharp'' ''U1U2-R1R2'' ?p ANGLES ?rst =
       (\<lparr>generated_files_count = 4,
         road_files =
      [(''road-tile-sharp-U1U2-R1R2.svg'',
        SVG_TEMPLATE_format ''road-tile-sharp-U1U2-R1R2''
          ''Sharp tile: Entry Upper (X:10-20), Exit Right (Y:10-20)''
          [] ''sharp''
          ''M 10 0 L 10 20 L 40 20''
          ''M 20 0 L 20 10 L 40 10''),
       (''road-tile-sharp-R1R2-D1D2.svg'',
        SVG_TEMPLATE_format ''road-tile-sharp-R1R2-D1D2''
          ''Sharp tile: Entry Right (Y:10-20), Exit Bottom (X:10-20)''
          '' transform="rotate(90 20 20)"'' ''sharp''
          ''M 10 0 L 10 20 L 40 20''
          ''M 20 0 L 20 10 L 40 10''),
       (''road-tile-sharp-D1D2-L1L2.svg'',
        SVG_TEMPLATE_format ''road-tile-sharp-D1D2-L1L2''
          ''Sharp tile: Entry Bottom (X:10-20), Exit Left (Y:10-20)''
          '' transform="rotate(180 20 20)"'' ''sharp''
          ''M 10 0 L 10 20 L 40 20''
          ''M 20 0 L 20 10 L 40 10''),
       (''road-tile-sharp-L1L2-U1U2.svg'',
        SVG_TEMPLATE_format ''road-tile-sharp-L1L2-U1U2''
          ''Sharp tile: Entry Left (Y:10-20), Exit Upper (X:10-20)''
          '' transform="rotate(270 20 20)"'' ''sharp''
          ''M 10 0 L 10 20 L 40 20''
          ''M 20 0 L 20 10 L 40 10'')],
         road_printed = []\<rparr>, None)\<close>
    by (simp add: key_fname_def rotate_attr_eval)
  show ?thesis by (intro conjI k m c1 rk ds(2) c2 m8 c3 mg c4 c5)
qed

end
